theory Spec2Isabelle
  imports Complex_Main "HOL-Library.Sublist"
begin

section \<open>JavaScript values used by the dashboard scripts\<close>

text \<open>
  The four scripts under \<^verbatim>\<open>static/\<close> are event handlers that read JSON
  and write the document.  Their model is a shallow one: JSON objects are records whose
  fields are optional (\<open>None\<close> stands for a field that is \<^verbatim>\<open>undefined\<close> or
  \<^verbatim>\<open>null\<close>), a thrown \<^verbatim>\<open>TypeError\<close> is the left summand of a
  result, the parts of the document a handler touches are a record that the handler
  returns updated, and a promise is the pair of its two continuations applied to the
  outcome of the request.

  Strings are \<^typ>\<open>string\<close>; a character is a code unit below 256.
\<close>

subsection \<open>Numbers\<close>

text \<open>
  A number is an IEEE double.  Every finite double is a rational, which is how it is
  carried here; \<open>to_double\<close> rounds a rational to the nearest double (ties to even),
  with the subnormal range and the overflow to infinity.  The sign of zero is not kept:
  no code below divides by a number or inspects the sign of zero.
\<close>

datatype jsnum = NaN | NegInf | PosInf | Fin rat

datatype error = TypeError | LeafletError

fun num_lt :: "jsnum \<Rightarrow> jsnum \<Rightarrow> bool" where
  "num_lt NaN _ = False"
| "num_lt _ NaN = False"
| "num_lt PosInf _ = False"
| "num_lt _ NegInf = False"
| "num_lt NegInf _ = True"
| "num_lt _ PosInf = True"
| "num_lt (Fin a) (Fin b) = (a < b)"

fun num_le :: "jsnum \<Rightarrow> jsnum \<Rightarrow> bool" where
  "num_le NaN _ = False"
| "num_le _ NaN = False"
| "num_le NegInf _ = True"
| "num_le _ PosInf = True"
| "num_le PosInf _ = False"
| "num_le _ NegInf = False"
| "num_le (Fin a) (Fin b) = (a \<le> b)"

definition num_gt :: "jsnum \<Rightarrow> jsnum \<Rightarrow> bool" where
  "num_gt a b = num_lt b a"

text \<open>Strict equality \<^verbatim>\<open>===\<close> of two numbers: \<^verbatim>\<open>NaN\<close> equals nothing.\<close>

definition num_eq :: "jsnum \<Rightarrow> jsnum \<Rightarrow> bool" where
  "num_eq a b = (a \<noteq> NaN \<and> a = b)"

definition isNaN :: "jsnum \<Rightarrow> bool" where
  "isNaN a = (a = NaN)"

text \<open>A number is falsy when it is zero or \<^verbatim>\<open>NaN\<close>.\<close>

definition num_truthy :: "jsnum \<Rightarrow> bool" where
  "num_truthy a = (a \<noteq> NaN \<and> a \<noteq> Fin 0)"

definition round_half_even :: "rat \<Rightarrow> int" where
  "round_half_even q =
     (let f = \<lfloor>q\<rfloor>; r = q - of_int f
      in if r < 1 / 2 then f else if 1 / 2 < r then f + 1
         else if even f then f else f + 1)"

function bit_length :: "int \<Rightarrow> int" where
  "bit_length n = (if n \<le> 0 then 0 else 1 + bit_length (n div 2))"
  by pat_completeness auto
termination
  by (relation "measure nat") auto

text \<open>
  For \<open>0 < q\<close>, \<open>binade q\<close> is the exponent \<open>e\<close> with \<open>2 ^ e \<le> q < 2 ^ (e + 1)\<close>.
  A double has 53 significant bits, so its last bit weighs \<open>2 ^ (e - 52)\<close>, and
  \<open>2 ^ - 1074\<close> in the subnormal range.  The rounded value reaches \<open>2 ^ 1024\<close>, which
  is infinite, when \<open>1024 \<le> e\<close> or when the significand rounds up to \<open>2 ^ 53\<close> at
  \<open>e = 1023\<close>.
\<close>

definition binade :: "rat \<Rightarrow> int" where
  "binade q = (if 1 \<le> q then bit_length \<lfloor>q\<rfloor> - 1 else - bit_length (\<lceil>1 / q\<rceil> - 1))"

definition to_double :: "rat \<Rightarrow> jsnum" where
  "to_double q =
     (if q = 0 then Fin 0
      else let a = \<bar>q\<bar>;
               e = max (binade a) (- 1022);
               ulp = 2 powi (e - 52);
               n = round_half_even (a / ulp)
           in if 1024 \<le> e \<or> (e = 1023 \<and> n = 2 ^ 53)
              then (if q < 0 then NegInf else PosInf)
              else Fin (if q < 0 then - (of_int n * ulp) else of_int n * ulp))"

subsection \<open>Numbers as text\<close>

definition is_digit :: "char \<Rightarrow> bool" where
  "is_digit c = (c \<in> set ''0123456789'')"

text \<open>Digits are read and written over \<^typ>\<open>int\<close>.\<close>

definition digit_val :: "char \<Rightarrow> int" where
  "digit_val c = int (length (takeWhile (\<lambda>d. d \<noteq> c) ''0123456789''))"

definition digits_val :: "string \<Rightarrow> int" where
  "digits_val ds = foldl (\<lambda>a c. 10 * a + digit_val c) 0 ds"

definition digit_char :: "int \<Rightarrow> char" where
  "digit_char d = ''0123456789'' ! nat d"

function int_to_string :: "int \<Rightarrow> string" where
  "int_to_string n =
     (if n < 10 then [digit_char n] else int_to_string (n div 10) @ [digit_char (n mod 10)])"
  by pat_completeness auto
termination
  by (relation "measure nat") auto

function num_digits :: "int \<Rightarrow> int" where
  "num_digits n = (if n < 10 then 1 else 1 + num_digits (n div 10))"
  by pat_completeness auto
termination
  by (relation "measure nat") auto

text \<open>For \<open>0 < q\<close>, \<open>decade q\<close> is the \<open>n\<close> with \<open>10 ^ (n - 1) \<le> q < 10 ^ n\<close>.\<close>

definition decade :: "rat \<Rightarrow> int" where
  "decade q = (if 1 \<le> q then num_digits \<lfloor>q\<rfloor> else 1 - num_digits (\<lceil>1 / q\<rceil> - 1))"

definition drop_trailing_zeros :: "string \<Rightarrow> string" where
  "drop_trailing_zeros ds = rev (dropWhile (\<lambda>c. c = CHR ''0'') (rev ds))"

text \<open>
  \<^verbatim>\<open>Number.prototype.toString\<close> prints the digits of the shortest decimal that
  reads back as the same double.  \<open>candidates x n k\<close> are the \<open>k\<close>-digit decimals at
  scale \<open>10 ^ (n - k)\<close> that round to \<open>x\<close> (the nearer one when both neighbours do),
  and \<open>shortest\<close> takes the first \<open>k\<close> that has one; seventeen digits always do.
\<close>

definition candidates :: "rat \<Rightarrow> int \<Rightarrow> nat \<Rightarrow> int list" where
  "candidates x n k =
     (let sc = 10 powi (n - int k); lo = \<lfloor>x / sc\<rfloor>;
          ok = filter (\<lambda>c. to_double (of_int c * sc) = Fin x) [lo, lo + 1]
      in case ok of
           [a, b] \<Rightarrow> if x - of_int a * sc < of_int b * sc - x then [a]
                     else if of_int b * sc - x < x - of_int a * sc then [b]
                     else if even a then [a] else [b]
         | cs \<Rightarrow> cs)"

function shortest :: "rat \<Rightarrow> int \<Rightarrow> nat \<Rightarrow> string \<times> int" where
  "shortest x n k =
     (case candidates x n k of
        c # _ \<Rightarrow> (drop_trailing_zeros (int_to_string c), if c = 10 ^ k then n + 1 else n)
      | [] \<Rightarrow> if 17 \<le> k then (int_to_string \<lfloor>x / 10 powi (n - int k)\<rfloor>, n)
              else shortest x n (Suc k))"
  by pat_completeness auto
termination
  by (relation "measure (\<lambda>(x, n, k). 17 - k)") auto

definition pos_to_string :: "rat \<Rightarrow> string" where
  "pos_to_string x =
     (let (ds, n) = shortest x (decade x) 1; k = int (length ds)
      in if k \<le> n \<and> n \<le> 21 then ds @ replicate (nat (n - k)) CHR ''0''
         else if 0 < n \<and> n \<le> 21 then take (nat n) ds @ ''.'' @ drop (nat n) ds
         else if - 6 < n \<and> n \<le> 0 then ''0.'' @ replicate (nat (- n)) CHR ''0'' @ ds
         else let e = (if 0 \<le> n - 1 then ''+'' else ''-'') @ int_to_string \<bar>n - 1\<bar>
              in if k = 1 then ds @ ''e'' @ e
                 else take 1 ds @ ''.'' @ drop 1 ds @ ''e'' @ e)"

fun number_to_string :: "jsnum \<Rightarrow> string" where
  "number_to_string NaN = ''NaN''"
| "number_to_string PosInf = ''Infinity''"
| "number_to_string NegInf = ''-Infinity''"
| "number_to_string (Fin q) =
     (case to_double q of
        Fin d \<Rightarrow> if d = 0 then ''0'' else if d < 0 then ''-'' @ pos_to_string (- d)
                 else pos_to_string d
      | PosInf \<Rightarrow> ''Infinity'' | NegInf \<Rightarrow> ''-Infinity'' | NaN \<Rightarrow> ''NaN'')"

text \<open>
  \<^verbatim>\<open>x.toFixed(f)\<close>: the integer \<open>n\<close> nearest to \<open>x * 10 ^ f\<close> (the larger one
  on a tie), printed with \<open>f\<close> digits after the point; from \<open>10 ^ 21\<close> on, and for
  \<^verbatim>\<open>NaN\<close> and the infinities, the default text of the number.
\<close>

definition fixed_digits :: "nat \<Rightarrow> rat \<Rightarrow> string" where
  "fixed_digits f x =
     (let m = int_to_string \<lfloor>x * 10 ^ f + 1 / 2\<rfloor>
      in if f = 0 then m
         else let z = replicate (Suc f - length m) CHR ''0'' @ m; k = length z
              in take (k - f) z @ ''.'' @ drop (k - f) z)"

fun toFixed :: "jsnum \<Rightarrow> nat \<Rightarrow> string" where
  "toFixed (Fin q) f =
     (if 10 ^ 21 \<le> \<bar>q\<bar> then number_to_string (Fin q)
      else if q < 0 then ''-'' @ fixed_digits f (- q) else fixed_digits f q)"
| "toFixed x f = number_to_string x"

declare toFixed.simps [simp del] number_to_string.simps [simp del]

text \<open>Multiplication and division of doubles, as far as the scripts use them.\<close>

fun num_times :: "jsnum \<Rightarrow> rat \<Rightarrow> jsnum" where
  "num_times (Fin q) c = to_double (q * c)"
| "num_times NaN c = NaN"
| "num_times PosInf c = (if c = 0 then NaN else if 0 < c then PosInf else NegInf)"
| "num_times NegInf c = (if c = 0 then NaN else if 0 < c then NegInf else PosInf)"

fun num_div :: "jsnum \<Rightarrow> rat \<Rightarrow> jsnum" where
  "num_div (Fin q) c = to_double (q / c)"
| "num_div x c = x"

subsection \<open>Strings\<close>

text \<open>White space as \<^verbatim>\<open>\s\<close>, \<^verbatim>\<open>trim\<close> and \<^verbatim>\<open>parseFloat\<close> see it, below 256.\<close>

definition is_space :: "char \<Rightarrow> bool" where
  "is_space c = (of_char c \<in> set [9, 10, 11, 12, 13, 32, 160 :: nat])"

definition to_lower_char :: "char \<Rightarrow> char" where
  "to_lower_char c =
     (let n = of_char c :: nat
      in if (65 \<le> n \<and> n \<le> 90) \<or> (192 \<le> n \<and> n \<le> 222 \<and> n \<noteq> 215)
         then char_of (n + 32) else c)"

definition toLowerCase :: "string \<Rightarrow> string" where
  "toLowerCase s = map to_lower_char s"

definition trim :: "string \<Rightarrow> string" where
  "trim s = rev (dropWhile is_space (rev (dropWhile is_space s)))"

text \<open>\<^verbatim>\<open>s.includes(t)\<close>: \<open>t\<close> occurs in \<open>s\<close> as a run of consecutive characters.\<close>

fun str_includes :: "string \<Rightarrow> string \<Rightarrow> bool" where
  "str_includes [] t = (t = [])"
| "str_includes (c # cs) t = (prefix t (c # cs) \<or> str_includes cs t)"

text \<open>
  \<^verbatim>\<open>s.replace(' ', '-')\<close> with a string pattern replaces the first blank only;
  \<^verbatim>\<open>s.replace(/ /g, '-')\<close> replaces every blank.
\<close>

fun replace_first_blank :: "string \<Rightarrow> string" where
  "replace_first_blank [] = []"
| "replace_first_blank (c # cs) =
     (if c = CHR '' '' then CHR ''-'' # cs else c # replace_first_blank cs)"

definition replace_all_blanks :: "string \<Rightarrow> string" where
  "replace_all_blanks s = map (\<lambda>c. if c = CHR '' '' then CHR ''-'' else c) s"

text \<open>
  \<^verbatim>\<open>parseFloat\<close> skips leading white space and reads the longest prefix that is a
  decimal literal: a sign, then \<^verbatim>\<open>Infinity\<close> or digits with an optional
  fraction and an optional exponent (an exponent counts only when it has a digit).
  Without such a prefix the result is \<^verbatim>\<open>NaN\<close>.
\<close>

definition parse_exponent :: "string \<Rightarrow> int" where
  "parse_exponent r =
     (case r of
        [] \<Rightarrow> 0
      | e # r1 \<Rightarrow>
          if e = CHR ''e'' \<or> e = CHR ''E'' then
            (case r1 of
               [] \<Rightarrow> 0
             | g # r2 \<Rightarrow>
                 if g = CHR ''+'' then digits_val (takeWhile is_digit r2)
                 else if g = CHR ''-'' then - digits_val (takeWhile is_digit r2)
                 else digits_val (takeWhile is_digit r1))
          else 0)"

definition parse_unsigned :: "string \<Rightarrow> rat option" where
  "parse_unsigned s =
     (let ip = takeWhile is_digit s; r1 = dropWhile is_digit s;
          dot = (r1 \<noteq> [] \<and> hd r1 = CHR ''.'');
          fp = (if dot then takeWhile is_digit (tl r1) else []);
          r2 = (if dot then dropWhile is_digit (tl r1) else r1)
      in if ip = [] \<and> fp = [] then None
         else Some (of_int (digits_val (ip @ fp)) * 10 powi (parse_exponent r2 - int (length fp))))"

definition parseFloat :: "string \<Rightarrow> jsnum" where
  "parseFloat s =
     (let t = dropWhile is_space s;
          neg = (t \<noteq> [] \<and> hd t = CHR ''-'');
          u = (if t \<noteq> [] \<and> (hd t = CHR ''-'' \<or> hd t = CHR ''+'') then tl t else t)
      in if prefix ''Infinity'' u then (if neg then NegInf else PosInf)
         else case parse_unsigned u of
                None \<Rightarrow> NaN
              | Some q \<Rightarrow> to_double (if neg then - q else q))"

section \<open>script.js: the prediction form\<close>

text \<open>
  The submit handler reads the two inputs \<^verbatim>\<open>phone_number\<close> and
  \<^verbatim>\<open>transaction_amount\<close>.  Of the document it touches the inputs' parent
  elements (where \<^verbatim>\<open>showValidationError\<close> removes the first element of class
  \<^verbatim>\<open>validation-error\<close> and appends a new one), the inputs' animation style, and
  the class list of \<^verbatim>\<open>loadingOverlay\<close>.  A parent element is named by a number;
  the two inputs may share one.
\<close>

datatype field = Phone | Amount

datatype task = ClearAnimation field

record error_div =
  ed_className :: string
  ed_cssText :: string
  ed_innerHTML :: string

record form_page =
  phone_value :: string
  amount_value :: string
  phone_parent :: nat
  amount_parent :: nat
  validation_errors :: "nat \<Rightarrow> error_div list"
  phone_animation :: string
  amount_animation :: string
  overlay_classes :: "string list option"
  form_timers :: "(nat \<times> task) list"

definition parent_of :: "field \<Rightarrow> form_page \<Rightarrow> nat" where
  "parent_of f p = (case f of Phone \<Rightarrow> phone_parent p | Amount \<Rightarrow> amount_parent p)"

definition set_animation :: "field \<Rightarrow> string \<Rightarrow> form_page \<Rightarrow> form_page" where
  "set_animation f a p =
     (case f of Phone \<Rightarrow> p\<lparr>phone_animation := a\<rparr> | Amount \<Rightarrow> p\<lparr>amount_animation := a\<rparr>)"

definition showValidationError :: "field \<Rightarrow> string \<Rightarrow> form_page \<Rightarrow> form_page" where
  \<open>showValidationError input message p =
     (let parent = parent_of input p;
          existing = validation_errors p parent;
          removed = (case existing of [] \<Rightarrow> [] | _ # rest \<Rightarrow> rest);
          errorDiv = \<lparr>ed_className = ''validation-error'',
            ed_cssText = ''color: #ef4444; font-size: 0.85rem; margin-top: 0.5rem; display: flex; align-items: center; gap: 0.5rem;'',
            ed_innerHTML = ''<i class="bi bi-exclamation-circle"></i> '' @ message\<rparr>;
          p1 = p\<lparr>validation_errors := (validation_errors p)(parent := removed @ [errorDiv])\<rparr>;
          p2 = set_animation input ''shake 0.5s'' p1
      in p2\<lparr>form_timers := form_timers p2 @ [(500, ClearAnimation input)]\<rparr>)\<close>

definition run_task :: "task \<Rightarrow> form_page \<Rightarrow> form_page" where
  "run_task t p = (case t of ClearAnimation f \<Rightarrow> set_animation f [] p)"

text \<open>
  What one run of the handler leaves behind: the page, whether
  \<^verbatim>\<open>preventDefault\<close> was called (the form is then not submitted), the
  \<^verbatim>\<open>window.confirm\<close> dialogs that were opened, and an error if one was thrown.
\<close>

record submit_result =
  page :: form_page
  defaultPrevented :: bool
  confirms :: "string list"
  thrown :: "error option"

definition phoneRegex_test :: "string \<Rightarrow> bool" where
  "phoneRegex_test s =
     (let t = (case s of [] \<Rightarrow> [] | c # r \<Rightarrow> if c = CHR ''+'' then r else s)
      in case t of
           [] \<Rightarrow> False
         | d # ds \<Rightarrow> d \<in> set ''123456789'' \<and> 1 \<le> length ds \<and> length ds \<le> 14
                     \<and> list_all is_digit ds)"

definition strip_separators :: "string \<Rightarrow> string" where
  "strip_separators s = filter (\<lambda>c. \<not> (is_space c \<or> c = CHR ''-'')) s"

definition phone_valid :: "string \<Rightarrow> bool" where
  "phone_valid v = phoneRegex_test (strip_separators v)"

definition amount_valid :: "string \<Rightarrow> bool" where
  "amount_valid v = (let amount = parseFloat v in \<not> (isNaN amount \<or> num_le amount (Fin 0)))"

text \<open>
  The listener of the form's \<^verbatim>\<open>submit\<close> event. \<open>answer\<close> is what the user
  answers if the confirmation dialog opens.
\<close>

definition submit_handler :: "bool \<Rightarrow> form_page \<Rightarrow> submit_result" where
  "submit_handler answer p =
     (if \<not> phone_valid (phone_value p) then
        \<lparr>page = showValidationError Phone
            ''Please enter a valid phone number (e.g., +1234567890)'' p,
          defaultPrevented = True, confirms = [], thrown = None\<rparr>
      else let amount = parseFloat (amount_value p) in
        if isNaN amount \<or> num_le amount (Fin 0) then
          \<lparr>page = showValidationError Amount
              ''Please enter a valid amount greater than 0'' p,
            defaultPrevented = True, confirms = [], thrown = None\<rparr>
        else let asked = (if num_gt amount (Fin 1000000)
                          then [''This is a large transaction amount. Are you sure you want to proceed?'']
                          else [])
          in if num_gt amount (Fin 1000000) \<and> \<not> answer then
               \<lparr>page = p, defaultPrevented = True, confirms = asked, thrown = None\<rparr>
             else (case overlay_classes p of
                     None \<Rightarrow> \<lparr>page = p, defaultPrevented = False, confirms = asked,
                               thrown = Some TypeError\<rparr>
                   | Some cs \<Rightarrow>
                       \<lparr>page = p\<lparr>overlay_classes :=
                                   Some (if ''active'' \<in> set cs then cs else cs @ [''active''])\<rparr>,
                         defaultPrevented = False, confirms = asked, thrown = None\<rparr>))"

section \<open>script.js: feedback\<close>

text \<open>
  \<^verbatim>\<open>script.js\<close> declares the function \<^verbatim>\<open>submitFeedback\<close> twice, at
  lines 96 and 446.  Function declarations are hoisted and the later one replaces the
  earlier, so the name, and \<^verbatim>\<open>window.submitFeedback\<close>, denote the second.
  The two are \<open>submitFeedback_1\<close> and \<open>submitFeedback_2\<close> here.

  Of the document they touch the buttons (found by class), the element
  \<^verbatim>\<open>feedbackMessage\<close> (absent when \<open>None\<close>), and they start timers and one
  request.  In markup templates every run of white space is written as one blank.
\<close>

datatype content = Text string | Html string

record button =
  btn_classes :: "string list"
  btn_disabled :: bool
  btn_opacity :: string
  btn_cursor :: string

record message_el =
  msg_content :: content
  msg_className :: string
  msg_display :: string

record request =
  req_url :: string
  req_method :: string
  req_headers :: "(string \<times> string) list"
  req_body :: "(string \<times> string) list"

text \<open>
  A timer task of the first definition: empty the message, or enable again the buttons
  that \<^verbatim>\<open>querySelectorAll\<close> returned when the function was called (their
  positions among the buttons).
\<close>

datatype fb_task = ClearMessage | EnableButtons "nat list"

record feedback_page =
  buttons :: "button list"
  feedbackMessage :: "message_el option"
  fb_timers :: "(nat \<times> fb_task) list"
  requests :: "request list"
  console_errors :: "string list"

text \<open>
  How the request ends: the promise of \<^verbatim>\<open>fetch\<close> or of
  \<^verbatim>\<open>response.json()\<close> is rejected, or the body is JSON.  The second definition
  reads \<^verbatim>\<open>data.message\<close> and \<^verbatim>\<open>data.status\<close>; a body that is
  \<^verbatim>\<open>null\<close> is \<open>Json None\<close>.
\<close>

record reply =
  message :: "string option"
  status :: "string option"

datatype 'a fetched = Rejected | Json 'a

definition selectAll :: "string \<Rightarrow> button list \<Rightarrow> nat list" where
  "selectAll c bs = filter (\<lambda>i. c \<in> set (btn_classes (bs ! i))) [0..<length bs]"

definition update_buttons :: "nat list \<Rightarrow> (button \<Rightarrow> button) \<Rightarrow> button list \<Rightarrow> button list" where
  "update_buttons sel f bs = map (\<lambda>i. if i \<in> set sel then f (bs ! i) else bs ! i) [0..<length bs]"

definition hex_val :: "char \<Rightarrow> int option" where
  "hex_val c =
     (let i = length (takeWhile (\<lambda>d. d \<noteq> c) ''0123456789abcdef'');
          j = length (takeWhile (\<lambda>d. d \<noteq> c) ''0123456789ABCDEF'')
      in if i < 16 then Some (int i) else if j < 16 then Some (int j) else None)"

definition hexToRgb :: "string \<Rightarrow> string" where
  "hexToRgb hex =
     (let h = (case hex of [] \<Rightarrow> [] | c # r \<Rightarrow> if c = CHR ''#'' then r else hex)
      in case map hex_val h of
           [Some a, Some b, Some c, Some d, Some e, Some f] \<Rightarrow>
             int_to_string (16 * a + b) @ '', '' @ int_to_string (16 * c + d) @ '', ''
               @ int_to_string (16 * e + f)
         | _ \<Rightarrow> ''16, 185, 129'')"

subsection \<open>The first definition (line 96)\<close>

definition feedback_style :: "string \<Rightarrow> string \<times> string \<times> string" where
  "feedback_style feedbackType =
     (if feedbackType = ''correct'' then
        (''check-circle'', ''#10b981'', ''Thank you! Your feedback helps improve our AI model.'')
      else if feedbackType = ''false_positive'' then
        (''info-circle'', ''#f59e0b'', ''Noted. We'll review this case to improve accuracy.'')
      else if feedbackType = ''under_review'' then
        (''clock'', ''#3b82f6'', ''Marked for review. Our team will investigate.'')
      else (''check-circle'', ''#10b981'', ''Feedback received!''))"

definition success_markup :: "string \<Rightarrow> string" where
  \<open>success_markup feedbackType =
     (let (icon, color, message) = feedback_style feedbackType
      in '' <div style="padding: 1rem; background: rgba('' @ hexToRgb color
         @ '', 0.1); border: 1px solid '' @ color @ ''; border-radius: 8px; color: '' @ color
         @ ''; margin-top: 1rem; animation: slideDown 0.3s ease-out;"> <i class="bi bi-'' @ icon
         @ ''" style="font-size: 1.2rem; margin-right: 0.5rem;"></i> '' @ message @ '' </div> '')\<close>

definition failure_markup :: string where
  \<open>failure_markup = '' <div style="padding: 1rem; background: rgba(239, 68, 68, 0.1); border: 1px solid #ef4444; border-radius: 8px; color: #ef4444; margin-top: 1rem;"> <i class="bi bi-exclamation-triangle" style="margin-right: 0.5rem;"></i> Failed to submit feedback. Please try again. </div> ''\<close>

text \<open>The call itself: the buttons are disabled and the request leaves.\<close>

definition submitFeedback_1_call :: "string \<Rightarrow> string \<Rightarrow> feedback_page \<Rightarrow> feedback_page" where
  "submitFeedback_1_call phone feedbackType p =
     (let sel = selectAll ''feedback-btn-compact'' (buttons p)
      in p\<lparr>buttons := update_buttons sel (\<lambda>b. b\<lparr>btn_disabled := True\<rparr>) (buttons p),
           requests := requests p @
             [\<lparr>req_url = ''/feedback'', req_method = ''POST'',
               req_headers = [(''Content-Type'', ''application/json'')],
               req_body = [(''phone_number'', phone), (''feedback'', feedbackType)]\<rparr>]\<rparr>)"

text \<open>
  The continuations, run when the request has ended on the page as it is then:
  \<^verbatim>\<open>then\<close> or \<^verbatim>\<open>catch\<close>, and \<^verbatim>\<open>finally\<close> after either.
  \<open>sel\<close> are the buttons the call had selected.
\<close>

definition submitFeedback_1_settle ::
  "string \<Rightarrow> nat list \<Rightarrow> 'a fetched \<Rightarrow> feedback_page \<Rightarrow> feedback_page" where
  "submitFeedback_1_settle feedbackType sel outcome p =
     (let p1 = (case outcome of
                  Json data \<Rightarrow>
                    (case feedbackMessage p of
                       None \<Rightarrow> p
                     | Some msgDiv \<Rightarrow>
                         p\<lparr>feedbackMessage :=
                              Some (msgDiv\<lparr>msg_content := Html (success_markup feedbackType)\<rparr>),
                           fb_timers := fb_timers p @ [(5000, ClearMessage)]\<rparr>)
                | Rejected \<Rightarrow>
                    (let p0 = p\<lparr>console_errors := console_errors p @ [''Error:'']\<rparr>
                     in case feedbackMessage p0 of
                          None \<Rightarrow> p0
                        | Some msgDiv \<Rightarrow>
                            p0\<lparr>feedbackMessage :=
                                  Some (msgDiv\<lparr>msg_content := Html failure_markup\<rparr>)\<rparr>))
      in p1\<lparr>fb_timers := fb_timers p1 @ [(2000, EnableButtons sel)]\<rparr>)"

definition run_fb_task :: "fb_task \<Rightarrow> feedback_page \<Rightarrow> feedback_page" where
  "run_fb_task t p =
     (case t of
        ClearMessage \<Rightarrow>
          (case feedbackMessage p of
             None \<Rightarrow> p
           | Some msgDiv \<Rightarrow> p\<lparr>feedbackMessage := Some (msgDiv\<lparr>msg_content := Html []\<rparr>)\<rparr>)
      | EnableButtons sel \<Rightarrow>
          p\<lparr>buttons := update_buttons sel (\<lambda>b. b\<lparr>btn_disabled := False\<rparr>) (buttons p)\<rparr>)"

text \<open>
  \<open>elapse d p\<close>: \<open>d\<close> milliseconds pass with no other event; the timers that are due
  run in the order of their delays, the others are \<open>d\<close> closer.
\<close>

definition elapse :: "nat \<Rightarrow> feedback_page \<Rightarrow> feedback_page" where
  "elapse d p =
     (let due = sort_key fst (filter (\<lambda>t. fst t \<le> d) (fb_timers p));
          later = map (\<lambda>t. (fst t - d, snd t)) (filter (\<lambda>t. d < fst t) (fb_timers p))
      in fold (\<lambda>t. run_fb_task (snd t)) due (p\<lparr>fb_timers := later\<rparr>))"

subsection \<open>The second definition (line 446), which is the one in effect\<close>

definition submitFeedback_2_call :: "string \<Rightarrow> string \<Rightarrow> feedback_page \<Rightarrow> feedback_page" where
  "submitFeedback_2_call phoneNumber feedbackType p =
     p\<lparr>requests := requests p @
          [\<lparr>req_url = ''/api/feedback'', req_method = ''POST'',
            req_headers = [(''Content-Type'', ''application/json'')],
            req_body = [(''phone_number'', phoneNumber), (''feedback_type'', feedbackType)]\<rparr>]\<rparr>"

text \<open>
  Assigning \<^verbatim>\<open>undefined\<close> or \<^verbatim>\<open>null\<close> to \<^verbatim>\<open>textContent\<close>
  empties the element; appended to a string they read \<^verbatim>\<open>undefined\<close> (here the
  two are one, \<open>None\<close>).
\<close>

definition feedback_error :: "feedback_page \<Rightarrow> feedback_page" where
  "feedback_error p =
     (let p0 = p\<lparr>console_errors := console_errors p @ [''Feedback error:'']\<rparr>
      in case feedbackMessage p0 of
           None \<Rightarrow> p0
         | Some messageEl \<Rightarrow>
             p0\<lparr>feedbackMessage :=
                   Some (messageEl\<lparr>msg_content := Text ''Error submitting feedback'',
                                    msg_className := ''feedback-message error'',
                                    msg_display := ''block''\<rparr>)\<rparr>)"

definition submitFeedback_2_settle :: "reply option fetched \<Rightarrow> feedback_page \<Rightarrow> feedback_page" where
  "submitFeedback_2_settle outcome p =
     (case outcome of
        Rejected \<Rightarrow> feedback_error p
      | Json data \<Rightarrow>
          (case feedbackMessage p of
             None \<Rightarrow> p
           | Some messageEl \<Rightarrow>
               (case data of
                  None \<Rightarrow> feedback_error p
                | Some d \<Rightarrow>
                    p\<lparr>feedbackMessage :=
                         Some (messageEl\<lparr>
                           msg_content := Text (case message d of None \<Rightarrow> [] | Some m \<Rightarrow> m),
                           msg_className := ''feedback-message ''
                             @ (case status d of None \<Rightarrow> ''undefined'' | Some st \<Rightarrow> st),
                           msg_display := ''block''\<rparr>),
                      buttons := update_buttons (selectAll ''btn-feedback'' (buttons p))
                        (\<lambda>b. b\<lparr>btn_disabled := True, btn_opacity := ''0.5'',
                                 btn_cursor := ''not-allowed''\<rparr>) (buttons p)\<rparr>)))"

text \<open>\<^verbatim>\<open>window.submitFeedback = submitFeedback\<close> exports the second definition.\<close>

definition window_submitFeedback_call :: "string \<Rightarrow> string \<Rightarrow> feedback_page \<Rightarrow> feedback_page" where
  "window_submitFeedback_call = submitFeedback_2_call"

definition window_submitFeedback_settle :: "reply option fetched \<Rightarrow> feedback_page \<Rightarrow> feedback_page" where
  "window_submitFeedback_settle = submitFeedback_2_settle"

section \<open>logs.js: the table filter\<close>

text \<open>
  A row of \<^verbatim>\<open>logsTableBody\<close>: the text of its cells, its attribute
  \<^verbatim>\<open>data-risk\<close> (\<open>None\<close> when it has none), and the two style properties that
  \<^verbatim>\<open>filterTable\<close> writes.  The rows are those present when the page was loaded.
\<close>

record row =
  cells :: "string list"
  data_risk :: "string option"
  row_display :: string
  row_animation :: string

definition filter_row :: "string \<Rightarrow> string \<Rightarrow> row \<Rightarrow> error + row" where
  "filter_row searchTerm selectedRisk r =
     (if length (cells r) < 2 then Inl TypeError
      else let phoneNumber = toLowerCase (cells r ! 1);
               riskLevel = data_risk r;
               matchesSearch = str_includes phoneNumber searchTerm;
               matchesRisk = (selectedRisk = ''all'' \<or> riskLevel = Some selectedRisk)
           in if matchesSearch \<and> matchesRisk
              then Inr (r\<lparr>row_display := [], row_animation := ''fadeIn 0.3s ease-out''\<rparr>)
              else Inr (r\<lparr>row_display := ''none''\<rparr>))"

text \<open>
  \<^verbatim>\<open>allRows.forEach\<close>: a row with fewer than two cells throws, which ends the loop
  and leaves the rows after it as they were.
\<close>

fun filter_rows :: "string \<Rightarrow> string \<Rightarrow> row list \<Rightarrow> row list \<times> error option" where
  "filter_rows searchTerm selectedRisk [] = ([], None)"
| "filter_rows searchTerm selectedRisk (r # rs) =
     (case filter_row searchTerm selectedRisk r of
        Inl e \<Rightarrow> (r # rs, Some e)
      | Inr r' \<Rightarrow>
          (case filter_rows searchTerm selectedRisk rs of (rs', e) \<Rightarrow> (r' # rs', e)))"

text \<open>
  \<open>searchInput\<close> and \<open>riskFilter\<close> are the values of the two controls, \<open>None\<close> for
  a control the page does not have.
\<close>

definition filterTable :: "string option \<Rightarrow> string option \<Rightarrow> row list \<Rightarrow> row list \<times> error option" where
  "filterTable searchInput riskFilter allRows =
     (let searchTerm = (case searchInput of Some v \<Rightarrow> toLowerCase v | None \<Rightarrow> []);
          selectedRisk = (case riskFilter of Some v \<Rightarrow> v | None \<Rightarrow> ''all'')
      in filter_rows searchTerm selectedRisk allRows)"

text \<open>
  What the filter is meant to decide, stated without \<^verbatim>\<open>toLowerCase\<close>: two
  characters are the same letter when they are equal or are the capital and the small
  form of one letter (\<^verbatim>\<open>A\<close> to \<^verbatim>\<open>Z\<close>, and the accented capitals
  192 to 214 and 216 to 222 with their small forms 32 places further); a text contains
  a term up to letter case when some run of consecutive characters of the text agrees
  with the term letter by letter.
\<close>

definition letter_pairs :: "(char \<times> char) list" where
  "letter_pairs =
     zip ''ABCDEFGHIJKLMNOPQRSTUVWXYZ'' ''abcdefghijklmnopqrstuvwxyz''
     @ map (\<lambda>n. (char_of n, char_of (n + 32))) ([192..<215] @ [216..<223] :: nat list)"

definition same_letter :: "char \<Rightarrow> char \<Rightarrow> bool" where
  "same_letter c d = (c = d \<or> (c, d) \<in> set letter_pairs \<or> (d, c) \<in> set letter_pairs)"

definition equal_ignoring_case :: "string \<Rightarrow> string \<Rightarrow> bool" where
  "equal_ignoring_case s t = list_all2 same_letter s t"

definition contains_ignoring_case :: "string \<Rightarrow> string \<Rightarrow> bool" where
  "contains_ignoring_case s t = (\<exists>ps m ss. s = ps @ m @ ss \<and> equal_ignoring_case m t)"


section \<open>Documents addressed by element id\<close>

text \<open>
  The remaining handlers find their elements with \<^verbatim>\<open>getElementById\<close>.  A
  document is the map from ids to elements (\<open>None\<close>: no such element), with the lines
  written to the console.  An element keeps what was last assigned to
  \<^verbatim>\<open>textContent\<close> or \<^verbatim>\<open>innerHTML\<close>, its class name and its
  \<^verbatim>\<open>style.display\<close>.

  A handler is a function from the document to the document it leaves and the error it
  threw, if any: what it wrote before throwing stays written.

  In markup literals every run of white space is one blank, and a character outside
  ASCII is written as its numeric character reference.
\<close>

record elem =
  inner :: content
  el_className :: string
  el_display :: string

record document =
  elems :: "string \<rightharpoonup> elem"
  console :: "string list"

datatype assignment = SetText string | SetHtml string | SetClass string | SetDisplay string

definition write_elem :: "assignment \<Rightarrow> elem \<Rightarrow> elem" where
  "write_elem w e =
     (case w of
        SetText t \<Rightarrow> e\<lparr>inner := Text t\<rparr>
      | SetHtml h \<Rightarrow> e\<lparr>inner := Html h\<rparr>
      | SetClass c \<Rightarrow> e\<lparr>el_className := c\<rparr>
      | SetDisplay v \<Rightarrow> e\<lparr>el_display := v\<rparr>)"

text \<open>
  \<open>put i w\<close> is \<^verbatim>\<open>document.getElementById(i).prop = v\<close>: a
  \<^verbatim>\<open>TypeError\<close> when there is no such element.  \<open>put_if i w\<close> is the same
  under \<^verbatim>\<open>if (el)\<close>.
\<close>

definition put :: "string \<Rightarrow> assignment \<Rightarrow> 'a document_scheme \<Rightarrow> 'a document_scheme \<times> error option" where
  "put i w d =
     (case elems d i of
        None \<Rightarrow> (d, Some TypeError)
      | Some e \<Rightarrow> (d\<lparr>elems := (elems d)(i \<mapsto> write_elem w e)\<rparr>, None))"

definition put_if :: "string \<Rightarrow> assignment \<Rightarrow> 'a document_scheme \<Rightarrow> 'a document_scheme" where
  "put_if i w d =
     (case elems d i of
        None \<Rightarrow> d
      | Some e \<Rightarrow> d\<lparr>elems := (elems d)(i \<mapsto> write_elem w e)\<rparr>)"

definition console_line :: "string \<Rightarrow> 'a document_scheme \<Rightarrow> 'a document_scheme" where
  "console_line line d = d\<lparr>console := console d @ [line]\<rparr>"

text \<open>Statements in sequence: the first error ends the run.\<close>

fun puts :: "(string \<times> assignment) list \<Rightarrow> 'a document_scheme \<Rightarrow> 'a document_scheme \<times> error option" where
  "puts [] d = (d, None)"
| "puts ((i, w) # ws) d =
     (case put i w d of
        (d', None) \<Rightarrow> puts ws d'
      | (d', Some e) \<Rightarrow> (d', Some e))"

text \<open>\<^verbatim>\<open>xs.map(f)\<close> with an \<open>f\<close> that may throw: the first error ends it.\<close>

fun map_throwing :: "('a \<Rightarrow> error + 'b) \<Rightarrow> 'a list \<Rightarrow> error + 'b list" where
  "map_throwing f [] = Inr []"
| "map_throwing f (x # xs) =
     (case f x of
        Inl e \<Rightarrow> Inl e
      | Inr y \<Rightarrow> (case map_throwing f xs of Inl e \<Rightarrow> Inl e | Inr ys \<Rightarrow> Inr (y # ys)))"

text \<open>
  \<^verbatim>\<open>fetch(...).then(r => r.json()).then(onData).catch(onError)\<close>: the second
  continuation runs when the request is rejected and when the first one throws.
\<close>

definition then_catch ::
  "'d fetched \<Rightarrow> ('d \<Rightarrow> 's \<Rightarrow> 's \<times> error option) \<Rightarrow> ('s \<Rightarrow> 's \<times> error option)
   \<Rightarrow> 's \<Rightarrow> 's \<times> error option" where
  "then_catch outcome onData onError s =
     (case outcome of
        Rejected \<Rightarrow> onError s
      | Json data \<Rightarrow>
          (case onData data s of
             (s', None) \<Rightarrow> (s', None)
           | (s', Some e) \<Rightarrow> onError s'))"

subsection \<open>Optional fields\<close>

text \<open>
  \<open>None\<close> is a field that is \<^verbatim>\<open>undefined\<close>.  A field that is
  \<^verbatim>\<open>null\<close> behaves alike in every test below; the two differ only where such
  a value is printed or is the operand of arithmetic, and there \<open>None\<close> is
  \<^verbatim>\<open>undefined\<close>.  An empty string, the numbers zero and \<^verbatim>\<open>NaN\<close>,
  and \<^verbatim>\<open>false\<close> are falsy like an absent field; an object or an array never
  is.
\<close>

definition str_or :: "string option \<Rightarrow> string \<Rightarrow> string" where
  "str_or v d = (case v of None \<Rightarrow> d | Some s \<Rightarrow> if s = [] then d else s)"

definition num_or :: "jsnum option \<Rightarrow> jsnum \<Rightarrow> jsnum" where
  "num_or v d = (case v of None \<Rightarrow> d | Some n \<Rightarrow> if num_truthy n then n else d)"

definition num_or_text :: "jsnum option \<Rightarrow> string \<Rightarrow> string" where
  "num_or_text v d =
     (case v of None \<Rightarrow> d | Some n \<Rightarrow> if num_truthy n then number_to_string n else d)"

definition is_true :: "bool option \<Rightarrow> bool" where
  "is_true v = (v = Some True)"

text \<open>An optional value inside a template, and as the operand of arithmetic.\<close>

definition text_of :: "string option \<Rightarrow> string" where
  "text_of v = (case v of None \<Rightarrow> ''undefined'' | Some s \<Rightarrow> s)"

definition num_text_of :: "jsnum option \<Rightarrow> string" where
  "num_text_of v = (case v of None \<Rightarrow> ''undefined'' | Some n \<Rightarrow> number_to_string n)"

definition num_of :: "jsnum option \<Rightarrow> jsnum" where
  "num_of v = (case v of None \<Rightarrow> NaN | Some n \<Rightarrow> n)"

text \<open>
  The fraud probability of a log entry is multiplied without a test, so it keeps
  \<^verbatim>\<open>undefined\<close> and \<^verbatim>\<open>null\<close> apart: as a number the first is
  \<^verbatim>\<open>NaN\<close> and the second is zero.
\<close>

datatype 'a nullable = Undefined | Null | Present 'a

definition to_number :: "jsnum nullable \<Rightarrow> jsnum" where
  "to_number v = (case v of Undefined \<Rightarrow> NaN | Null \<Rightarrow> Fin 0 | Present n \<Rightarrow> n)"

section \<open>logs.js: the details modal\<close>

record sim_swap_info =
  swapped :: "bool option"
  last_swap_date :: "string option"

record location_info =
  verified :: "bool option"
  distance_meters :: "jsnum option"

record roaming_info =
  is_roaming :: "bool option"
  current_network :: "string option"
  home_network :: "string option"
  roaming_country :: "string option"

record device_info =
  connection_status :: "string option"
  signal_strength :: "string option"
  network_type :: "string option"
  last_seen :: "string option"

record camara =
  sim_swap :: "sim_swap_info option"
  location :: "location_info option"
  roaming :: "roaming_info option"
  device_status :: "device_info option"

record triggered_rule =
  rule_severity :: "string option"
  rule_name :: "string option"
  impact :: "string option"
  description :: "string option"

record rule_explanation =
  triggered_rules :: "triggered_rule list option"
  summary :: "string option"
  factors :: "string list option"

text \<open>
  A transaction log entry.  The fields \<^verbatim>\<open>roaming.roaming\<close>,
  \<^verbatim>\<open>rule.severity\<close> and \<^verbatim>\<open>rule.rule\<close> are \<open>is_roaming\<close>,
  \<open>rule_severity\<close> and \<open>rule_name\<close>.
\<close>

record log =
  phone_number :: "string option"
  transaction_amount :: "jsnum option"
  timestamp :: "string option"
  fraud_probability :: "jsnum nullable"
  risk_level :: "string option"
  camara_data :: "camara option"
  customer_vintage :: "jsnum option"
  risk_rating :: "string option"
  segment :: "string option"
  occupation :: "string option"
  country :: "string option"
  city :: "string option"
  geo_restriction :: "string option"
  pep_flag :: "string option"
  txn_count_1h :: "jsnum option"
  credit_reversals_7d :: "jsnum option"
  explanation :: "rule_explanation option"

text \<open>\<^verbatim>\<open>x || {}\<close> for the four parts of the network data.\<close>

definition or_empty_sim_swap :: "sim_swap_info option \<Rightarrow> sim_swap_info" where
  "or_empty_sim_swap v =
     (case v of None \<Rightarrow> \<lparr>swapped = None, last_swap_date = None\<rparr> | Some x \<Rightarrow> x)"

definition or_empty_location :: "location_info option \<Rightarrow> location_info" where
  "or_empty_location v =
     (case v of None \<Rightarrow> \<lparr>verified = None, distance_meters = None\<rparr> | Some x \<Rightarrow> x)"

definition or_empty_roaming :: "roaming_info option \<Rightarrow> roaming_info" where
  "or_empty_roaming v =
     (case v of
        None \<Rightarrow> \<lparr>is_roaming = None, current_network = None, home_network = None,
                  roaming_country = None\<rparr>
      | Some x \<Rightarrow> x)"

definition or_empty_device :: "device_info option \<Rightarrow> device_info" where
  "or_empty_device v =
     (case v of
        None \<Rightarrow> \<lparr>connection_status = None, signal_strength = None, network_type = None,
                  last_seen = None\<rparr>
      | Some x \<Rightarrow> x)"

definition camara_writes :: "camara option \<Rightarrow> (string \<times> assignment) list" where
  \<open>camara_writes cd =
     (case cd of
        Some c \<Rightarrow>
          (let simSwap = or_empty_sim_swap (sim_swap c);
               location = or_empty_location (location c);
               roaming = or_empty_roaming (roaming c);
               deviceStatus = or_empty_device (device_status c);
               distance = num_or (distance_meters location) (Fin 0);
               currentNetwork = str_or (current_network roaming) ''Unknown'';
               homeNetwork = str_or (home_network roaming) ''Unknown'';
               roamingCountry = str_or (roaming_country roaming) ''Unknown'';
               connectionStatus = str_or (connection_status deviceStatus) ''UNKNOWN'';
               signalStrength = str_or (signal_strength deviceStatus) ''Unknown'';
               networkType = str_or (network_type deviceStatus) ''Unknown'';
               lastSeen = str_or (last_seen deviceStatus) ''Unknown''
           in [(''modalSimSwap'', SetHtml
                  (if is_true (swapped simSwap)
                   then ''<span style="color: #ef4444; font-weight: 600;">&#9888;&#65039; DETECTED</span>''
                   else ''<span style="color: #10b981; font-weight: 600;">&#9989; CLEAR</span>'')),
               (''modalSimSwapDate'', SetText (str_or (last_swap_date simSwap) ''N/A'')),
               (''modalLocationVerified'', SetHtml
                  (if is_true (verified location)
                   then ''<span style="color: #10b981; font-weight: 600;">&#9989; VERIFIED</span>''
                   else ''<span style="color: #ef4444; font-weight: 600;">&#9888;&#65039; MISMATCH</span>'')),
               (''modalLocationDistance'', SetText
                  (if num_truthy distance then toFixed (num_div distance 1000) 1 @ '' km''
                   else ''N/A'')),
               (''modalRoamingStatus'', SetHtml
                  (if is_true (is_roaming roaming)
                   then ''<span style="color: #ef4444; font-weight: 600;">&#127757; ROAMING</span>''
                   else ''<span style="color: #10b981; font-weight: 600;">&#127968; HOME NETWORK</span>'')),
               (''modalCurrentNetwork'', SetText
                  (if is_true (is_roaming roaming)
                   then currentNetwork @ '' ('' @ roamingCountry @ '')'' else homeNetwork)),
               (''modalDeviceStatus'', SetHtml
                  (if connectionStatus = ''DATA''
                   then ''<span style="color: #10b981; font-weight: 600;">&#128994; DATA CONNECTED</span>''
                   else if connectionStatus = ''SMS''
                   then ''<span style="color: #f59e0b; font-weight: 600;">&#128993; SMS ONLY</span>''
                   else if connectionStatus = ''NOT_CONNECTED''
                   then ''<span style="color: #ef4444; font-weight: 600;">&#128308; OFFLINE</span>''
                   else ''<span style="color: #9ca3af; font-weight: 600;">&#10067; UNKNOWN</span>'')),
               (''modalSignalStrength'', SetText
                  (if connectionStatus \<noteq> ''NOT_CONNECTED''
                   then signalStrength @ '' ('' @ networkType @ '')''
                   else ''No Signal - Last seen: '' @ lastSeen))])
      | None \<Rightarrow>
          [(''modalSimSwap'', SetText ''N/A''),
           (''modalSimSwapDate'', SetText ''N/A''),
           (''modalLocationVerified'', SetText ''N/A''),
           (''modalLocationDistance'', SetText ''N/A''),
           (''modalRoamingStatus'', SetText ''N/A''),
           (''modalCurrentNetwork'', SetText ''N/A''),
           (''modalDeviceStatus'', SetText ''N/A''),
           (''modalSignalStrength'', SetText ''N/A'')])\<close>

definition rule_markup :: "triggered_rule \<Rightarrow> string" where
  \<open>rule_markup r =
     '' <div class="modal-rule-item severity-'' @ text_of (rule_severity r)
     @ ''"> <div class="modal-rule-header"> <span class="modal-rule-name">'' @ text_of (rule_name r)
     @ ''</span> <span class="modal-rule-severity">'' @ text_of (rule_severity r)
     @ ''</span> </div> <div class="modal-rule-description"> <strong>Impact:</strong> ''
     @ text_of (impact r) @ '' | '' @ text_of (description r) @ '' </div> </div> ''\<close>

definition rules_of :: "log \<Rightarrow> triggered_rule list" where
  "rules_of l =
     (case explanation l of
        None \<Rightarrow> []
      | Some e \<Rightarrow> (case triggered_rules e of None \<Rightarrow> [] | Some rs \<Rightarrow> rs))"

definition factors_of :: "log \<Rightarrow> string list" where
  "factors_of l =
     (case explanation l of
        None \<Rightarrow> []
      | Some e \<Rightarrow> (case factors e of None \<Rightarrow> [] | Some fs \<Rightarrow> fs))"

definition summary_of :: "log \<Rightarrow> string option" where
  "summary_of l = (case explanation l of None \<Rightarrow> None | Some e \<Rightarrow> summary e)"

text \<open>
  The assignments of \<^verbatim>\<open>showDetails\<close>, section by section in the order of the
  source.  None of them reads the document, so the function is this list carried out
  by \<open>puts\<close>.
\<close>

definition basic_info_writes :: "log \<Rightarrow> (string \<times> assignment) list" where
  "basic_info_writes l =
     [(''modalPhone'', SetText (str_or (phone_number l) ''N/A'')),
      (''modalAmount'', SetText (''$'' @ toFixed (num_or (transaction_amount l) (Fin 0)) 2)),
      (''modalTimestamp'', SetText (str_or (timestamp l) ''N/A'')),
      (''modalProbability'', SetText
         (toFixed (num_times (to_number (fraud_probability l)) 100) 1 @ ''%'')),
      (''modalRiskLevel'', SetText (str_or (risk_level l) ''N/A'')),
      (''modalRiskLevel'', SetClass
         (''risk-badge '' @ replace_first_blank (toLowerCase (str_or (risk_level l) []))))]"

definition customer_profile_writes :: "log \<Rightarrow> (string \<times> assignment) list" where
  "customer_profile_writes l =
     [(''modalVintage'', SetText (num_or_text (customer_vintage l) ''N/A'')),
      (''modalRiskRating'', SetText (str_or (risk_rating l) ''N/A'')),
      (''modalSegment'', SetText (str_or (segment l) ''N/A'')),
      (''modalOccupation'', SetText (str_or (occupation l) ''N/A'')),
      (''modalCountry'', SetText (str_or (country l) ''N/A'')),
      (''modalCity'', SetText (str_or (city l) ''N/A'')),
      (''modalGeoRestriction'', SetText (str_or (geo_restriction l) ''N/A'')),
      (''modalPepFlag'', SetText (str_or (pep_flag l) ''N/A''))]"

definition transaction_pattern_writes :: "log \<Rightarrow> (string \<times> assignment) list" where
  "transaction_pattern_writes l =
     [(''modalTxnCount'', SetText (num_or_text (txn_count_1h l) ''N/A'')),
      (''modalReversals'', SetText (num_or_text (credit_reversals_7d l) ''N/A''))]"

definition triggered_rules_writes :: "log \<Rightarrow> (string \<times> assignment) list" where
  "triggered_rules_writes l =
     (if rules_of l \<noteq> []
      then [(''triggeredRulesSection'', SetDisplay ''block''),
            (''modalTriggeredRules'', SetHtml (concat (map rule_markup (rules_of l))))]
      else [(''triggeredRulesSection'', SetDisplay ''none'')])"

definition explanation_writes :: "log \<Rightarrow> (string \<times> assignment) list" where
  "explanation_writes l =
     [(''modalExplanationSummary'', SetText
         (str_or (summary_of l) ''No explanation provided.'')),
      (''modalExplanationFactors'', SetHtml
         (if factors_of l \<noteq> []
          then '' <strong>Key Detection Factors:</strong> <ul>''
               @ concat (map (\<lambda>f. ''<li>'' @ f @ ''</li>'') (factors_of l)) @ ''</ul> ''
          else ''<em>No factors available</em>''))]"

definition showDetails_writes :: "log \<Rightarrow> (string \<times> assignment) list" where
  "showDetails_writes l =
     basic_info_writes l @ camara_writes (camara_data l) @ customer_profile_writes l
     @ transaction_pattern_writes l @ triggered_rules_writes l @ explanation_writes l
     @ [(''detailsModal'', SetDisplay ''block'')]"

definition showDetails :: "log \<Rightarrow> document \<Rightarrow> document \<times> error option" where
  "showDetails l d = puts (showDetails_writes l) d"

section \<open>script.js: the explanation panel\<close>

record txn =
  txn_amount :: "jsnum option"
  txn_time :: "string option"
  txn_risk :: "string option"

record customer_profile =
  total_transactions :: "jsnum option"
  average_amount :: "jsnum option"
  velocity_pattern :: "string option"
  days_as_customer :: "jsnum option"
  recent_transactions :: "txn list option"

record historical_context =
  hc_recent_transactions :: "txn list option"

record risk_factor =
  factor :: "string option"
  rf_severity :: "string option"
  rf_explanation :: "string option"

record recommendation =
  action :: "string option"
  urgency :: "string option"
  next_steps :: "string list option"
  additional_info_needed :: "string list option"

record llm_data =
  executive_summary :: "string option"
  detailed_analysis :: "string option"
  behavioral_insights :: "string option"
  profile_of :: "customer_profile option"
  history_of :: "historical_context option"
  risk_factors :: "risk_factor list option"
  recommendation_of :: "recommendation option"

record transaction_data =
  td_camara_data :: "camara option"

text \<open>
  The fields \<^verbatim>\<open>customer_profile\<close>, \<^verbatim>\<open>historical_context\<close> and
  \<^verbatim>\<open>recommendation\<close> of the explanation are \<open>profile_of\<close>, \<open>history_of\<close>
  and \<open>recommendation_of\<close>; a prefix tells apart the fields that two objects share.

  \<^verbatim>\<open>text.split(/\*\*|\n\n/)\<close>: the text is cut at every pair of asterisks and at
  every pair of line feeds.
\<close>

fun split_sections_from :: "string \<Rightarrow> string \<Rightarrow> string list" where
  "split_sections_from cur [] = [rev cur]"
| "split_sections_from cur [a] = [rev (a # cur)]"
| "split_sections_from cur (a # b # cs) =
     (if (a = CHR ''*'' \<and> b = CHR ''*'') \<or> (a = CHR 0x0A \<and> b = CHR 0x0A)
      then rev cur # split_sections_from [] cs
      else split_sections_from (a # cur) (b # cs))"

definition section_markup :: "string \<Rightarrow> string" where
  \<open>section_markup trimmed =
     (if CHR '':'' \<in> set trimmed \<and> length trimmed < 100
      then ''<h5 style="color: var(--primary-color); margin-top: 1.5rem; margin-bottom: 0.75rem;">''
         @ trimmed @ ''</h5>''
      else ''<p style="color: var(--text-secondary); line-height: 1.8; margin-bottom: 1rem;">'' @ trimmed
         @ ''</p>'')\<close>

definition sections_markup :: "string \<Rightarrow> string" where
  "sections_markup text =
     concat (map (\<lambda>s. section_markup (trim s))
       (filter (\<lambda>s. trim s \<noteq> []) (split_sections_from [] text)))"

definition populateExecutiveSummary :: "llm_data \<Rightarrow> document \<Rightarrow> document \<times> error option" where
  "populateExecutiveSummary llmData d =
     (case elems d ''executiveSummary'' of
        None \<Rightarrow> (d, None)
      | Some summaryEl \<Rightarrow>
          if str_or (executive_summary llmData) [] \<noteq> []
          then put ''executiveSummary'' (SetText (str_or (executive_summary llmData) [])) d
          else (d, None))"

definition populateDetailedAnalysis :: "llm_data \<Rightarrow> document \<Rightarrow> document \<times> error option" where
  \<open>populateDetailedAnalysis llmData d =
     (case elems d ''detailedAnalysisContent'' of
        None \<Rightarrow> (d, None)
      | Some contentEl \<Rightarrow>
          if str_or (detailed_analysis llmData) [] = [] then (d, None)
          else let html = sections_markup (str_or (detailed_analysis llmData) [])
               in put ''detailedAnalysisContent''
                    (SetHtml (if html \<noteq> [] then html
                              else ''<p style="color: var(--text-secondary);">Detailed analysis is being generated...</p>''))
                    d)\<close>

definition profile_markup :: "customer_profile \<Rightarrow> string" where
  \<open>profile_markup profile =
     '' <div style="background: var(--bg-dark); padding: 1.5rem; border-radius: 8px; margin-top: 2rem;"> <h5 style="color: var(--text-primary); margin-bottom: 1rem;"> <i class="bi bi-person-badge"></i> Customer Profile Summary </h5> <div style="display: grid; grid-template-columns: repeat(auto-fit, minmax(200px, 1fr)); gap: 1rem;"> <div class="profile-stat"> <div style="color: var(--text-secondary); font-size: 0.85rem;">Total Transactions</div> <div style="color: var(--text-primary); font-size: 1.5rem; font-weight: 600;">''
         @ number_to_string (num_or (total_transactions profile) (Fin 0))
         @ ''</div> </div> <div class="profile-stat"> <div style="color: var(--text-secondary); font-size: 0.85rem;">Average Amount</div> <div style="color: var(--text-primary); font-size: 1.5rem; font-weight: 600;">$''
         @ toFixed (num_or (average_amount profile) (Fin 0)) 2
         @ ''</div> </div> <div class="profile-stat"> <div style="color: var(--text-secondary); font-size: 0.85rem;">Activity Level</div> <div style="color: var(--text-primary); font-size: 1.5rem; font-weight: 600;">''
         @ str_or (velocity_pattern profile) ''Unknown''
         @ ''</div> </div> <div class="profile-stat"> <div style="color: var(--text-secondary); font-size: 0.85rem;">Customer Since</div> <div style="color: var(--text-primary); font-size: 1.5rem; font-weight: 600;">''
         @ number_to_string (num_or (days_as_customer profile) (Fin 0))
         @ '' days</div> </div> </div> </div> ''\<close>

definition populateBehavioralInsights ::
  "llm_data \<Rightarrow> transaction_data option \<Rightarrow> document \<Rightarrow> document \<times> error option" where
  \<open>populateBehavioralInsights llmData transactionData d =
     (case elems d ''behavioralInsightsContent'' of
        None \<Rightarrow> (d, None)
      | Some contentEl \<Rightarrow>
          let html = (if str_or (behavioral_insights llmData) [] \<noteq> []
                      then sections_markup (str_or (behavioral_insights llmData) []) else [])
                @ (case profile_of llmData of None \<Rightarrow> [] | Some profile \<Rightarrow> profile_markup profile)
          in put ''behavioralInsightsContent''
               (SetHtml (if html \<noteq> [] then html
                         else ''<p style="color: var(--text-secondary);">No behavioral insights available</p>''))
               d)\<close>

definition risk_factor_markup :: "risk_factor \<Rightarrow> string" where
  \<open>risk_factor_markup f =
     '' <div class="risk-factor-item severity-'' @ text_of (rf_severity f)
         @ ''"> <div class="risk-factor-header"> <span class="risk-factor-title">'' @ text_of (factor f)
         @ ''</span> <span class="severity-badge '' @ text_of (rf_severity f) @ ''">''
         @ text_of (rf_severity f) @ ''</span> </div> <div class="risk-factor-description">''
         @ text_of (rf_explanation f) @ ''</div> </div> ''\<close>

definition populateRiskFactors :: "llm_data \<Rightarrow> document \<Rightarrow> document \<times> error option" where
  \<open>populateRiskFactors llmData d =
     (case elems d ''riskFactorsContent'' of
        None \<Rightarrow> (d, None)
      | Some contentEl \<Rightarrow>
          let riskFactors = (case risk_factors llmData of None \<Rightarrow> [] | Some fs \<Rightarrow> fs)
          in if length riskFactors = 0 then
               put ''riskFactorsContent'' (SetHtml '' <div style="text-align: center; padding: 2rem; color: var(--text-secondary);"> <i class="bi bi-check-circle" style="font-size: 3rem; color: var(--success-color);"></i> <p style="margin-top: 1rem;">No significant risk factors detected</p> </div> '') d
             else put ''riskFactorsContent''
                    (SetHtml (''<div class="risk-factor-grid">''
                       @ concat (map risk_factor_markup riskFactors) @ ''</div>'')) d)\<close>

definition sim_swap_details :: "sim_swap_info \<Rightarrow> string" where
  \<open>sim_swap_details simSwap =
     (if is_true (swapped simSwap)
      then ''&#8218;&#246;&#8224;&#212;&#8719;&#232; SIM card was changed ''
                  @ text_of (last_swap_date simSwap)
                  @ ''. This is a critical fraud indicator suggesting potential account takeover.''
      else ''&#8218;&#250;&#214; No SIM swap activity detected in monitoring period. Device maintains original SIM configuration.'')\<close>

definition location_details :: "location_info \<Rightarrow> string" where
  \<open>location_details loc =
     (if is_true (verified loc)
      then ''&#8218;&#250;&#214; Device location matches KYC registered address within acceptable radius.''
      else ''&#8218;&#246;&#8224;&#212;&#8719;&#232; Device is ''
                  @ toFixed (num_div (num_of (distance_meters loc)) 1000) 1
                  @ '' km from registered address. Possible VPN, proxy, or unauthorized access.'')\<close>

definition roaming_details :: "roaming_info \<Rightarrow> string" where
  \<open>roaming_details roam =
     (if is_true (is_roaming roam)
      then ''&#63743;&#252;&#236;&#176; Device is roaming on '' @ text_of (current_network roam)
                  @ '' in '' @ text_of (roaming_country roam)
                  @ ''. Verify if customer has notified bank of international travel.''
      else ''&#8218;&#250;&#214; Device is on home network ('' @ text_of (current_network roam)
                  @ ''). Normal domestic usage pattern.'')\<close>

definition device_details :: "device_info \<Rightarrow> string" where
  \<open>device_details deviceStatus =
     (if connection_status deviceStatus = Some ''DATA''
      then ''&#8218;&#250;&#214; Device is actively connected with data service. Signal: ''
                  @ text_of (signal_strength deviceStatus) @ ''.''
      else if connection_status deviceStatus = Some ''SMS''
      then ''&#8218;&#246;&#8224;&#212;&#8719;&#232; Device has SMS-only connectivity. Limited data service may indicate network issues or basic phone.''
      else if connection_status deviceStatus = Some ''NOT_CONNECTED''
      then ''&#63743;&#252;&#246;&#174; Device is offline (last seen: '' @ text_of (last_seen deviceStatus)
                  @ ''). Transaction may be from compromised credentials on different device.''
      else ''Status unknown'')\<close>

definition sim_swap_card :: "sim_swap_info \<Rightarrow> string" where
  \<open>sim_swap_card simSwap =
     '' <div class="intel-card"> <div class="intel-card-header"> <i class="bi bi-sim"></i> SIM Swap Detection </div> <div class="intel-status"> <div class="status-indicator ''
         @ (if is_true (swapped simSwap) then ''danger'' else ''safe'') @ ''"></div> <strong>''
         @ (if is_true (swapped simSwap) then ''DETECTED'' else ''Clear'')
         @ ''</strong> </div> <div class="intel-details"> '' @ sim_swap_details simSwap
         @ '' </div> </div> ''\<close>

definition location_card :: "location_info \<Rightarrow> string" where
  \<open>location_card loc =
     '' <div class="intel-card"> <div class="intel-card-header"> <i class="bi bi-geo-alt"></i> Location Verification </div> <div class="intel-status"> <div class="status-indicator ''
         @ (if is_true (verified loc) then ''safe'' else ''danger'') @ ''"></div> <strong>''
         @ (if is_true (verified loc) then ''Verified'' else ''Mismatch'')
         @ ''</strong> </div> <div class="intel-details"> '' @ location_details loc
         @ '' </div> </div> ''\<close>

definition roaming_card :: "roaming_info \<Rightarrow> string" where
  \<open>roaming_card roam =
     '' <div class="intel-card"> <div class="intel-card-header"> <i class="bi bi-globe"></i> Roaming Status </div> <div class="intel-status"> <div class="status-indicator ''
         @ (if is_true (is_roaming roam) then ''warning'' else ''safe'') @ ''"></div> <strong>''
         @ (if is_true (is_roaming roam) then ''Roaming'' else ''Home Network'')
         @ ''</strong> </div> <div class="intel-details"> '' @ roaming_details roam
         @ '' </div> </div> ''\<close>

definition device_card :: "device_info \<Rightarrow> string" where
  \<open>device_card deviceStatus =
     '' <div class="intel-card"> <div class="intel-card-header"> <i class="bi bi-phone"></i> Device Connectivity </div> <div class="intel-status"> <div class="status-indicator ''
         @ (if connection_status deviceStatus = Some ''DATA'' then ''safe'' else if connection_status deviceStatus = Some ''SMS'' then ''warning'' else ''danger'')
         @ ''"></div> <strong>'' @ str_or (connection_status deviceStatus) ''Unknown''
         @ ''</strong> </div> <div class="intel-details"> '' @ device_details deviceStatus
         @ '' </div> </div> ''\<close>

definition camara_note :: string where
  \<open>camara_note = '' <div style="margin-top: 2rem; padding: 1.5rem; background: rgba(74, 158, 255, 0.1); border-radius: 8px; border-left: 4px solid var(--primary-color);"> <h5 style="color: var(--primary-color); margin-bottom: 1rem;"> <i class="bi bi-info-circle"></i> What are CAMARA Network APIs? </h5> <p style="color: var(--text-secondary); line-height: 1.8;"> CAMARA (Network-as-Code) APIs provide real-time intelligence directly from mobile network operators. Unlike traditional fraud detection that relies only on transaction data, these APIs access network-level information including SIM card status, device location, connectivity state, and roaming activity. This provides an additional layer of security that's extremely difficult for fraudsters to bypass. </p> </div> ''\<close>

text \<open>
  \<^verbatim>\<open>!contentEl || !transactionData.camara_data\<close>: the second operand is read only
  when the element exists, and reading it throws when \<^verbatim>\<open>transactionData\<close> is
  \<^verbatim>\<open>undefined\<close>.
\<close>

definition populateNetworkIntelligence ::
  "llm_data \<Rightarrow> transaction_data option \<Rightarrow> document \<Rightarrow> document \<times> error option" where
  \<open>populateNetworkIntelligence llmData transactionData d =
     (case elems d ''networkIntelContent'' of
        None \<Rightarrow> (d, None)
      | Some contentEl \<Rightarrow>
          (case transactionData of
             None \<Rightarrow> (d, Some TypeError)
           | Some td \<Rightarrow>
               (case td_camara_data td of
                  None \<Rightarrow> (d, None)
                | Some camara \<Rightarrow>
                    put ''networkIntelContent''
                      (SetHtml (''<div class="network-intel-grid">''
                         @ sim_swap_card (or_empty_sim_swap (sim_swap camara))
                         @ location_card (or_empty_location (location camara))
                         @ roaming_card (or_empty_roaming (roaming camara))
                         @ device_card (or_empty_device (device_status camara))
                         @ ''</div>'' @ camara_note)) d)))\<close>

definition info_markup :: "string \<Rightarrow> string" where
  \<open>info_markup info =
     '' <li style="padding: 0.5rem 0; border-bottom: 1px solid var(--border-color);"> <i class="bi bi-check-square" style="color: var(--primary-color); margin-right: 0.5rem;"></i> ''
                  @ info @ '' </li> ''\<close>

definition recommendation_markup :: "recommendation \<Rightarrow> string" where
  \<open>recommendation_markup rec =
     (let actionClass = (if action rec = Some ''BLOCK TRANSACTION'' then ''reject''
                         else if action rec = Some ''REQUIRE ADDITIONAL VERIFICATION''
                         then ''step-up'' else ''approve'');
          steps = (case next_steps rec of None \<Rightarrow> [] | Some xs \<Rightarrow> xs);
          infos = (case additional_info_needed rec of None \<Rightarrow> [] | Some xs \<Rightarrow> xs)
      in '' <div class="recommendation-action '' @ actionClass @ ''"> <div class="action-header">''
            @ text_of (action rec) @ ''</div> ''
            @ (if str_or (urgency rec) [] \<noteq> [] then ''<div class="urgency-badge">'' @ str_or (urgency rec) [] @ ''</div>'' else [])
            @ '' </div> ''
         @ (if 0 < length steps
            then '' <div class="next-steps"> <h5>Recommended Next Steps:</h5> <ol> ''
            @ concat (map (\<lambda>step. ''<li>'' @ step @ ''</li>'') steps) @ '' </ol> </div> ''
            else [])
         @ (if 0 < length infos
            then '' <div class="next-steps" style="margin-top: 1.5rem;"> <h5>Additional Information Needed:</h5> <ul style="list-style: none; padding-left: 0;"> ''
            @ concat (map info_markup infos) @ '' </ul> </div> ''
            else []))\<close>

definition populateRecommendations :: "llm_data \<Rightarrow> document \<Rightarrow> document \<times> error option" where
  "populateRecommendations llmData d =
     (case elems d ''recommendationsContent'' of
        None \<Rightarrow> (d, None)
      | Some contentEl \<Rightarrow>
          (case recommendation_of llmData of
             None \<Rightarrow> (d, None)
           | Some rec \<Rightarrow> put ''recommendationsContent'' (SetHtml (recommendation_markup rec)) d))"

text \<open>
  \<^verbatim>\<open>a?.recent_transactions || b?.recent_transactions || []\<close>: an array, even an
  empty one, is truthy.
\<close>

definition recent_txns :: "llm_data \<Rightarrow> txn list" where
  "recent_txns llmData =
     (case (case profile_of llmData of None \<Rightarrow> None | Some p \<Rightarrow> recent_transactions p) of
        Some ts \<Rightarrow> ts
      | None \<Rightarrow>
          (case (case history_of llmData of None \<Rightarrow> None | Some h \<Rightarrow> hc_recent_transactions h) of
             Some ts \<Rightarrow> ts
           | None \<Rightarrow> []))"

text \<open>\<^verbatim>\<open>txn.amount.toFixed(2)\<close> throws when the transaction has no amount.\<close>

definition timeline_item :: "txn \<Rightarrow> error + string" where
  \<open>timeline_item t =
     (let riskColor = (if txn_risk t = Some ''High Risk'' then ''var(--danger-color)''
                       else if txn_risk t = Some ''Medium Risk'' then ''var(--warning-color)''
                       else ''var(--success-color)'')
      in case txn_amount t of
           None \<Rightarrow> Inl TypeError
         | Some amount \<Rightarrow>
             Inr ('' <div style="position: relative; margin-bottom: 1.5rem; padding-left: 1rem;"> <div style="position: absolute; left: -2.5rem; width: 12px; height: 12px; border-radius: 50%; background: ''
              @ riskColor
              @ ''; border: 3px solid var(--bg-card);"></div> <div style="background: var(--bg-dark); padding: 1rem; border-radius: 8px; border-left: 3px solid ''
              @ riskColor
              @ '';"> <div style="display: flex; justify-content: space-between; margin-bottom: 0.5rem;"> <strong style="color: var(--text-primary);">$''
              @ toFixed amount 2
              @ ''</strong> <span style="color: var(--text-secondary); font-size: 0.85rem;">''
              @ text_of (txn_time t)
              @ ''</span> </div> <div style="display: flex; align-items: center; gap: 0.5rem;"> <span style="padding: 0.25rem 0.75rem; background: ''
              @ riskColor @ ''20; color: '' @ riskColor
              @ ''; border-radius: 12px; font-size: 0.75rem; font-weight: 600;"> '' @ text_of (txn_risk t)
              @ '' </span> </div> </div> </div> ''))\<close>

definition populateCustomerTimeline :: "llm_data \<Rightarrow> document \<Rightarrow> document \<times> error option" where
  \<open>populateCustomerTimeline llmData d =
     (case elems d ''customerTimelineViz'' of
        None \<Rightarrow> (d, None)
      | Some timelineEl \<Rightarrow>
          let recentTxns = recent_txns llmData
          in if length recentTxns = 0 then
               put ''customerTimelineViz'' (SetHtml '' <div style="text-align: center; padding: 2rem; color: var(--text-secondary);"> <i class="bi bi-inbox" style="font-size: 2rem;"></i> <p style="margin-top: 0.5rem;">No recent transaction history available</p> </div> '') d
             else (case map_throwing timeline_item recentTxns of
                     Inl e \<Rightarrow> (d, Some e)
                   | Inr items \<Rightarrow>
                       put ''customerTimelineViz''
                         (SetHtml (''<div style="position: relative; padding-left: 2rem;">''
                            @ ''<div style="position: absolute; left: 0; top: 0; bottom: 0; width: 2px; background: var(--border-color);"></div>''
                            @ concat items @ ''</div>'')) d))\<close>

text \<open>Calls in sequence: an error ends the run with what was written so far.\<close>

fun in_sequence :: "('s \<Rightarrow> 's \<times> error option) list \<Rightarrow> 's \<Rightarrow> 's \<times> error option" where
  "in_sequence [] s = (s, None)"
| "in_sequence (f # fs) s =
     (case f s of
        (s', None) \<Rightarrow> in_sequence fs s'
      | (s', Some e) \<Rightarrow> (s', Some e))"

definition displayLLMExplanation ::
  "llm_data option \<Rightarrow> transaction_data option \<Rightarrow> document \<Rightarrow> document \<times> error option" where
  "displayLLMExplanation llmData transactionData d =
     (case llmData of
        None \<Rightarrow> (console_line ''No LLM explanation data available'' d, None)
      | Some ld \<Rightarrow>
          in_sequence
            [populateExecutiveSummary ld,
             populateDetailedAnalysis ld,
             populateBehavioralInsights ld transactionData,
             populateRiskFactors ld,
             populateNetworkIntelligence ld transactionData,
             populateRecommendations ld,
             populateCustomerTimeline ld]
            (put_if ''llmExplanation'' (SetDisplay ''block'') d))"

section \<open>script.js: recent transactions\<close>

text \<open>
  One entry of the list.  \<^verbatim>\<open>log.risk_level.toLowerCase()\<close> throws when the
  entry has no risk level; \<^verbatim>\<open>parseFloat\<close> reads the text of the amount.
\<close>

definition log_item :: "log \<Rightarrow> error + string" where
  \<open>log_item l =
     (case risk_level l of
        None \<Rightarrow> Inl TypeError
      | Some rl \<Rightarrow>
          Inr ('' <div class="log-item"> <div class="log-info"> <div class="log-phone"><i class="bi bi-telephone"></i> ''
            @ text_of (phone_number l) @ ''</div> <div class="log-time"><i class="bi bi-clock"></i> ''
            @ text_of (timestamp l)
            @ ''</div> <div class="log-amount"><i class="bi bi-currency-dollar"></i> ''
            @ toFixed (parseFloat (num_text_of (transaction_amount l))) 2
            @ ''</div> </div> <span class="risk-badge '' @ replace_first_blank (toLowerCase rl) @ ''"> ''
            @ rl @ '' </span> </div> ''))\<close>

definition recent_onData :: "log list \<Rightarrow> document \<Rightarrow> document \<times> error option" where
  \<open>recent_onData logs d =
     (case elems d ''recentLogs'' of
        None \<Rightarrow> (d, None)
      | Some container \<Rightarrow>
          if length logs = 0 then
            put ''recentLogs'' (SetHtml ''<div class="loading-placeholder">No transactions yet</div>'') d
          else let recentLogs = take 5 logs
               in case map_throwing log_item recentLogs of
                    Inl e \<Rightarrow> (d, Some e)
                  | Inr items \<Rightarrow> put ''recentLogs'' (SetHtml (concat items)) d)\<close>

definition recent_onError :: "document \<Rightarrow> document \<times> error option" where
  \<open>recent_onError d =
     (put_if ''recentLogs''
        (SetHtml ''<div class="loading-placeholder">Error loading transactions</div>'')
        (console_line ''Error loading transactions:'' d), None)\<close>

definition loadRecentTransactions :: "log list fetched \<Rightarrow> document \<Rightarrow> document \<times> error option" where
  "loadRecentTransactions outcome d = then_catch outcome recent_onData recent_onError d"

section \<open>analytics.js\<close>

subsection \<open>getHeatColor\<close>

definition getHeatColor :: "jsnum \<Rightarrow> string" where
  "getHeatColor fraudRate =
     (if num_eq fraudRate (Fin 0) then ''#1a1f29''
      else if num_le fraudRate (Fin 20) then ''#10b981''
      else if num_le fraudRate (Fin 50) then ''#f59e0b''
      else ''#ef4444'')"

subsection \<open>loadHeatmap\<close>

text \<open>
  The object of one hour, as \<^verbatim>\<open>JSON.stringify\<close> lists it: its keys in their
  order, each with a number or \<^verbatim>\<open>null\<close> (\<open>None\<close>).  A key is read with
  \<open>map_of\<close>, which gives \<open>None\<close> for a key the object does not have.
\<close>

type_synonym hour_data = "(string \<times> jsnum option) list"

text \<open>
  \<^verbatim>\<open>data.hourly_fraud\<close> is indexed by the hour; \<open>None\<close> at an hour is an
  entry that is absent.  A reply without \<^verbatim>\<open>hourly_fraud\<close> makes the index
  expression throw.
\<close>

record heatmap_data =
  hourly_fraud :: "(nat \<rightharpoonup> hour_data) option"

text \<open>A property of the hour's object under \<^verbatim>\<open>||\<close>, and inside a template.\<close>

definition member_number :: "string \<Rightarrow> hour_data \<Rightarrow> jsnum option" where
  "member_number k h = (case map_of h k of Some (Some n) \<Rightarrow> Some n | _ \<Rightarrow> None)"

definition member_text :: "string \<Rightarrow> hour_data \<Rightarrow> string" where
  "member_text k h =
     (case map_of h k of
        None \<Rightarrow> ''undefined''
      | Some None \<Rightarrow> ''null''
      | Some (Some n) \<Rightarrow> number_to_string n)"

text \<open>
  \<^verbatim>\<open>JSON.stringify\<close> of a number, of a key (in double quotes, with the quote,
  the backslash and the control characters escaped) and of the hour's object;
  \<^verbatim>\<open>.replace(/"/g, '&quot;')\<close> then rewrites every double quote of the result.
\<close>

definition json_number :: "jsnum \<Rightarrow> string" where
  "json_number n = (case n of Fin q \<Rightarrow> number_to_string n | _ \<Rightarrow> ''null'')"

fun join_with :: "string \<Rightarrow> string list \<Rightarrow> string" where
  "join_with sep [] = []"
| "join_with sep [x] = x"
| "join_with sep (x # y # ys) = x @ sep @ join_with sep (y # ys)"

definition hex_digit :: "nat \<Rightarrow> char" where
  "hex_digit n = ''0123456789abcdef'' ! n"

definition json_escape :: "char \<Rightarrow> string" where
  "json_escape c =
     (let n = of_char c :: nat
      in if c = CHR 0x22 then [CHR 0x5C, CHR 0x22]
         else if c = CHR 0x5C then [CHR 0x5C, CHR 0x5C]
         else if n = 8 then [CHR 0x5C, CHR ''b'']
         else if n = 9 then [CHR 0x5C, CHR ''t'']
         else if n = 10 then [CHR 0x5C, CHR ''n'']
         else if n = 12 then [CHR 0x5C, CHR ''f'']
         else if n = 13 then [CHR 0x5C, CHR ''r'']
         else if n < 32 then [CHR 0x5C] @ ''u00'' @ [hex_digit (n div 16), hex_digit (n mod 16)]
         else [c])"

definition json_string :: "string \<Rightarrow> string" where
  "json_string k = [CHR 0x22] @ concat (map json_escape k) @ [CHR 0x22]"

definition json_hour_data :: "hour_data \<Rightarrow> string" where
  "json_hour_data h =
     ''{'' @ join_with '',''
       (map (\<lambda>(k, v). json_string k @ '':''
               @ (case v of None \<Rightarrow> ''null'' | Some n \<Rightarrow> json_number n)) h)
     @ ''}''"

definition replace_quotes :: "string \<Rightarrow> string" where
  "replace_quotes s = concat (map (\<lambda>c. if c = CHR 0x22 then ''&quot;'' else [c]) s)"

definition heatmap_cell :: "(nat \<rightharpoonup> hour_data) \<Rightarrow> nat \<Rightarrow> string" where
  \<open>heatmap_cell hf hour =
     (let hourData = (case hf hour of
                        None \<Rightarrow> [(''total'', Some (Fin 0)), (''high_risk'', Some (Fin 0)),
                                 (''fraud_rate'', Some (Fin 0))]
                      | Some h \<Rightarrow> h);
          fraudRate = num_or (member_number ''fraud_rate'' hourData) (Fin 0);
          color = getHeatColor fraudRate;
          textColor = (if num_gt fraudRate (Fin 50) then ''#ffffff'' else ''#1a1f29'')
      in '' <div class="heatmap-cell" style="background: '' @ color @ ''; color: '' @ textColor
          @ '';" title="Hour '' @ int_to_string (int hour) @ '':00\<newline>Total: ''
          @ member_text ''total'' hourData @ '' transactions\<newline>High Risk: ''
          @ member_text ''high_risk'' hourData @ ''\<newline>Fraud Rate: '' @ number_to_string fraudRate
          @ ''%" onclick="showHourDetails('' @ int_to_string (int hour) @ '', ''
          @ replace_quotes (json_hour_data hourData)
          @ '')"> '' @ int_to_string (int hour) @ ''h <br> <small style="font-size: 0.6rem;">''
          @ toFixed fraudRate 0 @ ''%</small> </div> '')\<close>

definition heatmap_onData ::
  "heatmap_data \<Rightarrow> 'a document_scheme \<Rightarrow> 'a document_scheme \<times> error option" where
  \<open>heatmap_onData data d =
     (case hourly_fraud data of
        None \<Rightarrow> (d, Some TypeError)
      | Some hf \<Rightarrow>
          put ''heatmapContainer''
            (SetHtml ('' <div class="heatmap-container"> ''
               @ concat (map (heatmap_cell hf) [0..<24]) @ '' </div> '')) d)\<close>

definition heatmap_onError :: "'a document_scheme \<Rightarrow> 'a document_scheme \<times> error option" where
  \<open>heatmap_onError d =
     put ''heatmapContainer''
       (SetHtml ''<p style="color: var(--text-secondary); text-align: center; padding: 2rem;">Error loading heatmap data</p>'')
       (console_line ''Error loading heatmap:'' d)\<close>

definition loadHeatmap ::
  "heatmap_data fetched \<Rightarrow> 'a document_scheme \<Rightarrow> 'a document_scheme \<times> error option" where
  "loadHeatmap outcome d = then_catch outcome heatmap_onData heatmap_onError d"

subsection \<open>loadFraudMap\<close>

text \<open>
  The map is drawn by the Leaflet library, of which this is what the handler uses: a map
  is created in an element (an error when the element is missing or already holds a
  map), gets a tile layer, circle markers (an error when a coordinate is missing or
  \<^verbatim>\<open>NaN\<close>) with popups, and is fitted to bounds.
\<close>

record cluster =
  cl_risk_level :: "string option"
  lat :: "jsnum option"
  lon :: "jsnum option"
  cl_count :: "jsnum option"
  cl_location :: "string option"
  risk_rate :: "jsnum option"
  cl_total_amount :: "jsnum option"

record geographic_data =
  clusters :: "cluster list option"

record circle_marker =
  mk_lat :: jsnum
  mk_lon :: jsnum
  mk_radius :: jsnum
  mk_color :: string
  mk_popup :: "string option"

record leaflet_map =
  map_center :: "rat \<times> rat"
  map_zoom :: nat
  tile_layers :: "string list"
  map_markers :: "circle_marker list"
  fitted_to :: "(jsnum \<times> jsnum) list option"

record analytics_document = document +
  fraud_map :: "leaflet_map option"

fun num_max :: "jsnum \<Rightarrow> jsnum \<Rightarrow> jsnum" where
  "num_max NaN b = NaN"
| "num_max a NaN = NaN"
| "num_max a b = (if num_lt a b then b else a)"

fun num_min :: "jsnum \<Rightarrow> jsnum \<Rightarrow> jsnum" where
  "num_min NaN b = NaN"
| "num_min a NaN = NaN"
| "num_min a b = (if num_lt b a then b else a)"

definition cluster_color :: "cluster \<Rightarrow> string" where
  "cluster_color c =
     (if cl_risk_level c = Some ''High'' then ''#ef4444''
      else if cl_risk_level c = Some ''Medium'' then ''#f59e0b'' else ''#10b981'')"

definition cluster_popup :: "cluster \<Rightarrow> error + string" where
  \<open>cluster_popup c =
     (let color = cluster_color c
      in case cl_total_amount c of
           None \<Rightarrow> Inl TypeError
         | Some amount \<Rightarrow>
             Inr ('' <div style="font-family: Arial; padding: 0.5rem;"> <strong style="font-size: 1.1rem;">''
            @ text_of (cl_location c)
            @ ''</strong><br> <div style="margin-top: 0.5rem; padding-top: 0.5rem; border-top: 1px solid #e5e7eb;"> <strong>Transactions:</strong> ''
            @ num_text_of (cl_count c) @ ''<br> <strong>Risk Level:</strong> <span style="color: '' @ color
            @ ''; font-weight: bold;">'' @ text_of (cl_risk_level c)
            @ ''</span><br> <strong>Fraud Rate:</strong> '' @ num_text_of (risk_rate c)
            @ ''%<br> <strong>Total Amount:</strong> $'' @ toFixed amount 2 @ '' </div> </div> ''))\<close>

text \<open>
  One round of \<^verbatim>\<open>data.clusters.forEach\<close>: the marker is on the map before its
  popup is built, so it stays there when building the popup throws.
\<close>

definition add_cluster :: "cluster \<Rightarrow> leaflet_map \<Rightarrow> leaflet_map \<times> error option" where
  "add_cluster c m =
     (case (lat c, lon c) of
        (Some la, Some lo) \<Rightarrow>
          if isNaN la \<or> isNaN lo then (m, Some LeafletError)
          else let circle = \<lparr>mk_lat = la, mk_lon = lo,
                     mk_radius = num_min (num_max (num_times (num_of (cl_count c)) 3) (Fin 8)) (Fin 40),
                     mk_color = cluster_color c, mk_popup = None\<rparr>
               in (case cluster_popup c of
                     Inl e \<Rightarrow> (m\<lparr>map_markers := map_markers m @ [circle]\<rparr>, Some e)
                   | Inr p \<Rightarrow>
                       (m\<lparr>map_markers := map_markers m @ [circle\<lparr>mk_popup := Some p\<rparr>]\<rparr>, None))
      | _ \<Rightarrow> (m, Some LeafletError))"

fun add_clusters :: "cluster list \<Rightarrow> leaflet_map \<Rightarrow> leaflet_map \<times> error option" where
  "add_clusters [] m = (m, None)"
| "add_clusters (c # cs) m =
     (case add_cluster c m of
        (m', None) \<Rightarrow> add_clusters cs m'
      | (m', Some e) \<Rightarrow> (m', Some e))"

definition fraudMap_onData ::
  "geographic_data \<Rightarrow> analytics_document \<Rightarrow> analytics_document \<times> error option" where
  "fraudMap_onData data d =
     (if elems d ''fraudMap'' = None \<or> fraud_map d \<noteq> None then (d, Some LeafletError)
      else let m0 = \<lparr>map_center = (20, 0), map_zoom = 2,
                      tile_layers = [''https://{s}.tile.openstreetmap.org/{z}/{x}/{y}.png''],
                      map_markers = [], fitted_to = None\<rparr>
           in case clusters data of
                None \<Rightarrow> (d\<lparr>fraud_map := Some m0\<rparr>, Some TypeError)
              | Some cs \<Rightarrow>
                  (case add_clusters cs m0 of
                     (m1, Some e) \<Rightarrow> (d\<lparr>fraud_map := Some m1\<rparr>, Some e)
                   | (m1, None) \<Rightarrow>
                       if 0 < length cs
                       then (d\<lparr>fraud_map := Some (m1\<lparr>fitted_to :=
                                 Some (map (\<lambda>c. (num_of (lat c), num_of (lon c))) cs)\<rparr>)\<rparr>, None)
                       else (d\<lparr>fraud_map := Some m1\<rparr>, None)))"

definition fraudMap_onError :: "'a document_scheme \<Rightarrow> 'a document_scheme \<times> error option" where
  \<open>fraudMap_onError d =
     put ''fraudMap''
       (SetHtml ''<p style="padding: 2rem; text-align: center; color: var(--text-secondary);">Error loading map</p>'')
       (console_line ''Error loading fraud map:'' d)\<close>

definition loadFraudMap ::
  "geographic_data fetched \<Rightarrow> analytics_document \<Rightarrow> analytics_document \<times> error option" where
  "loadFraudMap outcome d = then_catch outcome fraudMap_onData fraudMap_onError d"

subsection \<open>loadVelocityChecks\<close>

record anomaly =
  an_severity :: "string option"
  an_phone :: "string option"
  transaction_count :: "jsnum option"
  time_window :: "string option"
  location_count :: "jsnum option"
  an_total_amount :: "jsnum option"
  high_risk_count :: "jsnum option"

record velocity_data =
  anomalies :: "anomaly list option"

definition anomaly_markup :: "anomaly \<Rightarrow> error + string" where
  \<open>anomaly_markup a =
     (case an_total_amount a of
        None \<Rightarrow> Inl TypeError
      | Some amount \<Rightarrow>
          Inr ('' <div class="velocity-alert" style="border-left-color: ''
            @ (if an_severity a = Some ''HIGH'' then ''var(--danger-color)'' else ''var(--warning-color)'')
            @ '';"> <div style="display: flex; justify-content: space-between; align-items: center; margin-bottom: 0.5rem;"> <strong style="color: ''
            @ (if an_severity a = Some ''HIGH'' then ''var(--danger-color)'' else ''var(--warning-color)'')
            @ '';"> <i class="bi bi-exclamation-triangle"></i> '' @ text_of (an_severity a)
            @ '' Severity Alert </strong> <span class="severity-badge severity-'' @ text_of (an_severity a)
            @ ''">'' @ text_of (an_severity a)
            @ ''</span> </div> <div class="velocity-item"> <span><i class="bi bi-telephone"></i> Phone:</span> <strong>''
            @ text_of (an_phone a)
            @ ''</strong> </div> <div class="velocity-item"> <span><i class="bi bi-lightning"></i> Rapid Transactions:</span> <strong style="color: var(--danger-color);">''
            @ num_text_of (transaction_count a) @ '' in '' @ text_of (time_window a)
            @ ''</strong> </div> <div class="velocity-item"> <span><i class="bi bi-geo"></i> Different Locations:</span> <strong>''
            @ num_text_of (location_count a)
            @ ''</strong> </div> <div class="velocity-item"> <span><i class="bi bi-currency-dollar"></i> Total Amount:</span> <strong>$''
            @ toFixed amount 2
            @ ''</strong> </div> <div class="velocity-item"> <span><i class="bi bi-exclamation-octagon"></i> High Risk Count:</span> <strong style="color: var(--danger-color);">''
            @ num_text_of (high_risk_count a)
            @ ''</strong> </div> <button class="btn-details" onclick="window.location.href='/investigation/''
            @ text_of (an_phone a)
            @ '''" style="margin-top: 0.75rem; width: 100%;"> <i class="bi bi-search"></i> Investigate This Pattern </button> </div> ''))\<close>

definition velocity_onData ::
  "velocity_data \<Rightarrow> 'a document_scheme \<Rightarrow> 'a document_scheme \<times> error option" where
  \<open>velocity_onData data d =
     (case anomalies data of
        None \<Rightarrow> (d, Some TypeError)
      | Some as \<Rightarrow>
          if length as = 0 then
            put ''velocityChecks'' (SetHtml '' <div style="text-align: center; padding: 2rem; color: var(--text-secondary);"> <i class="bi bi-check-circle" style="font-size: 3rem; color: var(--success-color);"></i> <p style="margin-top: 1rem;">No velocity anomalies detected</p> <p style="font-size: 0.85rem; margin-top: 0.5rem;">All transaction patterns are within normal ranges</p> </div> '') d
          else (case map_throwing anomaly_markup as of
                  Inl e \<Rightarrow> (d, Some e)
                | Inr items \<Rightarrow> put ''velocityChecks'' (SetHtml (concat items)) d))\<close>

definition velocity_onError :: "'a document_scheme \<Rightarrow> 'a document_scheme \<times> error option" where
  \<open>velocity_onError d =
     put ''velocityChecks''
       (SetHtml ''<p style="color: var(--text-secondary); text-align: center; padding: 2rem;">Error loading velocity data</p>'')
       (console_line ''Error loading velocity checks:'' d)\<close>

definition loadVelocityChecks ::
  "velocity_data fetched \<Rightarrow> 'a document_scheme \<Rightarrow> 'a document_scheme \<times> error option" where
  "loadVelocityChecks outcome d = then_catch outcome velocity_onData velocity_onError d"

subsection \<open>loadBehaviorTimeline\<close>

record behavior_event =
  ev_type :: "string option"
  ev_severity :: "string option"
  ev_timestamp :: "string option"
  ev_phone :: "string option"
  details :: "string option"
  ev_risk_level :: "string option"

record behavior_data =
  events :: "behavior_event list option"

definition event_markup :: "behavior_event \<Rightarrow> error + string" where
  \<open>event_markup e =
     (case (ev_type e, ev_risk_level e) of
        (Some ty, Some rl) \<Rightarrow>
          (let markerClass = ''marker-'' @ replace_all_blanks (toLowerCase ty);
               icon = (if ty = ''SIM Swap'' then ''bi-sim''
                       else if ty = ''Location Change'' then ''bi-geo-alt''
                       else if ty = ''Roaming'' then ''bi-globe''
                       else if ty = ''Device Offline'' then ''bi-phone-x'' else ''bi-activity'')
           in Inr ('' <div class="timeline-event"> <div class="timeline-marker '' @ markerClass
            @ ''"></div> <div class="event-content"> <div class="event-header"> <div class="event-type"> <i class="bi ''
            @ icon @ ''"></i> '' @ ty @ '' <span class="severity-badge severity-'' @ text_of (ev_severity e)
            @ ''" style="margin-left: 0.5rem;">'' @ text_of (ev_severity e)
            @ ''</span> </div> <div class="event-time"><i class="bi bi-clock"></i> ''
            @ text_of (ev_timestamp e)
            @ ''</div> </div> <div class="event-details" style="margin-top: 0.5rem;"> <strong style="color: var(--text-primary);"><i class="bi bi-telephone"></i> Phone:</strong> ''
            @ text_of (ev_phone e)
            @ ''<br> <strong style="color: var(--text-primary);"><i class="bi bi-info-circle"></i> Details:</strong> ''
            @ text_of (details e)
            @ '' </div> <div style="margin-top: 0.5rem; padding-top: 0.5rem; border-top: 1px solid var(--border-color);"> <span style="font-size: 0.85rem; color: var(--text-secondary);">Risk Level:</span> <span class="risk-badge ''
            @ replace_first_blank (toLowerCase rl) @ ''" style="margin-left: 0.5rem;">'' @ rl
            @ ''</span> </div> </div> </div> ''))
      | _ \<Rightarrow> Inl TypeError)\<close>

definition behavior_onData ::
  "behavior_data \<Rightarrow> 'a document_scheme \<Rightarrow> 'a document_scheme \<times> error option" where
  \<open>behavior_onData data d =
     (case events data of
        None \<Rightarrow> (d, Some TypeError)
      | Some es \<Rightarrow>
          if length es = 0 then
            put ''behaviorTimeline'' (SetHtml '' <div style="text-align: center; padding: 2rem; color: var(--text-secondary);"> <i class="bi bi-info-circle" style="font-size: 2rem;"></i> <p style="margin-top: 1rem;">No network behavior events detected</p> <p style="font-size: 0.85rem; margin-top: 0.5rem;">All network activities are normal</p> </div> '') d
          else (case map_throwing event_markup es of
                  Inl e \<Rightarrow> (d, Some e)
                | Inr items \<Rightarrow> put ''behaviorTimeline'' (SetHtml (concat items)) d))\<close>

definition behavior_onError :: "'a document_scheme \<Rightarrow> 'a document_scheme \<times> error option" where
  \<open>behavior_onError d =
     put ''behaviorTimeline''
       (SetHtml ''<p style="color: var(--text-secondary); text-align: center; padding: 2rem;">Error loading timeline</p>'')
       (console_line ''Error loading behavior timeline:'' d)\<close>

definition loadBehaviorTimeline ::
  "behavior_data fetched \<Rightarrow> 'a document_scheme \<Rightarrow> 'a document_scheme \<times> error option" where
  "loadBehaviorTimeline outcome d = then_catch outcome behavior_onData behavior_onError d"

section \<open>What a document shows\<close>

text \<open>
  \<open>shown i r\<close> is the content of the element \<open>i\<close> in the document a handler left.
  A run of assignments that all find their element amounts to \<open>fold assign\<close>, and the
  content of an element afterwards is the last content assigned to it, \<open>last_inner\<close>.
\<close>

definition modal_ids :: "string list" where
  "modal_ids =
     [''modalPhone'', ''modalAmount'', ''modalTimestamp'', ''modalProbability'',
      ''modalRiskLevel'', ''modalSimSwap'', ''modalSimSwapDate'', ''modalLocationVerified'',
      ''modalLocationDistance'', ''modalRoamingStatus'', ''modalCurrentNetwork'',
      ''modalDeviceStatus'', ''modalSignalStrength'', ''modalVintage'', ''modalRiskRating'',
      ''modalSegment'', ''modalOccupation'', ''modalCountry'', ''modalCity'',
      ''modalGeoRestriction'', ''modalPepFlag'', ''modalTxnCount'', ''modalReversals'',
      ''triggeredRulesSection'', ''modalTriggeredRules'', ''modalExplanationSummary'',
      ''modalExplanationFactors'', ''detailsModal'']"

definition assign :: "string \<times> assignment \<Rightarrow> (string \<rightharpoonup> elem) \<Rightarrow> (string \<rightharpoonup> elem)" where
  "assign a m = (case m (fst a) of None \<Rightarrow> m | Some e \<Rightarrow> m(fst a \<mapsto> write_elem (snd a) e))"

fun last_inner :: "string \<Rightarrow> (string \<times> assignment) list \<Rightarrow> content option" where
  "last_inner i [] = None"
| "last_inner i (a # ws) =
     (case last_inner i ws of
        Some c \<Rightarrow> Some c
      | None \<Rightarrow>
          (if i = fst a
           then (case snd a of SetText t \<Rightarrow> Some (Text t) | SetHtml h \<Rightarrow> Some (Html h)
                 | _ \<Rightarrow> None)
           else None))"

definition shown :: "string \<Rightarrow> 'a document_scheme \<times> error option \<Rightarrow> content option" where
  "shown i r = map_option inner (elems (fst r) i)"

text \<open>
  The document \<^verbatim>\<open>displayLLMExplanation\<close> leaves when none of its seven calls
  throws.
\<close>

definition rendered :: "llm_data \<Rightarrow> transaction_data option \<Rightarrow> document \<Rightarrow> document" where
  "rendered ld tdo d =
     fst (populateCustomerTimeline ld
       (fst (populateRecommendations ld
         (fst (populateNetworkIntelligence ld tdo
           (fst (populateRiskFactors ld
             (fst (populateBehavioralInsights ld tdo
               (fst (populateDetailedAnalysis ld
                 (fst (populateExecutiveSummary ld
                   (put_if ''llmExplanation'' (SetDisplay ''block'') d))))))))))))))"

section \<open>Example inputs\<close>

definition blank_elem :: elem where
  "blank_elem = \<lparr>inner = Text [], el_className = [], el_display = []\<rparr>"

definition modal_document :: document where
  "modal_document = \<lparr>elems = map_of (map (\<lambda>i. (i, blank_elem)) modal_ids), console = []\<rparr>"

definition empty_log :: log where
  "empty_log =
     \<lparr>phone_number = None, transaction_amount = None, timestamp = None,
      fraud_probability = Undefined, risk_level = None, camara_data = None,
      customer_vintage = None, risk_rating = None, segment = None, occupation = None,
      country = None, city = None, geo_restriction = None, pep_flag = None,
      txn_count_1h = None, credit_reversals_7d = None, explanation = None\<rparr>"

definition empty_camara :: camara where
  "empty_camara = \<lparr>sim_swap = None, location = None, roaming = None, device_status = None\<rparr>"

definition example_form :: "string \<Rightarrow> string \<Rightarrow> form_page" where
  "example_form ph am =
     \<lparr>phone_value = ph, amount_value = am, phone_parent = 0, amount_parent = 1,
      validation_errors = (\<lambda>_. []), phone_animation = [], amount_animation = [],
      overlay_classes = Some [''loading-overlay''], form_timers = []\<rparr>"

definition example_feedback_page :: feedback_page where
  "example_feedback_page =
     \<lparr>buttons = [\<lparr>btn_classes = [''feedback-btn-compact'', ''btn-feedback''],
                   btn_disabled = False, btn_opacity = [], btn_cursor = []\<rparr>],
      feedbackMessage = Some \<lparr>msg_content = Html [], msg_className = [], msg_display = []\<rparr>,
      fb_timers = [], requests = [], console_errors = []\<rparr>"

definition example_reply :: reply where
  "example_reply = \<lparr>message = Some ''Feedback recorded'', status = Some ''success''\<rparr>"

definition example_rows :: "row list" where
  "example_rows =
     [\<lparr>cells = [''2025-01-01 10:00'', ''+1-800-FLOWERS'', ''250.00''],
       data_risk = Some ''High Risk'', row_display = [], row_animation = []\<rparr>,
      \<lparr>cells = [''2025-01-01 10:05'', ''+1-800-flowers'', ''12.00''],
       data_risk = Some ''Low Risk'', row_display = [], row_animation = []\<rparr>,
      \<lparr>cells = [''2025-01-01 10:07'', ''+442071234567'', ''80.00''],
       data_risk = Some ''High Risk'', row_display = [], row_animation = []\<rparr>]"

definition analytics_page :: analytics_document where
  "analytics_page =
     \<lparr>elems = map_of (map (\<lambda>i. (i, blank_elem))
        [''heatmapContainer'', ''fraudMap'', ''velocityChecks'', ''behaviorTimeline'']),
      console = [], fraud_map = None\<rparr>"



definition explanation_page :: document where
  "explanation_page =
     \<lparr>elems = map_of (map (\<lambda>i. (i, blank_elem))
        [''llmExplanation'', ''executiveSummary'', ''detailedAnalysisContent'',
         ''behavioralInsightsContent'', ''riskFactorsContent'', ''networkIntelContent'',
         ''recommendationsContent'', ''customerTimelineViz'']),
      console = []\<rparr>"

definition empty_llm :: llm_data where
  "empty_llm =
     \<lparr>executive_summary = None, detailed_analysis = None, behavioral_insights = None,
      profile_of = None, history_of = None, risk_factors = None, recommendation_of = None\<rparr>"

definition profile_with :: "txn \<Rightarrow> customer_profile" where
  "profile_with t =
     \<lparr>total_transactions = None, average_amount = None, velocity_pattern = None,
      days_as_customer = None, recent_transactions = Some [t]\<rparr>"

definition empty_td :: transaction_data where
  "empty_td = \<lparr>td_camara_data = None\<rparr>"

section \<open>Properties\<close>

subsection \<open>Evaluations used below\<close>

lemma phone_valid_examples:
  "\<not> phone_valid ''abc''" "phone_valid ''+14155551234''"
  by code_simp+

lemma amount_valid_examples:
  "\<not> amount_valid ''-5''" "\<not> amount_valid ''0''" "amount_valid ''10.50''"
  "amount_valid ''1000000''" "amount_valid ''1000000.01''"
  by code_simp+

lemma threshold_examples:
  "\<not> num_gt (parseFloat ''1000000'') (Fin 1000000)"
  "num_gt (parseFloat ''1000000.01'') (Fin 1000000)"
  by code_simp+

subsection \<open>The heatmap colour\<close>

text \<open>
  C5.  The heatmap colour of a fraud rate: a rate of 0 gets the neutral colour
  \<^verbatim>\<open>#1a1f29\<close>, a rate from 1 up to 20 the low colour \<^verbatim>\<open>#10b981\<close>,
  a rate from 21 up to 50 the mid colour \<^verbatim>\<open>#f59e0b\<close>, and a rate above 50
  (an infinite one included) the high colour \<^verbatim>\<open>#ef4444\<close>.
\<close>

theorem getHeatColor_bands:
  "getHeatColor (Fin 0) = ''#1a1f29''
   \<and> (\<forall>r. 1 \<le> r \<and> r \<le> 20 \<longrightarrow> getHeatColor (Fin r) = ''#10b981'')
   \<and> (\<forall>r. 21 \<le> r \<and> r \<le> 50 \<longrightarrow> getHeatColor (Fin r) = ''#f59e0b'')
   \<and> (\<forall>r. 50 < r \<longrightarrow> getHeatColor (Fin r) = ''#ef4444'')
   \<and> getHeatColor PosInf = ''#ef4444''"
  by (simp add: getHeatColor_def num_eq_def)

theorem getHeatColor_bands_witness:
  "getHeatColor (Fin 0) = ''#1a1f29''
   \<and> (1::rat) \<le> 1 \<and> (1::rat) \<le> 20 \<and> getHeatColor (Fin 1) = ''#10b981''
   \<and> (1::rat) \<le> 20 \<and> (20::rat) \<le> 20 \<and> getHeatColor (Fin 20) = ''#10b981''
   \<and> (21::rat) \<le> 21 \<and> (21::rat) \<le> 50 \<and> getHeatColor (Fin 21) = ''#f59e0b''
   \<and> (21::rat) \<le> 50 \<and> (50::rat) \<le> 50 \<and> getHeatColor (Fin 50) = ''#f59e0b''
   \<and> (50::rat) < 51 \<and> getHeatColor (Fin 51) = ''#ef4444''"
  using getHeatColor_bands by simp


subsection \<open>The prediction form\<close>

lemma showValidationError_last:
  "validation_errors (showValidationError f m p) (parent_of f p) \<noteq> []
   \<and> ed_className (last (validation_errors (showValidationError f m p) (parent_of f p)))
       = ''validation-error''
   \<and> ed_innerHTML (last (validation_errors (showValidationError f m p) (parent_of f p)))
       = ''<i class=\"bi bi-exclamation-circle\"></i> '' @ m"
  by (cases f) (simp_all add: showValidationError_def parent_of_def set_animation_def Let_def)

text \<open>
  C7.  The phone check rejects \<^verbatim>\<open>abc\<close> and accepts
  \<^verbatim>\<open>+14155551234\<close>; the amount check rejects \<^verbatim>\<open>-5\<close> and
  \<^verbatim>\<open>0\<close> and accepts \<^verbatim>\<open>10.50\<close>.  Whenever one of the two checks fails,
  the submit handler calls \<^verbatim>\<open>preventDefault\<close>, opens no dialog, and the last
  element of class \<^verbatim>\<open>validation-error\<close> under the failing input's parent is a
  new one with the message of that check (the phone check comes first).
\<close>

theorem form_validation:
  "\<not> phone_valid ''abc'' \<and> phone_valid ''+14155551234''
   \<and> \<not> amount_valid ''-5'' \<and> \<not> amount_valid ''0'' \<and> amount_valid ''10.50''
   \<and> (\<forall>answer p.
         \<not> phone_valid (phone_value p) \<longrightarrow>
           defaultPrevented (submit_handler answer p)
           \<and> confirms (submit_handler answer p) = []
           \<and> validation_errors (page (submit_handler answer p)) (phone_parent p) \<noteq> []
           \<and> ed_innerHTML (last (validation_errors (page (submit_handler answer p)) (phone_parent p)))
               = ''<i class=\"bi bi-exclamation-circle\"></i> Please enter a valid phone number (e.g., +1234567890)'')
   \<and> (\<forall>answer p.
         phone_valid (phone_value p) \<and> \<not> amount_valid (amount_value p) \<longrightarrow>
           defaultPrevented (submit_handler answer p)
           \<and> confirms (submit_handler answer p) = []
           \<and> validation_errors (page (submit_handler answer p)) (amount_parent p) \<noteq> []
           \<and> ed_innerHTML (last (validation_errors (page (submit_handler answer p)) (amount_parent p)))
               = ''<i class=\"bi bi-exclamation-circle\"></i> Please enter a valid amount greater than 0'')"
proof -
  have phone: "defaultPrevented (submit_handler answer p)
      \<and> confirms (submit_handler answer p) = []
      \<and> validation_errors (page (submit_handler answer p)) (phone_parent p) \<noteq> []
      \<and> ed_innerHTML (last (validation_errors (page (submit_handler answer p)) (phone_parent p)))
          = ''<i class=\"bi bi-exclamation-circle\"></i> Please enter a valid phone number (e.g., +1234567890)''"
    if "\<not> phone_valid (phone_value p)" for answer p
    using that showValidationError_last [of Phone _ p]
    by (simp add: submit_handler_def parent_of_def)
  have amount: "defaultPrevented (submit_handler answer p)
      \<and> confirms (submit_handler answer p) = []
      \<and> validation_errors (page (submit_handler answer p)) (amount_parent p) \<noteq> []
      \<and> ed_innerHTML (last (validation_errors (page (submit_handler answer p)) (amount_parent p)))
          = ''<i class=\"bi bi-exclamation-circle\"></i> Please enter a valid amount greater than 0''"
    if "phone_valid (phone_value p)" "\<not> amount_valid (amount_value p)" for answer p
    using that showValidationError_last [of Amount _ p]
    by (simp add: submit_handler_def parent_of_def amount_valid_def Let_def)
  show ?thesis
    using phone amount phone_valid_examples amount_valid_examples(1-3) by blast
qed

theorem form_validation_witness:
  "\<not> phone_valid (phone_value (example_form ''abc'' ''10.50''))
   \<and> defaultPrevented (submit_handler True (example_form ''abc'' ''10.50''))
   \<and> map ed_innerHTML (validation_errors (page (submit_handler True (example_form ''abc'' ''10.50''))) 0)
       = [''<i class=\"bi bi-exclamation-circle\"></i> Please enter a valid phone number (e.g., +1234567890)'']
   \<and> phone_valid (phone_value (example_form ''+14155551234'' ''-5''))
   \<and> \<not> amount_valid (amount_value (example_form ''+14155551234'' ''-5''))
   \<and> defaultPrevented (submit_handler True (example_form ''+14155551234'' ''-5''))
   \<and> map ed_innerHTML (validation_errors (page (submit_handler True (example_form ''+14155551234'' ''-5''))) 1)
       = [''<i class=\"bi bi-exclamation-circle\"></i> Please enter a valid amount greater than 0'']"
proof -
  have a: "\<not> phone_valid (phone_value (example_form ''abc'' ''10.50''))"
    using form_validation by (simp add: example_form_def)
  have b: "phone_valid (phone_value (example_form ''+14155551234'' ''-5''))"
    "\<not> amount_valid (amount_value (example_form ''+14155551234'' ''-5''))"
    using form_validation by (simp_all add: example_form_def)
  have c: "defaultPrevented (submit_handler True (example_form ''abc'' ''10.50''))"
    "defaultPrevented (submit_handler True (example_form ''+14155551234'' ''-5''))"
    using form_validation a b by blast+
  have d: "map ed_innerHTML (validation_errors (page (submit_handler True (example_form ''abc'' ''10.50''))) 0)
       = [''<i class=\"bi bi-exclamation-circle\"></i> Please enter a valid phone number (e.g., +1234567890)'']"
    using a by (simp add: submit_handler_def showValidationError_def example_form_def
        parent_of_def set_animation_def)
  have e: "map ed_innerHTML (validation_errors (page (submit_handler True (example_form ''+14155551234'' ''-5''))) 1)
       = [''<i class=\"bi bi-exclamation-circle\"></i> Please enter a valid amount greater than 0'']"
    using b by (simp add: submit_handler_def showValidationError_def example_form_def
        parent_of_def set_animation_def amount_valid_def Let_def)
  show ?thesis using a b c d e by simp
qed

text \<open>
  C8.  When both checks pass, the handler opens the confirmation dialog if and only if
  the parsed amount is greater than 1000000, and then exactly once.  At or below
  1000000 no dialog opens and \<^verbatim>\<open>preventDefault\<close> is not called, whatever the
  user would have answered.
\<close>

theorem confirmation_threshold:
  "phone_valid (phone_value p) \<and> amount_valid (amount_value p) \<longrightarrow>
     (confirms (submit_handler answer p) \<noteq> []
        \<longleftrightarrow> num_gt (parseFloat (amount_value p)) (Fin 1000000))
     \<and> (num_gt (parseFloat (amount_value p)) (Fin 1000000) \<longrightarrow>
          confirms (submit_handler answer p)
            = [''This is a large transaction amount. Are you sure you want to proceed?'']
          \<and> (defaultPrevented (submit_handler answer p) \<longleftrightarrow> \<not> answer))
     \<and> (\<not> num_gt (parseFloat (amount_value p)) (Fin 1000000) \<longrightarrow>
          confirms (submit_handler answer p) = []
          \<and> \<not> defaultPrevented (submit_handler answer p))"
  by (simp add: submit_handler_def amount_valid_def Let_def split: option.splits)

theorem confirmation_threshold_witness:
  "phone_valid (phone_value (example_form ''+14155551234'' ''1000000''))
   \<and> amount_valid (amount_value (example_form ''+14155551234'' ''1000000''))
   \<and> \<not> num_gt (parseFloat (amount_value (example_form ''+14155551234'' ''1000000''))) (Fin 1000000)
   \<and> confirms (submit_handler False (example_form ''+14155551234'' ''1000000'')) = []
   \<and> \<not> defaultPrevented (submit_handler False (example_form ''+14155551234'' ''1000000''))
   \<and> phone_valid (phone_value (example_form ''+14155551234'' ''1000000.01''))
   \<and> amount_valid (amount_value (example_form ''+14155551234'' ''1000000.01''))
   \<and> num_gt (parseFloat (amount_value (example_form ''+14155551234'' ''1000000.01''))) (Fin 1000000)
   \<and> confirms (submit_handler False (example_form ''+14155551234'' ''1000000.01''))
       = [''This is a large transaction amount. Are you sure you want to proceed?'']
   \<and> defaultPrevented (submit_handler False (example_form ''+14155551234'' ''1000000.01''))"
proof -
  have v: "phone_valid (phone_value (example_form ''+14155551234'' am))" for am
    by (simp add: example_form_def phone_valid_examples)
  have a: "amount_valid (amount_value (example_form ''+14155551234'' ''1000000''))"
    "amount_valid (amount_value (example_form ''+14155551234'' ''1000000.01''))"
    by (simp_all add: example_form_def amount_valid_examples)
  have t: "\<not> num_gt (parseFloat (amount_value (example_form ''+14155551234'' ''1000000''))) (Fin 1000000)"
    "num_gt (parseFloat (amount_value (example_form ''+14155551234'' ''1000000.01''))) (Fin 1000000)"
    by (simp_all add: example_form_def threshold_examples)
  show ?thesis
    using v a t
      confirmation_threshold [of "example_form ''+14155551234'' ''1000000''" False]
      confirmation_threshold [of "example_form ''+14155551234'' ''1000000.01''" False]
    by simp
qed

subsection \<open>Feedback\<close>

lemma length_update_buttons [simp]: "length (update_buttons sel f bs) = length bs"
  by (simp add: update_buttons_def)

lemma nth_update_buttons:
  "i < length bs \<Longrightarrow> update_buttons sel f bs ! i = (if i \<in> set sel then f (bs ! i) else bs ! i)"
  by (simp add: update_buttons_def)

lemma selectAll_less: "i \<in> set (selectAll c bs) \<Longrightarrow> i < length bs"
  by (simp add: selectAll_def)

lemma selectAll_iff: "i \<in> set (selectAll c bs) \<longleftrightarrow> i < length bs \<and> c \<in> set (btn_classes (bs ! i))"
  by (auto simp: selectAll_def)

lemma run_fb_task_length [simp]: "length (buttons (run_fb_task t p)) = length (buttons p)"
  by (cases t) (simp_all add: run_fb_task_def split: option.splits)

lemma run_fb_task_enabled:
  "i < length (buttons p) \<Longrightarrow> \<not> btn_disabled (buttons p ! i)
   \<Longrightarrow> \<not> btn_disabled (buttons (run_fb_task t p) ! i)"
  by (cases t) (simp_all add: run_fb_task_def nth_update_buttons split: option.splits)

lemma run_fb_task_enables:
  "i < length (buttons p) \<Longrightarrow> i \<in> set sel
   \<Longrightarrow> \<not> btn_disabled (buttons (run_fb_task (EnableButtons sel) p) ! i)"
  by (simp add: run_fb_task_def nth_update_buttons)

lemma fold_tasks_length [simp]:
  "length (buttons (fold (\<lambda>t. run_fb_task (snd t)) ts p)) = length (buttons p)"
  by (induction ts arbitrary: p) simp_all

lemma fold_tasks_enabled:
  "i < length (buttons p) \<Longrightarrow> \<not> btn_disabled (buttons p ! i)
   \<Longrightarrow> \<not> btn_disabled (buttons (fold (\<lambda>t. run_fb_task (snd t)) ts p) ! i)"
  by (induction ts arbitrary: p) (simp_all add: run_fb_task_enabled)

lemma fold_tasks_enables:
  "i < length (buttons p) \<Longrightarrow> i \<in> set sel \<Longrightarrow> EnableButtons sel \<in> snd ` set ts
   \<Longrightarrow> \<not> btn_disabled (buttons (fold (\<lambda>t. run_fb_task (snd t)) ts p) ! i)"
proof (induction ts arbitrary: p)
  case Nil
  then show ?case by simp
next
  case (Cons t ts)
  show ?case
  proof (cases "snd t = EnableButtons sel")
    case True
    with Cons.prems show ?thesis
      by (simp add: fold_tasks_enabled run_fb_task_enables)
  next
    case False
    with Cons.prems have "EnableButtons sel \<in> snd ` set ts" by auto
    with Cons.IH [of "run_fb_task (snd t) p"] Cons.prems show ?thesis by simp
  qed
qed

lemma elapse_enables:
  assumes "(d0, EnableButtons sel) \<in> set (fb_timers p)" "d0 \<le> d"
    "i < length (buttons p)" "i \<in> set sel"
  shows "\<not> btn_disabled (buttons (elapse d p) ! i)"
proof -
  have "EnableButtons sel \<in> snd ` set (sort_key fst (filter (\<lambda>t. fst t \<le> d) (fb_timers p)))"
    using assms(1,2) by force
  then show ?thesis
    using assms(3,4) by (simp add: elapse_def Let_def fold_tasks_enables)
qed

lemma elapse_length [simp]: "length (buttons (elapse d p)) = length (buttons p)"
  by (simp add: elapse_def Let_def)

lemma settle_1_buttons [simp]:
  "buttons (submitFeedback_1_settle ft sel out p) = buttons p"
  by (simp add: submitFeedback_1_settle_def Let_def split: fetched.splits option.splits)

lemma settle_1_timer:
  "(2000, EnableButtons sel) \<in> set (fb_timers (submitFeedback_1_settle ft sel out p))"
  by (simp add: submitFeedback_1_settle_def Let_def split: fetched.splits option.splits)

lemma feedback_messages:
  "snd (snd (feedback_style ''correct'')) = ''Thank you! Your feedback helps improve our AI model.''"
  "snd (snd (feedback_style ''false_positive'')) = ''Noted. We'll review this case to improve accuracy.''"
  "snd (snd (feedback_style ''under_review'')) = ''Marked for review. Our team will investigate.''"
  by (simp_all add: feedback_style_def)


lemma settle_2_timers [simp]:
  "fb_timers (submitFeedback_2_settle out q) = fb_timers q"
  by (simp add: submitFeedback_2_settle_def feedback_error_def Let_def
      split: fetched.splits option.splits)

lemma elapse_no_timers: "fb_timers q = [] \<Longrightarrow> elapse d q = q"
  by (simp add: elapse_def)

text \<open>
  C2.  The two definitions of \<^verbatim>\<open>submitFeedback\<close> send different requests: for
  every phone number and feedback type the first posts to \<^verbatim>\<open>/feedback\<close> an
  object with the keys \<^verbatim>\<open>phone_number\<close> and \<^verbatim>\<open>feedback\<close>, the second
  posts to \<^verbatim>\<open>/api/feedback\<close> an object with the keys \<^verbatim>\<open>phone_number\<close>
  and \<^verbatim>\<open>feedback_type\<close>; so the requests differ on every input.
\<close>

theorem submitFeedback_requests_differ:
  "requests (submitFeedback_1_call phone ft p)
     = requests p @ [\<lparr>req_url = ''/feedback'', req_method = ''POST'',
         req_headers = [(''Content-Type'', ''application/json'')],
         req_body = [(''phone_number'', phone), (''feedback'', ft)]\<rparr>]
   \<and> requests (submitFeedback_2_call phone ft p)
     = requests p @ [\<lparr>req_url = ''/api/feedback'', req_method = ''POST'',
         req_headers = [(''Content-Type'', ''application/json'')],
         req_body = [(''phone_number'', phone), (''feedback_type'', ft)]\<rparr>]
   \<and> map fst (req_body (last (requests (submitFeedback_1_call phone ft p))))
     = [''phone_number'', ''feedback'']
   \<and> map fst (req_body (last (requests (submitFeedback_2_call phone ft p))))
     = [''phone_number'', ''feedback_type'']
   \<and> requests (submitFeedback_1_call phone ft p) \<noteq> requests (submitFeedback_2_call phone ft p)"
  by (simp add: submitFeedback_1_call_def submitFeedback_2_call_def Let_def)

text \<open>
  C1, as the code has it.  The definition in effect is the second one.  Its call changes
  no button, no message and starts no timer; when the request has ended it starts no
  timer either, so with no other timer pending nothing changes afterwards.  On a JSON
  reply it shows the reply's own \<^verbatim>\<open>message\<close> as text and disables exactly the
  buttons of class \<^verbatim>\<open>btn-feedback\<close>; on a rejected request it shows the text
  \<^verbatim>\<open>Error submitting feedback\<close> and leaves the buttons alone.

  What the claim describes is the first definition: its call disables the buttons of
  class \<^verbatim>\<open>feedback-btn-compact\<close>; on a reply it shows the markup of the feedback
  type, whose message is one of three fixed sentences; on a rejected request it shows a
  fixed markup; and 2000 ms after the request ended, whichever way, the buttons it had
  disabled are enabled.
\<close>

theorem submitFeedback_two_definitions:
  "buttons (window_submitFeedback_call ph ft p) = buttons p
   \<and> feedbackMessage (window_submitFeedback_call ph ft p) = feedbackMessage p
   \<and> fb_timers (window_submitFeedback_call ph ft p) = fb_timers p
   \<and> fb_timers (window_submitFeedback_settle out q) = fb_timers q
   \<and> (fb_timers q = [] \<longrightarrow>
        elapse t (window_submitFeedback_settle out q) = window_submitFeedback_settle out q)
   \<and> (feedbackMessage q = Some m \<longrightarrow>
        feedbackMessage (window_submitFeedback_settle (Json (Some d)) q)
          = Some (m\<lparr>msg_content := Text (case message d of None \<Rightarrow> [] | Some x \<Rightarrow> x),
                    msg_className := ''feedback-message ''
                      @ (case status d of None \<Rightarrow> ''undefined'' | Some x \<Rightarrow> x),
                    msg_display := ''block''\<rparr>)
        \<and> (\<forall>i < length (buttons q).
              btn_disabled (buttons (window_submitFeedback_settle (Json (Some d)) q) ! i)
                = (''btn-feedback'' \<in> set (btn_classes (buttons q ! i)) \<or> btn_disabled (buttons q ! i)))
        \<and> feedbackMessage (window_submitFeedback_settle Rejected q)
          = Some (m\<lparr>msg_content := Text ''Error submitting feedback'',
                    msg_className := ''feedback-message error'', msg_display := ''block''\<rparr>)
        \<and> buttons (window_submitFeedback_settle Rejected q) = buttons q)
   \<and> (\<forall>i \<in> set (selectAll ''feedback-btn-compact'' (buttons p)).
        btn_disabled (buttons (submitFeedback_1_call ph ft p) ! i))
   \<and> (feedbackMessage q = Some m \<longrightarrow>
        feedbackMessage (submitFeedback_1_settle ft sel (Json x) q)
          = Some (m\<lparr>msg_content := Html (success_markup ft)\<rparr>)
        \<and> feedbackMessage (submitFeedback_1_settle ft sel Rejected q)
          = Some (m\<lparr>msg_content := Html failure_markup\<rparr>))
   \<and> snd (snd (feedback_style ''correct''))
        = ''Thank you! Your feedback helps improve our AI model.''
   \<and> snd (snd (feedback_style ''false_positive''))
        = ''Noted. We'll review this case to improve accuracy.''
   \<and> snd (snd (feedback_style ''under_review''))
        = ''Marked for review. Our team will investigate.''
   \<and> (\<forall>i \<in> set sel. i < length (buttons q) \<longrightarrow>
        \<not> btn_disabled (buttons (elapse 2000 (submitFeedback_1_settle ft sel o1 q)) ! i))"
proof -
  have call2: "buttons (window_submitFeedback_call ph ft p) = buttons p
      \<and> feedbackMessage (window_submitFeedback_call ph ft p) = feedbackMessage p
      \<and> fb_timers (window_submitFeedback_call ph ft p) = fb_timers p"
    by (simp add: window_submitFeedback_call_def submitFeedback_2_call_def)
  have timers2: "fb_timers (window_submitFeedback_settle out q) = fb_timers q"
    by (simp add: window_submitFeedback_settle_def)
  have quiet2: "fb_timers q = [] \<longrightarrow>
      elapse t (window_submitFeedback_settle out q) = window_submitFeedback_settle out q"
    by (simp add: window_submitFeedback_settle_def elapse_no_timers)
  have settle2: "feedbackMessage (window_submitFeedback_settle (Json (Some d)) q)
          = Some (m\<lparr>msg_content := Text (case message d of None \<Rightarrow> [] | Some x \<Rightarrow> x),
                    msg_className := ''feedback-message ''
                      @ (case status d of None \<Rightarrow> ''undefined'' | Some x \<Rightarrow> x),
                    msg_display := ''block''\<rparr>)
        \<and> (\<forall>i < length (buttons q).
              btn_disabled (buttons (window_submitFeedback_settle (Json (Some d)) q) ! i)
                = (''btn-feedback'' \<in> set (btn_classes (buttons q ! i)) \<or> btn_disabled (buttons q ! i)))
        \<and> feedbackMessage (window_submitFeedback_settle Rejected q)
          = Some (m\<lparr>msg_content := Text ''Error submitting feedback'',
                    msg_className := ''feedback-message error'', msg_display := ''block''\<rparr>)
        \<and> buttons (window_submitFeedback_settle Rejected q) = buttons q"
    if "feedbackMessage q = Some m"
    using that
    by (simp add: window_submitFeedback_settle_def submitFeedback_2_settle_def
        feedback_error_def nth_update_buttons selectAll_iff)
  have call1: "\<forall>i \<in> set (selectAll ''feedback-btn-compact'' (buttons p)).
        btn_disabled (buttons (submitFeedback_1_call ph ft p) ! i)"
    by (simp add: submitFeedback_1_call_def Let_def nth_update_buttons selectAll_less)
  have settle1: "feedbackMessage (submitFeedback_1_settle ft sel (Json x) q)
          = Some (m\<lparr>msg_content := Html (success_markup ft)\<rparr>)
        \<and> feedbackMessage (submitFeedback_1_settle ft sel Rejected q)
          = Some (m\<lparr>msg_content := Html failure_markup\<rparr>)"
    if "feedbackMessage q = Some m"
    using that by (simp add: submitFeedback_1_settle_def)
  have enable1: "\<forall>i \<in> set sel. i < length (buttons q) \<longrightarrow>
        \<not> btn_disabled (buttons (elapse 2000 (submitFeedback_1_settle ft sel o1 q)) ! i)"
  proof (intro ballI impI)
    fix i
    assume "i \<in> set sel" "i < length (buttons q)"
    then show "\<not> btn_disabled (buttons (elapse 2000 (submitFeedback_1_settle ft sel o1 q)) ! i)"
      by (intro elapse_enables [OF settle_1_timer]) simp_all
  qed
  show ?thesis
    using call2 timers2 quiet2 settle2 call1 settle1 feedback_messages enable1 by blast
qed


theorem submitFeedback_two_definitions_witness:
  "0 \<in> set (selectAll ''feedback-btn-compact'' (buttons example_feedback_page))
   \<and> btn_disabled (buttons (submitFeedback_1_call ''+14155551234'' ''correct''
        example_feedback_page) ! 0)
   \<and> feedbackMessage example_feedback_page
       = Some \<lparr>msg_content = Html [], msg_className = [], msg_display = []\<rparr>
   \<and> feedbackMessage (window_submitFeedback_settle Rejected example_feedback_page)
       = Some \<lparr>msg_content = Text ''Error submitting feedback'',
               msg_className = ''feedback-message error'', msg_display = ''block''\<rparr>
   \<and> feedbackMessage (submitFeedback_1_settle ''correct'' [0] Rejected example_feedback_page)
       = Some \<lparr>msg_content = Html failure_markup, msg_className = [], msg_display = []\<rparr>
   \<and> (0::nat) \<in> set [0] \<and> 0 < length (buttons example_feedback_page)
   \<and> \<not> btn_disabled (buttons (elapse 2000
        (submitFeedback_1_settle ''correct'' [0] Rejected example_feedback_page)) ! 0)"
proof -
  have sel: "0 \<in> set (selectAll ''feedback-btn-compact'' (buttons example_feedback_page))"
    by (simp add: selectAll_def example_feedback_page_def)
  have m: "feedbackMessage example_feedback_page
       = Some \<lparr>msg_content = Html [], msg_className = [], msg_display = []\<rparr>"
    and l: "0 < length (buttons example_feedback_page)"
    by (simp_all add: example_feedback_page_def)
  note T = submitFeedback_two_definitions [where p = example_feedback_page
      and q = example_feedback_page and sel = "[0]" and ft = "''correct''"
      and ph = "''+14155551234''" and ?o1.0 = Rejected and out = Rejected and t = 0
      and d = example_reply and x = "()"
      and m = "\<lparr>msg_content = Html [], msg_className = [], msg_display = []\<rparr>"]
  have a: "btn_disabled (buttons (submitFeedback_1_call ''+14155551234'' ''correct''
        example_feedback_page) ! 0)"
    using T sel by blast
  have "feedbackMessage (window_submitFeedback_settle Rejected example_feedback_page)
       = Some (\<lparr>msg_content = Html [], msg_className = [], msg_display = []\<rparr>
               \<lparr>msg_content := Text ''Error submitting feedback'',
                msg_className := ''feedback-message error'', msg_display := ''block''\<rparr>)"
    using T m by blast
  then have b: "feedbackMessage (window_submitFeedback_settle Rejected example_feedback_page)
       = Some \<lparr>msg_content = Text ''Error submitting feedback'',
               msg_className = ''feedback-message error'', msg_display = ''block''\<rparr>"
    by simp
  have "feedbackMessage (submitFeedback_1_settle ''correct'' [0] Rejected example_feedback_page)
       = Some (\<lparr>msg_content = Html [], msg_className = [], msg_display = []\<rparr>
               \<lparr>msg_content := Html failure_markup\<rparr>)"
    using T m by blast
  then have c: "feedbackMessage (submitFeedback_1_settle ''correct'' [0] Rejected example_feedback_page)
       = Some \<lparr>msg_content = Html failure_markup, msg_className = [], msg_display = []\<rparr>"
    by simp
  have "\<forall>i \<in> set [0::nat]. i < length (buttons example_feedback_page) \<longrightarrow>
        \<not> btn_disabled (buttons (elapse 2000
          (submitFeedback_1_settle ''correct'' [0] Rejected example_feedback_page)) ! i)"
    using T by blast
  with l have d: "\<not> btn_disabled (buttons (elapse 2000
        (submitFeedback_1_settle ''correct'' [0] Rejected example_feedback_page)) ! 0)"
    by simp
  from sel m l a b c d show ?thesis by simp
qed

text \<open>
  C1, as the claim states it, fails for the definition in effect.  On a page whose one
  button carries both classes: after the call the button is not disabled; after a reply
  it is disabled and 2000 ms later it still is; and the message shown for the feedback
  type \<^verbatim>\<open>correct\<close> is the one shown for \<^verbatim>\<open>false_positive\<close>.
\<close>

theorem submitFeedback_effective_counterexample:
  "map btn_disabled (buttons (window_submitFeedback_call ''+14155551234'' ''correct''
       example_feedback_page)) = [False]
   \<and> map btn_disabled (buttons (elapse 2000 (window_submitFeedback_settle (Json (Some example_reply))
       (window_submitFeedback_call ''+14155551234'' ''correct'' example_feedback_page)))) = [True]
   \<and> feedbackMessage (window_submitFeedback_settle (Json (Some example_reply))
       (window_submitFeedback_call ''+14155551234'' ''correct'' example_feedback_page))
     = Some \<lparr>msg_content = Text ''Feedback recorded'', msg_className = ''feedback-message success'',
             msg_display = ''block''\<rparr>
   \<and> feedbackMessage (window_submitFeedback_settle (Json (Some example_reply))
       (window_submitFeedback_call ''+14155551234'' ''false_positive'' example_feedback_page))
     = Some \<lparr>msg_content = Text ''Feedback recorded'', msg_className = ''feedback-message success'',
             msg_display = ''block''\<rparr>"
  by (simp add: window_submitFeedback_call_def window_submitFeedback_settle_def
      submitFeedback_2_call_def submitFeedback_2_settle_def example_feedback_page_def
      example_reply_def elapse_def update_buttons_def selectAll_def)


subsection \<open>The table filter\<close>

lemma str_includes_sublist: "str_includes s t \<longleftrightarrow> sublist t s"
proof (induction s)
  case Nil
  then show ?case by simp
next
  case (Cons c cs)
  then show ?case by (auto simp: sublist_Cons_right)
qed

text \<open>
  \<^verbatim>\<open>toLowerCase\<close> identifies exactly the characters that are the same letter,
  so the test of the code, \<^verbatim>\<open>phoneNumber.includes(searchTerm)\<close> on the
  lower-cased texts, is containment up to letter case.
\<close>

lemma ascii_pairs:
  "zip ''ABCDEFGHIJKLMNOPQRSTUVWXYZ'' ''abcdefghijklmnopqrstuvwxyz''
     = map (\<lambda>n. (char_of n, char_of (n + 32))) [65..<91 :: nat]"
  by code_simp

lemma set_letter_pairs:
  "set letter_pairs
     = (\<lambda>n. (char_of n, char_of (n + 32))) ` ({65..<91} \<union> {192..<215} \<union> {216..<223} :: nat set)"
  unfolding letter_pairs_def ascii_pairs
  by (simp only: set_map set_append set_upt map_append image_Un Un_assoc)

lemma letter_pairs_iff:
  "(c, d) \<in> set letter_pairs \<longleftrightarrow>
     ((65 \<le> (of_char c :: nat) \<and> (of_char c :: nat) \<le> 90)
        \<or> (192 \<le> (of_char c :: nat) \<and> (of_char c :: nat) \<le> 222 \<and> (of_char c :: nat) \<noteq> 215))
     \<and> (of_char d :: nat) = of_char c + 32"
  (is "?L \<longleftrightarrow> ?R")
proof
  assume ?L
  then obtain n :: nat where n: "n \<in> {65..<91} \<union> {192..<215} \<union> {216..<223}"
      "c = char_of n" "d = char_of (n + 32)"
    unfolding set_letter_pairs by blast
  from n(1) have "n mod 256 = n" "(n + 32) mod 256 = n + 32" by auto
  with n show ?R by (auto simp: of_char_of)
next
  assume r: ?R
  let ?n = "of_char c :: nat"
  have "char_of ?n = c" by simp
  moreover have "char_of (?n + 32) = d"
  proof -
    have "char_of (?n + 32) = (char_of (of_char d :: nat) :: char)" using r by simp
    then show ?thesis by simp
  qed
  moreover have "?n \<in> {65..<91} \<union> {192..<215} \<union> {216..<223}"
    using r by auto
  ultimately show ?L
    unfolding set_letter_pairs by (metis (mono_tags, lifting) image_eqI)
qed

lemma to_lower_char_code: "(of_char (to_lower_char c) :: nat) =
  (if (65 \<le> (of_char c :: nat) \<and> (of_char c :: nat) \<le> 90)
        \<or> (192 \<le> (of_char c :: nat) \<and> (of_char c :: nat) \<le> 222 \<and> (of_char c :: nat) \<noteq> 215)
   then of_char c + 32 else of_char c)"
  by (auto simp: to_lower_char_def Let_def of_char_of)

lemma to_lower_char_eq_iff: "to_lower_char c = to_lower_char d \<longleftrightarrow> same_letter c d"
proof -
  have "to_lower_char c = to_lower_char d
      \<longleftrightarrow> (of_char (to_lower_char c) :: nat) = of_char (to_lower_char d)"
    by simp
  also have "\<dots> \<longleftrightarrow> same_letter c d"
    unfolding to_lower_char_code same_letter_def letter_pairs_iff
    using of_char_eq_iff [of c d, where ?'a = nat]
    by auto
  finally show ?thesis .
qed

lemma toLowerCase_eq_iff: "toLowerCase s = toLowerCase t \<longleftrightarrow> equal_ignoring_case s t"
  unfolding toLowerCase_def equal_ignoring_case_def
proof (induction s arbitrary: t)
  case Nil
  then show ?case by simp
next
  case (Cons c cs)
  then show ?case by (cases t) (simp_all add: to_lower_char_eq_iff)
qed

lemma to_lower_char_idem: "to_lower_char (to_lower_char c) = to_lower_char c"
proof -
  have "(of_char (to_lower_char (to_lower_char c)) :: nat) = of_char (to_lower_char c)"
    unfolding to_lower_char_code by auto
  then show ?thesis by simp
qed

lemma toLowerCase_idem: "toLowerCase (toLowerCase s) = toLowerCase s"
  by (simp add: toLowerCase_def to_lower_char_idem)

lemma sublist_map_iff:
  "sublist t (map f s) \<longleftrightarrow> (\<exists>ps m ss. s = ps @ m @ ss \<and> map f m = t)"
proof
  assume "sublist t (map f s)"
  then obtain a b where eq: "map f s = a @ t @ b" by (auto simp: sublist_def)
  let ?m = "take (length t) (drop (length a) s)"
  have "s = take (length a) s @ ?m @ drop (length t) (drop (length a) s)"
    by (simp only: append_take_drop_id)
  moreover have "map f ?m = take (length t) (drop (length a) (map f s))"
    by (simp only: take_map drop_map)
  then have "map f ?m = t"
    by (simp only: eq) simp
  ultimately show "\<exists>ps m ss. s = ps @ m @ ss \<and> map f m = t" by blast
next
  assume "\<exists>ps m ss. s = ps @ m @ ss \<and> map f m = t"
  then obtain ps m ss where "s = ps @ m @ ss" "map f m = t" by blast
  then have "map f s = map f ps @ t @ map f ss" by simp
  then show "sublist t (map f s)" unfolding sublist_def by blast
qed

lemma contains_ignoring_case_iff:
  "contains_ignoring_case s t \<longleftrightarrow> str_includes (toLowerCase s) (toLowerCase t)"
proof -
  have "str_includes (toLowerCase s) (toLowerCase t)
      \<longleftrightarrow> (\<exists>ps m ss. s = ps @ m @ ss \<and> toLowerCase m = toLowerCase t)"
    unfolding toLowerCase_def [of s] str_includes_sublist sublist_map_iff
    by (simp add: toLowerCase_def)
  then show ?thesis
    by (simp add: contains_ignoring_case_def toLowerCase_eq_iff)
qed


lemma filter_rows_length: "length (fst (filter_rows st sr rs)) = length rs"
  by (induction rs) (auto split: sum.splits prod.splits)

lemma filter_rows_error:
  "snd (filter_rows st sr rs) = None \<longleftrightarrow> list_all (\<lambda>r. 2 \<le> length (cells r)) rs"
  by (induction rs) (auto simp: filter_row_def Let_def split: sum.splits prod.splits if_splits)

lemma filter_rows_prefix:
  "i < length rs \<Longrightarrow> \<forall>j \<le> i. 2 \<le> length (cells (rs ! j))
    \<Longrightarrow> filter_row st sr (rs ! i) = Inr (fst (filter_rows st sr rs) ! i)"
proof (induction rs arbitrary: i)
  case Nil
  then show ?case by simp
next
  case (Cons r rs)
  from Cons.prems(2) have "2 \<le> length (cells r)" by auto
  then have "\<exists>r'. filter_row st sr r = Inr r'"
    by (simp add: filter_row_def Let_def)
  then obtain r' where r': "filter_row st sr r = Inr r'" ..
  show ?case
  proof (cases i)
    case 0
    with r' show ?thesis by (simp split: prod.splits)
  next
    case (Suc k)
    with Cons.prems have "k < length rs" "\<forall>j \<le> k. 2 \<le> length (cells (rs ! j))" by auto
    from Cons.IH [OF this] Suc r' show ?thesis by (simp split: prod.splits)
  qed
qed

lemma filter_rows_rest:
  "k \<le> i \<Longrightarrow> i < length rs \<Longrightarrow> length (cells (rs ! k)) < 2
    \<Longrightarrow> fst (filter_rows st sr rs) ! i = rs ! i"
proof (induction rs arbitrary: k i)
  case Nil
  then show ?case by simp
next
  case (Cons r rs)
  show ?case
  proof (cases "filter_row st sr r")
    case (Inl e)
    then show ?thesis by simp
  next
    case (Inr r')
    then have "2 \<le> length (cells r)" by (auto simp: filter_row_def Let_def split: if_splits)
    with Cons.prems obtain k' where k': "k = Suc k'" by (cases k) auto
    with Cons.prems obtain i' where i': "i = Suc i'" by (cases i) auto
    from Cons.prems k' i' have "k' \<le> i'" "i' < length rs" "length (cells (rs ! k')) < 2" by auto
    from Cons.IH [OF this] Inr i' show ?thesis
      by (cases "filter_rows st sr rs") simp
  qed
qed

lemma filter_row_result:
  "filter_row (toLowerCase term) risk r = Inr r' \<Longrightarrow>
     cells r' = cells r \<and> data_risk r' = data_risk r
      \<and> row_display r' = (if contains_ignoring_case (cells r ! 1) term
                    \<and> (risk = ''all'' \<or> data_risk r = Some risk) then [] else ''none'')"
  by (auto simp: filter_row_def Let_def contains_ignoring_case_iff split: if_splits)

text \<open>
  C6.  \<^verbatim>\<open>filterTable\<close> keeps the number of rows, and throws exactly when some
  row lacks its phone-number cell (the second cell).  Every row up to the first such
  row keeps its cells and its \<^verbatim>\<open>data-risk\<close>, and is left visible
  (\<^verbatim>\<open>display\<close> empty) exactly when its phone-number cell contains the search
  term up to letter case and the selected risk is \<^verbatim>\<open>all\<close> or equal to the
  row's \<^verbatim>\<open>data-risk\<close>; otherwise it gets \<^verbatim>\<open>display: none\<close>.  The rows
  from the first one without that cell on are left as they were.
\<close>

theorem filterTable_visible:
  "length (fst (filterTable (Some term) (Some risk) rows)) = length rows
    \<and> (snd (filterTable (Some term) (Some risk) rows) = None
          \<longleftrightarrow> list_all (\<lambda>r. 2 \<le> length (cells r)) rows)
    \<and> (\<forall>i < length rows. (\<forall>j \<le> i. 2 \<le> length (cells (rows ! j))) \<longrightarrow>
          cells (fst (filterTable (Some term) (Some risk) rows) ! i) = cells (rows ! i)
          \<and> data_risk (fst (filterTable (Some term) (Some risk) rows) ! i) = data_risk (rows ! i)
          \<and> row_display (fst (filterTable (Some term) (Some risk) rows) ! i)
              = (if contains_ignoring_case (cells (rows ! i) ! 1) term
                    \<and> (risk = ''all'' \<or> data_risk (rows ! i) = Some risk)
                 then [] else ''none''))
    \<and> (\<forall>k i. k \<le> i \<and> i < length rows \<and> length (cells (rows ! k)) < 2 \<longrightarrow>
          fst (filterTable (Some term) (Some risk) rows) ! i = rows ! i)"
proof -
  have ft: "filterTable (Some term) (Some risk) rows = filter_rows (toLowerCase term) risk rows"
    by (simp add: filterTable_def)
  have 1: "length (fst (filter_rows (toLowerCase term) risk rows)) = length rows"
    by (rule filter_rows_length)
  have 2: "snd (filter_rows (toLowerCase term) risk rows) = None
          \<longleftrightarrow> list_all (\<lambda>r. 2 \<le> length (cells r)) rows"
    by (rule filter_rows_error)
  have 3: "\<forall>i < length rows. (\<forall>j \<le> i. 2 \<le> length (cells (rows ! j))) \<longrightarrow>
          cells (fst (filter_rows (toLowerCase term) risk rows) ! i) = cells (rows ! i)
          \<and> data_risk (fst (filter_rows (toLowerCase term) risk rows) ! i) = data_risk (rows ! i)
          \<and> row_display (fst (filter_rows (toLowerCase term) risk rows) ! i)
              = (if contains_ignoring_case (cells (rows ! i) ! 1) term
                    \<and> (risk = ''all'' \<or> data_risk (rows ! i) = Some risk)
                 then [] else ''none'')"
    using filter_row_result [OF filter_rows_prefix [of _ rows "toLowerCase term" risk]]
    by blast
  have 4: "\<forall>k i. k \<le> i \<and> i < length rows \<and> length (cells (rows ! k)) < 2 \<longrightarrow>
          fst (filter_rows (toLowerCase term) risk rows) ! i = rows ! i"
    using filter_rows_rest [of _ _ rows "toLowerCase term" risk] by blast
  from 1 2 3 4 show ?thesis
    unfolding ft by (intro conjI)
qed


lemma map_length_3: "length xs = 3 \<Longrightarrow> map f xs = [f (xs ! 0), f (xs ! 1), f (xs ! 2)]"
  by (auto simp: length_Suc_conv numeral_3_eq_3)

lemma example_rows_search:
  "contains_ignoring_case ''+1-800-FLOWERS'' ''Flow''"
  "\<not> contains_ignoring_case ''+442071234567'' ''Flow''"
  "contains_ignoring_case ''+1-800-FLOWERS'' ''fLoW''"
  "contains_ignoring_case ''+1-800-flowers'' ''fLoW''"
  "\<not> contains_ignoring_case ''+442071234567'' ''fLoW''"
  unfolding contains_ignoring_case_iff by code_simp+

text \<open>
  Three rows with their phone-number cells, two of which spell the same letters in
  different case: a search for \<^verbatim>\<open>Flow\<close> among the high-risk rows, and for
  \<^verbatim>\<open>fLoW\<close> among all rows.
\<close>

theorem filterTable_visible_witness:
  "list_all (\<lambda>r. 2 \<le> length (cells r)) example_rows
   \<and> snd (filterTable (Some ''Flow'') (Some ''High Risk'') example_rows) = None
   \<and> map row_display (fst (filterTable (Some ''Flow'') (Some ''High Risk'') example_rows))
       = [[], ''none'', ''none'']
   \<and> map row_display (fst (filterTable (Some ''fLoW'') (Some ''all'') example_rows))
       = [[], [], ''none'']"
proof -
  have h: "list_all (\<lambda>r. 2 \<le> length (cells r)) example_rows"
    by (simp add: example_rows_def)
  have hj: "\<forall>j \<le> i. 2 \<le> length (cells (example_rows ! j))" if "i < 3" for i
  proof (intro allI impI)
    fix j assume "j \<le> i"
    with that have "j < length example_rows" by (simp add: example_rows_def)
    with h show "2 \<le> length (cells (example_rows ! j))" by (simp add: list_all_length)
  qed
  note T = filterTable_visible [of "''Flow''" "''High Risk''" example_rows]
  note U = filterTable_visible [of "''fLoW''" "''all''" example_rows]
  have lT: "length (fst (filterTable (Some ''Flow'') (Some ''High Risk'') example_rows)) = 3"
    using T by (simp add: example_rows_def)
  have lU: "length (fst (filterTable (Some ''fLoW'') (Some ''all'') example_rows)) = 3"
    using U by (simp add: example_rows_def)
  have "row_display (fst (filterTable (Some ''Flow'') (Some ''High Risk'') example_rows) ! 0) = []"
    "row_display (fst (filterTable (Some ''Flow'') (Some ''High Risk'') example_rows) ! 1) = ''none''"
    "row_display (fst (filterTable (Some ''Flow'') (Some ''High Risk'') example_rows) ! 2) = ''none''"
    using T hj [of 0] hj [of 1] hj [of 2] example_rows_search by (simp_all add: example_rows_def)
  with lT have 1: "map row_display (fst (filterTable (Some ''Flow'') (Some ''High Risk'') example_rows))
       = [[], ''none'', ''none'']"
    by (simp add: map_length_3)
  have "row_display (fst (filterTable (Some ''fLoW'') (Some ''all'') example_rows) ! 0) = []"
    "row_display (fst (filterTable (Some ''fLoW'') (Some ''all'') example_rows) ! 1) = []"
    "row_display (fst (filterTable (Some ''fLoW'') (Some ''all'') example_rows) ! 2) = ''none''"
    using U hj [of 0] hj [of 1] hj [of 2] example_rows_search by (simp_all add: example_rows_def)
  with lU have 2: "map row_display (fst (filterTable (Some ''fLoW'') (Some ''all'') example_rows))
       = [[], [], ''none'']"
    by (simp add: map_length_3)
  from T h 1 2 show ?thesis by simp
qed

subsection \<open>The details modal\<close>

lemma dom_assign [simp]: "dom (assign a m) = dom m"
  by (auto simp: assign_def split: option.splits)

lemma dom_fold_assign [simp]: "dom (fold assign ws m) = dom m"
  by (induction ws arbitrary: m) simp_all

lemma put_assign:
  "i \<in> dom (elems d) \<Longrightarrow> put i w d = (d\<lparr>elems := assign (i, w) (elems d)\<rparr>, None)"
  by (auto simp: put_def assign_def)

lemma puts_all:
  "fst ` set ws \<subseteq> dom (elems d)
   \<Longrightarrow> puts ws d = (d\<lparr>elems := fold assign ws (elems d)\<rparr>, None)"
proof (induction ws arbitrary: d)
  case Nil
  then show ?case by simp
next
  case (Cons a ws)
  obtain i w where a: "a = (i, w)" by (cases a)
  with Cons.prems have i: "i \<in> dom (elems d)" by auto
  have "fst ` set ws \<subseteq> dom (elems (d\<lparr>elems := assign (i, w) (elems d)\<rparr>))"
    using Cons.prems by auto
  from Cons.IH [OF this] a show ?case
    by (simp add: put_assign [OF i])
qed

lemma last_inner_append:
  "last_inner i (xs @ ys)
     = (case last_inner i ys of Some c \<Rightarrow> Some c | None \<Rightarrow> last_inner i xs)"
  by (induction xs) (auto split: option.splits)

lemma inner_assign:
  "map_option inner (assign a m i)
     = (if i = fst a \<and> i \<in> dom m
        then (case snd a of SetText t \<Rightarrow> Some (Text t) | SetHtml h \<Rightarrow> Some (Html h)
              | _ \<Rightarrow> map_option inner (m i))
        else map_option inner (m i))"
  by (auto simp: assign_def write_elem_def split: option.splits assignment.splits)

lemma inner_fold_assign:
  "i \<in> dom m \<Longrightarrow>
   map_option inner (fold assign ws m i)
     = (case last_inner i ws of Some c \<Rightarrow> Some c | None \<Rightarrow> map_option inner (m i))"
proof (induction ws arbitrary: m)
  case Nil
  then show ?case by simp
next
  case (Cons a ws)
  have "i \<in> dom (assign a m)" using Cons.prems by simp
  from Cons.IH [OF this] Cons.prems show ?case
    by (auto simp: inner_assign split: option.splits assignment.splits)
qed

lemma shown_puts:
  assumes "fst ` set ws \<subseteq> dom (elems d)" "i \<in> dom (elems d)"
  shows "shown i (puts ws d)
     = (case last_inner i ws of Some c \<Rightarrow> Some c | None \<Rightarrow> map_option inner (elems d i))"
  using assms by (simp add: shown_def puts_all inner_fold_assign)


lemma last_inner_notin: "i \<notin> fst ` set ws \<Longrightarrow> last_inner i ws = None"
  by (induction ws) auto

lemma ids_basic: "fst ` set (basic_info_writes l)
    = {''modalPhone'', ''modalAmount'', ''modalTimestamp'', ''modalProbability'', ''modalRiskLevel''}"
  by (simp add: basic_info_writes_def)

lemma ids_camara: "fst ` set (camara_writes c)
    = {''modalSimSwap'', ''modalSimSwapDate'', ''modalLocationVerified'', ''modalLocationDistance'',
       ''modalRoamingStatus'', ''modalCurrentNetwork'', ''modalDeviceStatus'', ''modalSignalStrength''}"
  by (cases c) (simp_all add: camara_writes_def Let_def)

lemma ids_profile: "fst ` set (customer_profile_writes l)
    = {''modalVintage'', ''modalRiskRating'', ''modalSegment'', ''modalOccupation'',
       ''modalCountry'', ''modalCity'', ''modalGeoRestriction'', ''modalPepFlag''}"
  by (simp add: customer_profile_writes_def)

lemma ids_patterns: "fst ` set (transaction_pattern_writes l) = {''modalTxnCount'', ''modalReversals''}"
  by (simp add: transaction_pattern_writes_def)

lemma ids_rules: "fst ` set (triggered_rules_writes l)
    \<subseteq> {''triggeredRulesSection'', ''modalTriggeredRules''}"
  by (simp add: triggered_rules_writes_def)

lemma ids_explanation: "fst ` set (explanation_writes l)
    = {''modalExplanationSummary'', ''modalExplanationFactors''}"
  by (simp add: explanation_writes_def)

lemmas ids_segments = ids_basic ids_camara ids_profile ids_patterns ids_explanation

lemma showDetails_writes_ids: "fst ` set (showDetails_writes l) \<subseteq> set modal_ids"
  using ids_rules [of l]
  by (auto simp: showDetails_writes_def image_Un ids_segments modal_ids_def)


lemma last_inner_rules:
  "i \<noteq> ''modalTriggeredRules'' \<Longrightarrow> last_inner i (triggered_rules_writes l) = None"
  by (simp add: triggered_rules_writes_def)

lemma toFixed_zero: "toFixed (Fin 0) 2 = ''0.00''"
  by code_simp

lemma showDetails_shown:
  assumes "set modal_ids \<subseteq> dom (elems d)" "i \<in> set modal_ids"
  shows "shown i (showDetails l d)
     = (case last_inner i (showDetails_writes l) of
          Some c \<Rightarrow> Some c | None \<Rightarrow> map_option inner (elems d i))"
  unfolding showDetails_def
  using assms showDetails_writes_ids [of l] by (intro shown_puts) auto

lemma showDetails_no_error:
  assumes "set modal_ids \<subseteq> dom (elems d)"
  shows "snd (showDetails l d) = None"
  unfolding showDetails_def
  using assms showDetails_writes_ids [of l] by (subst puts_all) auto

lemmas last_inner_eval =
  showDetails_writes_def last_inner_append last_inner_notin last_inner_rules ids_segments



lemma showDetails_shows:
  assumes "set modal_ids \<subseteq> dom (elems d)" "i \<in> set modal_ids"
    "last_inner i (showDetails_writes l) = Some c"
  shows "shown i (showDetails l d) = Some c"
  using showDetails_shown [OF assms(1,2), of l] assms(3) by simp

text \<open>
  C3, as the code has it.  When the modal's elements exist, \<^verbatim>\<open>showDetails\<close>
  throws nothing, and a missing datum shows as \<^verbatim>\<open>N/A\<close> in these fields: phone,
  timestamp, risk level, the eight customer-profile fields, the two transaction-pattern
  fields, all eight network fields when the log has no network data at all, and the
  swap date and the distance when it has.  Other fields have other fallbacks: a missing
  amount shows as \<^verbatim>\<open>$0.00\<close>, a missing roaming object as the network
  \<^verbatim>\<open>Unknown\<close>, a missing device object as \<^verbatim>\<open>Unknown (Unknown)\<close>, and a
  missing explanation as \<^verbatim>\<open>No explanation provided.\<close> and
  \<^verbatim>\<open>No factors available\<close>.
\<close>

theorem showDetails_fallbacks:
  assumes "set modal_ids \<subseteq> dom (elems d)"
  shows "snd (showDetails l d) = None
    \<and> (phone_number l = None \<longrightarrow> shown ''modalPhone'' (showDetails l d) = Some (Text ''N/A''))
    \<and> (timestamp l = None \<longrightarrow> shown ''modalTimestamp'' (showDetails l d) = Some (Text ''N/A''))
    \<and> (risk_level l = None \<longrightarrow> shown ''modalRiskLevel'' (showDetails l d) = Some (Text ''N/A''))
    \<and> (customer_vintage l = None \<longrightarrow> shown ''modalVintage'' (showDetails l d) = Some (Text ''N/A''))
    \<and> (risk_rating l = None \<longrightarrow> shown ''modalRiskRating'' (showDetails l d) = Some (Text ''N/A''))
    \<and> (segment l = None \<longrightarrow> shown ''modalSegment'' (showDetails l d) = Some (Text ''N/A''))
    \<and> (occupation l = None \<longrightarrow> shown ''modalOccupation'' (showDetails l d) = Some (Text ''N/A''))
    \<and> (country l = None \<longrightarrow> shown ''modalCountry'' (showDetails l d) = Some (Text ''N/A''))
    \<and> (city l = None \<longrightarrow> shown ''modalCity'' (showDetails l d) = Some (Text ''N/A''))
    \<and> (geo_restriction l = None \<longrightarrow>
          shown ''modalGeoRestriction'' (showDetails l d) = Some (Text ''N/A''))
    \<and> (pep_flag l = None \<longrightarrow> shown ''modalPepFlag'' (showDetails l d) = Some (Text ''N/A''))
    \<and> (txn_count_1h l = None \<longrightarrow> shown ''modalTxnCount'' (showDetails l d) = Some (Text ''N/A''))
    \<and> (credit_reversals_7d l = None \<longrightarrow>
          shown ''modalReversals'' (showDetails l d) = Some (Text ''N/A''))
    \<and> (camara_data l = None \<longrightarrow>
          shown ''modalSimSwap'' (showDetails l d) = Some (Text ''N/A'')
          \<and> shown ''modalSimSwapDate'' (showDetails l d) = Some (Text ''N/A'')
          \<and> shown ''modalLocationVerified'' (showDetails l d) = Some (Text ''N/A'')
          \<and> shown ''modalLocationDistance'' (showDetails l d) = Some (Text ''N/A'')
          \<and> shown ''modalRoamingStatus'' (showDetails l d) = Some (Text ''N/A'')
          \<and> shown ''modalCurrentNetwork'' (showDetails l d) = Some (Text ''N/A'')
          \<and> shown ''modalDeviceStatus'' (showDetails l d) = Some (Text ''N/A'')
          \<and> shown ''modalSignalStrength'' (showDetails l d) = Some (Text ''N/A''))
    \<and> (\<forall>c. camara_data l = Some c \<longrightarrow>
          (last_swap_date (or_empty_sim_swap (sim_swap c)) = None \<longrightarrow>
             shown ''modalSimSwapDate'' (showDetails l d) = Some (Text ''N/A''))
          \<and> (distance_meters (or_empty_location (location c)) = None \<longrightarrow>
             shown ''modalLocationDistance'' (showDetails l d) = Some (Text ''N/A''))
          \<and> (roaming c = None \<longrightarrow>
             shown ''modalCurrentNetwork'' (showDetails l d) = Some (Text ''Unknown''))
          \<and> (device_status c = None \<longrightarrow>
             shown ''modalSignalStrength'' (showDetails l d) = Some (Text ''Unknown (Unknown)'')))
    \<and> (transaction_amount l = None \<longrightarrow>
          shown ''modalAmount'' (showDetails l d) = Some (Text ''$0.00''))
    \<and> (explanation l = None \<longrightarrow>
          shown ''modalExplanationSummary'' (showDetails l d)
            = Some (Text ''No explanation provided.'')
          \<and> shown ''modalExplanationFactors'' (showDetails l d)
            = Some (Html ''<em>No factors available</em>''))"
proof -
  note S = showDetails_shows [OF assms]
  have [simp]: "phone_number l = None \<Longrightarrow> shown ''modalPhone'' (showDetails l d) = Some (Text ''N/A'')"
    "timestamp l = None \<Longrightarrow> shown ''modalTimestamp'' (showDetails l d) = Some (Text ''N/A'')"
    "risk_level l = None \<Longrightarrow> shown ''modalRiskLevel'' (showDetails l d) = Some (Text ''N/A'')"
    "transaction_amount l = None \<Longrightarrow> shown ''modalAmount'' (showDetails l d) = Some (Text ''$0.00'')"
    by (rule S; simp add: modal_ids_def last_inner_eval basic_info_writes_def str_or_def
        num_or_def toFixed_zero)+
  have [simp]: "customer_vintage l = None \<Longrightarrow> shown ''modalVintage'' (showDetails l d) = Some (Text ''N/A'')"
    "risk_rating l = None \<Longrightarrow> shown ''modalRiskRating'' (showDetails l d) = Some (Text ''N/A'')"
    "segment l = None \<Longrightarrow> shown ''modalSegment'' (showDetails l d) = Some (Text ''N/A'')"
    "occupation l = None \<Longrightarrow> shown ''modalOccupation'' (showDetails l d) = Some (Text ''N/A'')"
    "country l = None \<Longrightarrow> shown ''modalCountry'' (showDetails l d) = Some (Text ''N/A'')"
    "city l = None \<Longrightarrow> shown ''modalCity'' (showDetails l d) = Some (Text ''N/A'')"
    "geo_restriction l = None \<Longrightarrow> shown ''modalGeoRestriction'' (showDetails l d) = Some (Text ''N/A'')"
    "pep_flag l = None \<Longrightarrow> shown ''modalPepFlag'' (showDetails l d) = Some (Text ''N/A'')"
    by (rule S; simp add: modal_ids_def last_inner_eval customer_profile_writes_def str_or_def
        num_or_text_def)+
  have [simp]: "txn_count_1h l = None \<Longrightarrow> shown ''modalTxnCount'' (showDetails l d) = Some (Text ''N/A'')"
    "credit_reversals_7d l = None \<Longrightarrow> shown ''modalReversals'' (showDetails l d) = Some (Text ''N/A'')"
    by (rule S; simp add: modal_ids_def last_inner_eval transaction_pattern_writes_def
        num_or_text_def)+
  have [simp]: "camara_data l = None \<Longrightarrow> shown ''modalSimSwap'' (showDetails l d) = Some (Text ''N/A'')"
    "camara_data l = None \<Longrightarrow> shown ''modalSimSwapDate'' (showDetails l d) = Some (Text ''N/A'')"
    "camara_data l = None \<Longrightarrow> shown ''modalLocationVerified'' (showDetails l d) = Some (Text ''N/A'')"
    "camara_data l = None \<Longrightarrow> shown ''modalLocationDistance'' (showDetails l d) = Some (Text ''N/A'')"
    "camara_data l = None \<Longrightarrow> shown ''modalRoamingStatus'' (showDetails l d) = Some (Text ''N/A'')"
    "camara_data l = None \<Longrightarrow> shown ''modalCurrentNetwork'' (showDetails l d) = Some (Text ''N/A'')"
    "camara_data l = None \<Longrightarrow> shown ''modalDeviceStatus'' (showDetails l d) = Some (Text ''N/A'')"
    "camara_data l = None \<Longrightarrow> shown ''modalSignalStrength'' (showDetails l d) = Some (Text ''N/A'')"
    by (rule S; simp add: modal_ids_def last_inner_eval camara_writes_def)+
  have [simp]: "camara_data l = Some c \<Longrightarrow> last_swap_date (or_empty_sim_swap (sim_swap c)) = None
      \<Longrightarrow> shown ''modalSimSwapDate'' (showDetails l d) = Some (Text ''N/A'')"
    "camara_data l = Some c \<Longrightarrow> distance_meters (or_empty_location (location c)) = None
      \<Longrightarrow> shown ''modalLocationDistance'' (showDetails l d) = Some (Text ''N/A'')"
    "camara_data l = Some c \<Longrightarrow> roaming c = None
      \<Longrightarrow> shown ''modalCurrentNetwork'' (showDetails l d) = Some (Text ''Unknown'')"
    "camara_data l = Some c \<Longrightarrow> device_status c = None
      \<Longrightarrow> shown ''modalSignalStrength'' (showDetails l d) = Some (Text ''Unknown (Unknown)'')"
    for c
    by (rule S; simp add: modal_ids_def last_inner_eval camara_writes_def Let_def str_or_def
        num_or_def num_truthy_def or_empty_roaming_def or_empty_device_def is_true_def)+
  have [simp]: "explanation l = None \<Longrightarrow> shown ''modalExplanationSummary'' (showDetails l d)
            = Some (Text ''No explanation provided.'')"
    "explanation l = None \<Longrightarrow> shown ''modalExplanationFactors'' (showDetails l d)
            = Some (Html ''<em>No factors available</em>'')"
    by (rule S; simp add: modal_ids_def last_inner_eval explanation_writes_def str_or_def
        summary_of_def factors_of_def)+
  show ?thesis
    using showDetails_no_error [OF assms] by simp
qed


lemma modal_document_ids: "set modal_ids \<subseteq> dom (elems modal_document)"
  by (simp add: modal_document_def dom_map_of_conv_image_fst image_image)

theorem showDetails_fallbacks_witness:
  "set modal_ids \<subseteq> dom (elems modal_document)
   \<and> snd (showDetails (empty_log\<lparr>phone_number := Some ''+14155551234''\<rparr>) modal_document) = None
   \<and> timestamp (empty_log\<lparr>phone_number := Some ''+14155551234''\<rparr>) = None
   \<and> shown ''modalTimestamp''
        (showDetails (empty_log\<lparr>phone_number := Some ''+14155551234''\<rparr>) modal_document)
       = Some (Text ''N/A'')
   \<and> camara_data (empty_log\<lparr>phone_number := Some ''+14155551234''\<rparr>) = None
   \<and> shown ''modalSimSwap''
        (showDetails (empty_log\<lparr>phone_number := Some ''+14155551234''\<rparr>) modal_document)
       = Some (Text ''N/A'')
   \<and> transaction_amount (empty_log\<lparr>phone_number := Some ''+14155551234''\<rparr>) = None
   \<and> shown ''modalAmount''
        (showDetails (empty_log\<lparr>phone_number := Some ''+14155551234''\<rparr>) modal_document)
       = Some (Text ''$0.00'')"
proof -
  have n: "timestamp (empty_log\<lparr>phone_number := Some ''+14155551234''\<rparr>) = None"
    "camara_data (empty_log\<lparr>phone_number := Some ''+14155551234''\<rparr>) = None"
    "transaction_amount (empty_log\<lparr>phone_number := Some ''+14155551234''\<rparr>) = None"
    by (simp_all add: empty_log_def)
  note T = showDetails_fallbacks [OF modal_document_ids,
      of "empty_log\<lparr>phone_number := Some ''+14155551234''\<rparr>"]
  from T n modal_document_ids show ?thesis by blast
qed

text \<open>
  C3, as the claim states it, fails: for a log with no field at all the amount field
  shows \<^verbatim>\<open>$0.00\<close> and the explanation summary a sentence, not
  \<^verbatim>\<open>N/A\<close>; and with network data that is an empty object the current network
  shows \<^verbatim>\<open>Unknown\<close>.
\<close>

theorem showDetails_fallbacks_counterexample:
  "transaction_amount empty_log = None
   \<and> shown ''modalAmount'' (showDetails empty_log modal_document) = Some (Text ''$0.00'')
   \<and> explanation empty_log = None
   \<and> shown ''modalExplanationSummary'' (showDetails empty_log modal_document)
       = Some (Text ''No explanation provided.'')
   \<and> roaming empty_camara = None
   \<and> shown ''modalCurrentNetwork''
        (showDetails (empty_log\<lparr>camara_data := Some empty_camara\<rparr>) modal_document)
       = Some (Text ''Unknown'')"
proof -
  note S = showDetails_shows [OF modal_document_ids]
  have "shown ''modalAmount'' (showDetails empty_log modal_document) = Some (Text ''$0.00'')"
    by (rule S; simp add: modal_ids_def last_inner_eval basic_info_writes_def num_or_def
        toFixed_zero empty_log_def)
  moreover have "shown ''modalExplanationSummary'' (showDetails empty_log modal_document)
       = Some (Text ''No explanation provided.'')"
    by (rule S; simp add: modal_ids_def last_inner_eval explanation_writes_def str_or_def
        summary_of_def empty_log_def)
  moreover have "shown ''modalCurrentNetwork''
        (showDetails (empty_log\<lparr>camara_data := Some empty_camara\<rparr>) modal_document)
       = Some (Text ''Unknown'')"
    by (rule S; simp add: modal_ids_def last_inner_eval camara_writes_def Let_def str_or_def
        or_empty_roaming_def is_true_def empty_log_def empty_camara_def)
  ultimately show ?thesis by (simp add: empty_log_def empty_camara_def)
qed

subsection \<open>Promise chains and single assignments\<close>

lemma map_throwing_ok:
  "\<forall>x \<in> set xs. \<exists>y. f x = Inr y \<Longrightarrow>
   \<exists>ys. map_throwing f xs = Inr ys \<and> length ys = length xs
        \<and> (\<forall>i < length xs. f (xs ! i) = Inr (ys ! i))"
proof (induction xs)
  case Nil
  then show ?case by simp
next
  case (Cons x xs)
  then obtain y where y: "f x = Inr y" by auto
  from Cons obtain ys where ys: "map_throwing f xs = Inr ys" "length ys = length xs"
    "\<forall>i < length xs. f (xs ! i) = Inr (ys ! i)" by auto
  have "\<forall>i < length (x # xs). f ((x # xs) ! i) = Inr ((y # ys) ! i)"
    using y ys(3) by (auto simp: nth_Cons split: nat.splits)
  with y ys show ?case by simp
qed

lemma shown_put:
  "elems d i \<noteq> None \<Longrightarrow> put i (SetHtml h) d = (d', e) \<Longrightarrow> e = None \<and> shown i (d', e) = Some (Html h)"
  by (auto simp: put_def shown_def write_elem_def)

lemma put_ok:
  "elems d i \<noteq> None \<Longrightarrow> snd (put i w d) = None"
  by (auto simp: put_def)

lemma shown_put_html:
  "elems d i \<noteq> None \<Longrightarrow> shown i (put i (SetHtml h) d) = Some (Html h)"
  by (auto simp: put_def shown_def write_elem_def)

lemma then_catch_Json:
  "snd (f x s) = None \<Longrightarrow> then_catch (Json x) f g s = f x s"
  by (cases "f x s") (simp add: then_catch_def)

lemma then_catch_Rejected: "then_catch Rejected f g s = g s"
  by (simp add: then_catch_def)

lemma elems_console_line [simp]: "elems (console_line line d) = elems d"
  by (simp add: console_line_def)


subsection \<open>Recent transactions\<close>

lemma log_items_throw:
  "\<exists>l \<in> set ls. risk_level l = None \<Longrightarrow> map_throwing log_item ls = Inl TypeError"
proof (induction ls)
  case Nil
  then show ?case by simp
next
  case (Cons l ls)
  show ?case
  proof (cases "risk_level l")
    case None
    then show ?thesis by (simp add: log_item_def)
  next
    case (Some rl)
    with Cons.prems have "\<exists>l \<in> set ls. risk_level l = None" by auto
    from Cons.IH [OF this] Some show ?thesis by (simp add: log_item_def)
  qed
qed

text \<open>
  With the element \<^verbatim>\<open>recentLogs\<close> present: an empty array gives the
  placeholder; an array whose first five entries all have their risk level gives the
  markup of \<open>min (length logs) 5\<close> entries, the \<open>i\<close>-th being that of the \<open>i\<close>-th
  entry of the array; and an array one of whose first five entries has no risk level
  ends in the \<^verbatim>\<open>catch\<close> handler, which puts its own message in the element.
\<close>

lemma recent_transactions_cases:
  assumes "elems d ''recentLogs'' \<noteq> None"
  shows "snd (loadRecentTransactions (Json logs) d) = None
    \<and> (logs = [] \<longrightarrow>
          shown ''recentLogs'' (loadRecentTransactions (Json logs) d)
            = Some (Html ''<div class=\"loading-placeholder\">No transactions yet</div>''))
    \<and> (logs \<noteq> [] \<and> (\<forall>l \<in> set (take 5 logs). risk_level l \<noteq> None) \<longrightarrow>
          (\<exists>items. shown ''recentLogs'' (loadRecentTransactions (Json logs) d)
                     = Some (Html (concat items))
                 \<and> length items = min (length logs) 5
                 \<and> (\<forall>i < length items. log_item (logs ! i) = Inr (items ! i))))
    \<and> ((\<exists>l \<in> set (take 5 logs). risk_level l = None) \<longrightarrow>
          shown ''recentLogs'' (loadRecentTransactions (Json logs) d)
            = Some (Html ''<div class=\"loading-placeholder\">Error loading transactions</div>''))"
proof -
  consider (empty) "logs = []"
    | (good) "logs \<noteq> []" "\<forall>l \<in> set (take 5 logs). risk_level l \<noteq> None"
    | (bad) "\<exists>l \<in> set (take 5 logs). risk_level l = None"
    by metis
  then show ?thesis
  proof cases
    case empty
    have "recent_onData logs d
        = put ''recentLogs'' (SetHtml ''<div class=\"loading-placeholder\">No transactions yet</div>'') d"
      using assms empty by (auto simp: recent_onData_def)
    with assms empty show ?thesis
      by (simp add: loadRecentTransactions_def then_catch_Json put_ok shown_put_html)
  next
    case good
    have "\<forall>l \<in> set (take 5 logs). \<exists>y. log_item l = Inr y"
      using good(2) by (auto simp: log_item_def)
    from map_throwing_ok [OF this] obtain items where items:
      "map_throwing log_item (take 5 logs) = Inr items" "length items = length (take 5 logs)"
      "\<forall>i < length (take 5 logs). log_item (take 5 logs ! i) = Inr (items ! i)" by blast
    have "recent_onData logs d = put ''recentLogs'' (SetHtml (concat items)) d"
      using assms good(1) items(1) by (auto simp: recent_onData_def Let_def)
    then have run: "loadRecentTransactions (Json logs) d
        = put ''recentLogs'' (SetHtml (concat items)) d"
      using assms by (simp add: loadRecentTransactions_def then_catch_Json put_ok)
    have "length items = min (length logs) 5" using items(2) by simp
    moreover have "\<forall>i < length items. log_item (logs ! i) = Inr (items ! i)"
      using items(2,3) by simp
    ultimately show ?thesis
      using good assms by (auto simp: run put_ok shown_put_html)
  next
    case bad
    then have ne: "logs \<noteq> []" by auto
    have "recent_onData logs d = (d, Some TypeError)"
      using assms ne log_items_throw [OF bad] by (auto simp: recent_onData_def Let_def)
    then have run: "loadRecentTransactions (Json logs) d = recent_onError d"
      by (simp add: loadRecentTransactions_def then_catch_def)
    from assms bad ne show ?thesis
      unfolding run
      by (auto simp: recent_onError_def put_if_def shown_def write_elem_def)
  qed
qed




subsection \<open>The dashboard widgets\<close>

lemma catch_without_container:
  "elems d ''heatmapContainer'' = None \<Longrightarrow> snd (loadHeatmap Rejected d) = Some TypeError"
  by (simp add: loadHeatmap_def then_catch_Rejected heatmap_onError_def put_def)

text \<open>
  C9.  For each of the four widgets whose container element exists, a rejected request
  ends in the \<^verbatim>\<open>catch\<close> continuation, which throws nothing, and the container
  then shows the widget's own error paragraph.
\<close>

theorem widget_fetch_failure:
  "(elems d ''heatmapContainer'' \<noteq> None \<longrightarrow>
      snd (loadHeatmap Rejected d) = None
      \<and> shown ''heatmapContainer'' (loadHeatmap Rejected d)
          = Some (Html ''<p style=\"color: var(--text-secondary); text-align: center; padding: 2rem;\">Error loading heatmap data</p>''))
   \<and> (elems m ''fraudMap'' \<noteq> None \<longrightarrow>
      snd (loadFraudMap Rejected m) = None
      \<and> shown ''fraudMap'' (loadFraudMap Rejected m)
          = Some (Html ''<p style=\"padding: 2rem; text-align: center; color: var(--text-secondary);\">Error loading map</p>''))
   \<and> (elems d ''velocityChecks'' \<noteq> None \<longrightarrow>
      snd (loadVelocityChecks Rejected d) = None
      \<and> shown ''velocityChecks'' (loadVelocityChecks Rejected d)
          = Some (Html ''<p style=\"color: var(--text-secondary); text-align: center; padding: 2rem;\">Error loading velocity data</p>''))
   \<and> (elems d ''behaviorTimeline'' \<noteq> None \<longrightarrow>
      snd (loadBehaviorTimeline Rejected d) = None
      \<and> shown ''behaviorTimeline'' (loadBehaviorTimeline Rejected d)
          = Some (Html ''<p style=\"color: var(--text-secondary); text-align: center; padding: 2rem;\">Error loading timeline</p>''))"
  by (simp add: loadHeatmap_def loadFraudMap_def loadVelocityChecks_def loadBehaviorTimeline_def
      then_catch_Rejected heatmap_onError_def fraudMap_onError_def velocity_onError_def
      behavior_onError_def put_ok shown_put_html)

theorem widget_fetch_failure_witness:
  "elems analytics_page ''heatmapContainer'' \<noteq> None
   \<and> snd (loadHeatmap Rejected analytics_page) = None
   \<and> shown ''heatmapContainer'' (loadHeatmap Rejected analytics_page)
       = Some (Html ''<p style=\"color: var(--text-secondary); text-align: center; padding: 2rem;\">Error loading heatmap data</p>'')
   \<and> elems analytics_page ''fraudMap'' \<noteq> None
   \<and> shown ''fraudMap'' (loadFraudMap Rejected analytics_page)
       = Some (Html ''<p style=\"padding: 2rem; text-align: center; color: var(--text-secondary);\">Error loading map</p>'')
   \<and> elems analytics_page ''velocityChecks'' \<noteq> None
   \<and> shown ''velocityChecks'' (loadVelocityChecks Rejected analytics_page)
       = Some (Html ''<p style=\"color: var(--text-secondary); text-align: center; padding: 2rem;\">Error loading velocity data</p>'')
   \<and> elems analytics_page ''behaviorTimeline'' \<noteq> None
   \<and> shown ''behaviorTimeline'' (loadBehaviorTimeline Rejected analytics_page)
       = Some (Html ''<p style=\"color: var(--text-secondary); text-align: center; padding: 2rem;\">Error loading timeline</p>'')"
proof -
  have e: "elems analytics_page ''heatmapContainer'' \<noteq> None"
    "elems analytics_page ''fraudMap'' \<noteq> None"
    "elems analytics_page ''velocityChecks'' \<noteq> None"
    "elems analytics_page ''behaviorTimeline'' \<noteq> None"
    by (simp_all add: analytics_page_def)
  from e widget_fetch_failure [of analytics_page analytics_page] show ?thesis by blast
qed


subsection \<open>The explanation panel\<close>

lemma put_frame: "j \<noteq> i \<Longrightarrow> elems (fst (put i w d)) j = elems d j"
  by (simp add: put_def split: option.splits)

lemma put_dom: "(elems (fst (put i w d)) j = None) = (elems d j = None)"
  by (simp add: put_def split: option.splits)

lemma put_if_frame: "j \<noteq> i \<Longrightarrow> elems (put_if i w d) j = elems d j"
  by (simp add: put_if_def split: option.splits)

lemma put_if_dom: "(elems (put_if i w d) j = None) = (elems d j = None)"
  by (simp add: put_if_def split: option.splits)

lemma put_if_inner:
  "map_option inner (elems (put_if i (SetDisplay v) d) j) = map_option inner (elems d j)"
  by (simp add: put_if_def write_elem_def split: option.splits)

text \<open>Executive summary\<close>

lemma summary_ok: "snd (populateExecutiveSummary ld d) = None"
  by (simp add: populateExecutiveSummary_def put_ok split: option.splits)

lemma summary_frame:
  "j \<noteq> ''executiveSummary'' \<Longrightarrow> elems (fst (populateExecutiveSummary ld d)) j = elems d j"
  by (simp add: populateExecutiveSummary_def put_frame split: option.splits)

lemma summary_skip:
  "executive_summary ld = None \<Longrightarrow> fst (populateExecutiveSummary ld d) = d"
  by (simp add: populateExecutiveSummary_def str_or_def split: option.splits)

text \<open>Detailed analysis\<close>

lemma analysis_ok: "snd (populateDetailedAnalysis ld d) = None"
  by (simp add: populateDetailedAnalysis_def Let_def put_ok split: option.splits)

lemma analysis_frame:
  "j \<noteq> ''detailedAnalysisContent'' \<Longrightarrow> elems (fst (populateDetailedAnalysis ld d)) j = elems d j"
  by (simp add: populateDetailedAnalysis_def Let_def put_frame split: option.splits)

lemma analysis_skip:
  "detailed_analysis ld = None \<Longrightarrow> fst (populateDetailedAnalysis ld d) = d"
  by (simp add: populateDetailedAnalysis_def str_or_def split: option.splits)

text \<open>Behavioural insights\<close>

lemma insights_ok: "snd (populateBehavioralInsights ld td d) = None"
  by (simp add: populateBehavioralInsights_def Let_def put_ok split: option.splits)

lemma insights_frame:
  "j \<noteq> ''behavioralInsightsContent''
   \<Longrightarrow> elems (fst (populateBehavioralInsights ld td d)) j = elems d j"
  by (simp add: populateBehavioralInsights_def Let_def put_frame split: option.splits)

lemma insights_placeholder:
  "elems d ''behavioralInsightsContent'' \<noteq> None \<Longrightarrow> behavioral_insights ld = None
   \<Longrightarrow> profile_of ld = None
   \<Longrightarrow> shown ''behavioralInsightsContent'' (populateBehavioralInsights ld td d)
       = Some (Html ''<p style=\"color: var(--text-secondary);\">No behavioral insights available</p>'')"
  by (auto simp: populateBehavioralInsights_def Let_def str_or_def shown_put_html)

text \<open>Risk factors\<close>

lemma risk_ok: "snd (populateRiskFactors ld d) = None"
  by (simp add: populateRiskFactors_def Let_def put_ok split: option.splits)

lemma risk_frame:
  "j \<noteq> ''riskFactorsContent'' \<Longrightarrow> elems (fst (populateRiskFactors ld d)) j = elems d j"
  by (simp add: populateRiskFactors_def Let_def put_frame split: option.splits)

lemma risk_placeholder:
  "elems d ''riskFactorsContent'' \<noteq> None \<Longrightarrow> risk_factors ld = None
   \<Longrightarrow> shown ''riskFactorsContent'' (populateRiskFactors ld d)
       = Some (Html '' <div style=\"text-align: center; padding: 2rem; color: var(--text-secondary);\"> <i class=\"bi bi-check-circle\" style=\"font-size: 3rem; color: var(--success-color);\"></i> <p style=\"margin-top: 1rem;\">No significant risk factors detected</p> </div> '')"
  by (auto simp: populateRiskFactors_def Let_def shown_put_html)

text \<open>Network intelligence\<close>

lemma network_ok: "snd (populateNetworkIntelligence ld (Some td) d) = None"
  by (simp add: populateNetworkIntelligence_def put_ok split: option.splits)

lemma network_frame:
  "j \<noteq> ''networkIntelContent''
   \<Longrightarrow> elems (fst (populateNetworkIntelligence ld tdo d)) j = elems d j"
  by (simp add: populateNetworkIntelligence_def put_frame split: option.splits)

lemma network_skip:
  "td_camara_data td = None \<Longrightarrow> fst (populateNetworkIntelligence ld (Some td) d) = d"
  by (simp add: populateNetworkIntelligence_def split: option.splits)

lemma network_throws:
  "elems d ''networkIntelContent'' \<noteq> None
   \<Longrightarrow> snd (populateNetworkIntelligence ld None d) = Some TypeError"
  by (auto simp: populateNetworkIntelligence_def)

text \<open>Recommendations\<close>

lemma recommendations_ok: "snd (populateRecommendations ld d) = None"
  by (simp add: populateRecommendations_def put_ok split: option.splits)

lemma recommendations_frame:
  "j \<noteq> ''recommendationsContent'' \<Longrightarrow> elems (fst (populateRecommendations ld d)) j = elems d j"
  by (simp add: populateRecommendations_def put_frame split: option.splits)

lemma recommendations_skip:
  "recommendation_of ld = None \<Longrightarrow> fst (populateRecommendations ld d) = d"
  by (simp add: populateRecommendations_def split: option.splits)

text \<open>Timeline\<close>

lemma timeline_items:
  "\<forall>t \<in> set ts. txn_amount t \<noteq> None \<Longrightarrow> \<exists>items. map_throwing timeline_item ts = Inr items"
proof -
  assume "\<forall>t \<in> set ts. txn_amount t \<noteq> None"
  then have "\<forall>t \<in> set ts. \<exists>y. timeline_item t = Inr y"
    by (auto simp: timeline_item_def Let_def)
  from map_throwing_ok [OF this] show ?thesis by blast
qed

lemma timeline_ok:
  "\<forall>t \<in> set (recent_txns ld). txn_amount t \<noteq> None \<Longrightarrow> snd (populateCustomerTimeline ld d) = None"
  using timeline_items [of "recent_txns ld"]
  by (auto simp: populateCustomerTimeline_def Let_def put_ok split: option.splits)

lemma timeline_frame:
  "j \<noteq> ''customerTimelineViz'' \<Longrightarrow> elems (fst (populateCustomerTimeline ld d)) j = elems d j"
  by (simp add: populateCustomerTimeline_def Let_def put_frame split: option.splits sum.splits)

lemma timeline_placeholder:
  "elems d ''customerTimelineViz'' \<noteq> None \<Longrightarrow> recent_txns ld = []
   \<Longrightarrow> shown ''customerTimelineViz'' (populateCustomerTimeline ld d)
       = Some (Html '' <div style=\"text-align: center; padding: 2rem; color: var(--text-secondary);\"> <i class=\"bi bi-inbox\" style=\"font-size: 2rem;\"></i> <p style=\"margin-top: 0.5rem;\">No recent transaction history available</p> </div> '')"
  by (auto simp: populateCustomerTimeline_def Let_def shown_put_html)

lemma timeline_throws:
  "elems d ''customerTimelineViz'' \<noteq> None \<Longrightarrow> recent_txns ld = t # ts \<Longrightarrow> txn_amount t = None
   \<Longrightarrow> populateCustomerTimeline ld d = (d, Some TypeError)"
  by (auto simp: populateCustomerTimeline_def Let_def timeline_item_def)


lemma in_sequence_ok:
  "snd (f s) = None \<Longrightarrow> in_sequence (f # fs) s = in_sequence fs (fst (f s))"
  by (cases "f s") simp

lemma in_sequence_last:
  "snd (f s) = None \<Longrightarrow> in_sequence [f] s = (fst (f s), None)"
  by (cases "f s") auto

lemma display_run:
  assumes "\<forall>t \<in> set (recent_txns ld). txn_amount t \<noteq> None"
  shows "displayLLMExplanation (Some ld) (Some td) d = (rendered ld (Some td) d, None)"
proof -
  have "in_sequence [populateCustomerTimeline ld] s = (fst (populateCustomerTimeline ld s), None)" for s
    using timeline_ok [OF assms, of s] by (rule in_sequence_last)
  then show ?thesis
    by (simp del: in_sequence.simps add: displayLLMExplanation_def rendered_def in_sequence_ok summary_ok analysis_ok
        insights_ok risk_ok network_ok recommendations_ok)
qed

lemmas frames = summary_frame analysis_frame insights_frame risk_frame network_frame
  recommendations_frame timeline_frame put_if_frame

lemma rendered_risk_placeholder:
  assumes "elems d ''riskFactorsContent'' \<noteq> None" "risk_factors ld = None"
  shows "shown ''riskFactorsContent'' (rendered ld tdo d, None) = Some (Html '' <div style=\"text-align: center; padding: 2rem; color: var(--text-secondary);\"> <i class=\"bi bi-check-circle\" style=\"font-size: 3rem; color: var(--success-color);\"></i> <p style=\"margin-top: 1rem;\">No significant risk factors detected</p> </div> '')"
proof -
  let ?d = "fst (populateBehavioralInsights ld tdo (fst (populateDetailedAnalysis ld
    (fst (populateExecutiveSummary ld (put_if ''llmExplanation'' (SetDisplay ''block'') d))))))"
  have "elems ?d ''riskFactorsContent'' \<noteq> None"
    using assms(1) by (simp add: frames)
  from risk_placeholder [OF this assms(2)]
  show ?thesis by (simp add: rendered_def shown_def frames)
qed

lemma display_throws:
  assumes "elems d ''customerTimelineViz'' \<noteq> None" "recent_txns ld = t # ts"
    "txn_amount t = None"
  shows "snd (displayLLMExplanation (Some ld) (Some td) d) = Some TypeError
    \<and> elems (fst (displayLLMExplanation (Some ld) (Some td) d)) ''customerTimelineViz''
        = elems d ''customerTimelineViz''"
proof -
  let ?d = "fst (populateRecommendations ld
       (fst (populateNetworkIntelligence ld (Some td)
         (fst (populateRiskFactors ld
           (fst (populateBehavioralInsights ld (Some td)
             (fst (populateDetailedAnalysis ld
               (fst (populateExecutiveSummary ld
                 (put_if ''llmExplanation'' (SetDisplay ''block'') d))))))))))))"
  have same: "elems ?d ''customerTimelineViz'' = elems d ''customerTimelineViz''"
    by (simp add: frames)
  with assms(1) have "elems ?d ''customerTimelineViz'' \<noteq> None" by simp
  from timeline_throws [OF this assms(2,3)]
  have "in_sequence [populateCustomerTimeline ld] ?d = (?d, Some TypeError)" by simp
  then have "displayLLMExplanation (Some ld) (Some td) d = (?d, Some TypeError)"
    by (simp del: in_sequence.simps add: displayLLMExplanation_def in_sequence_ok summary_ok
        analysis_ok insights_ok risk_ok network_ok recommendations_ok)
  with same show ?thesis by simp
qed

text \<open>
  Where every listed recent transaction has its amount, and with transaction data
  passed, \<^verbatim>\<open>displayLLMExplanation\<close> throws nothing (nor does it without an
  explanation).  The elements of the summary, the detailed analysis, the network cards
  and the recommendations are left as they were when their data is absent; with no
  insights and no profile, no risk factors, or no recent transactions, the elements of
  the other three sections (when present) are given a fixed placeholder.
\<close>

lemma explanation_with_amounts:
  assumes "\<forall>t \<in> set (recent_txns ld). txn_amount t \<noteq> None"
  shows "snd (displayLLMExplanation (Some ld) (Some td) d) = None
    \<and> snd (displayLLMExplanation None tdo d) = None
    \<and> (executive_summary ld = None \<longrightarrow>
          elems (fst (displayLLMExplanation (Some ld) (Some td) d)) ''executiveSummary''
            = elems d ''executiveSummary'')
    \<and> (detailed_analysis ld = None \<longrightarrow>
          elems (fst (displayLLMExplanation (Some ld) (Some td) d)) ''detailedAnalysisContent''
            = elems d ''detailedAnalysisContent'')
    \<and> (td_camara_data td = None \<longrightarrow>
          elems (fst (displayLLMExplanation (Some ld) (Some td) d)) ''networkIntelContent''
            = elems d ''networkIntelContent'')
    \<and> (recommendation_of ld = None \<longrightarrow>
          elems (fst (displayLLMExplanation (Some ld) (Some td) d)) ''recommendationsContent''
            = elems d ''recommendationsContent'')
    \<and> (elems d ''behavioralInsightsContent'' \<noteq> None \<and> behavioral_insights ld = None
        \<and> profile_of ld = None \<longrightarrow>
          shown ''behavioralInsightsContent'' (displayLLMExplanation (Some ld) (Some td) d)
            = Some (Html ''<p style=\"color: var(--text-secondary);\">No behavioral insights available</p>''))
    \<and> (elems d ''riskFactorsContent'' \<noteq> None \<and> risk_factors ld = None \<longrightarrow>
          shown ''riskFactorsContent'' (displayLLMExplanation (Some ld) (Some td) d)
            = Some (Html '' <div style=\"text-align: center; padding: 2rem; color: var(--text-secondary);\"> <i class=\"bi bi-check-circle\" style=\"font-size: 3rem; color: var(--success-color);\"></i> <p style=\"margin-top: 1rem;\">No significant risk factors detected</p> </div> ''))
    \<and> (elems d ''customerTimelineViz'' \<noteq> None \<and> recent_txns ld = [] \<longrightarrow>
          shown ''customerTimelineViz'' (displayLLMExplanation (Some ld) (Some td) d)
            = Some (Html '' <div style=\"text-align: center; padding: 2rem; color: var(--text-secondary);\"> <i class=\"bi bi-inbox\" style=\"font-size: 2rem;\"></i> <p style=\"margin-top: 0.5rem;\">No recent transaction history available</p> </div> ''))"
proof -
  note run = display_run [OF assms, of td d]
  have none: "snd (displayLLMExplanation None tdo d) = None"
    by (simp add: displayLLMExplanation_def)
  have s1: "elems (rendered ld (Some td) d) ''executiveSummary'' = elems d ''executiveSummary''"
    if "executive_summary ld = None"
    using that by (simp add: rendered_def frames summary_skip)
  have s2: "elems (rendered ld (Some td) d) ''detailedAnalysisContent''
      = elems d ''detailedAnalysisContent''"
    if "detailed_analysis ld = None"
    using that by (simp add: rendered_def frames analysis_skip)
  have s3: "elems (rendered ld (Some td) d) ''networkIntelContent'' = elems d ''networkIntelContent''"
    if "td_camara_data td = None"
    using that by (simp add: rendered_def frames network_skip)
  have s4: "elems (rendered ld (Some td) d) ''recommendationsContent''
      = elems d ''recommendationsContent''"
    if "recommendation_of ld = None"
    using that by (simp add: rendered_def frames recommendations_skip)
  have p1: "shown ''behavioralInsightsContent'' (rendered ld (Some td) d, None) = Some (Html ''<p style=\"color: var(--text-secondary);\">No behavioral insights available</p>'')"
    if "elems d ''behavioralInsightsContent'' \<noteq> None" "behavioral_insights ld = None"
      "profile_of ld = None"
  proof -
    let ?d = "fst (populateDetailedAnalysis ld (fst (populateExecutiveSummary ld
      (put_if ''llmExplanation'' (SetDisplay ''block'') d))))"
    have "elems ?d ''behavioralInsightsContent'' \<noteq> None"
      using that(1) by (simp add: frames)
    from insights_placeholder [OF this that(2,3), of "Some td"]
    show ?thesis by (simp add: rendered_def shown_def frames)
  qed
  have p2: "shown ''riskFactorsContent'' (rendered ld (Some td) d, None) = Some (Html '' <div style=\"text-align: center; padding: 2rem; color: var(--text-secondary);\"> <i class=\"bi bi-check-circle\" style=\"font-size: 3rem; color: var(--success-color);\"></i> <p style=\"margin-top: 1rem;\">No significant risk factors detected</p> </div> '')"
    if "elems d ''riskFactorsContent'' \<noteq> None" "risk_factors ld = None"
    using that by (rule rendered_risk_placeholder)
  have p3: "shown ''customerTimelineViz'' (rendered ld (Some td) d, None) = Some (Html '' <div style=\"text-align: center; padding: 2rem; color: var(--text-secondary);\"> <i class=\"bi bi-inbox\" style=\"font-size: 2rem;\"></i> <p style=\"margin-top: 0.5rem;\">No recent transaction history available</p> </div> '')"
    if "elems d ''customerTimelineViz'' \<noteq> None" "recent_txns ld = []"
  proof -
    let ?d = "fst (populateRecommendations ld
         (fst (populateNetworkIntelligence ld (Some td)
           (fst (populateRiskFactors ld
             (fst (populateBehavioralInsights ld (Some td)
               (fst (populateDetailedAnalysis ld
                 (fst (populateExecutiveSummary ld
                   (put_if ''llmExplanation'' (SetDisplay ''block'') d))))))))))))"
    have "elems ?d ''customerTimelineViz'' \<noteq> None"
      using that(1) by (simp add: frames)
    from timeline_placeholder [OF this that(2)]
    show ?thesis by (simp add: rendered_def shown_def)
  qed
  show ?thesis
    unfolding run using none s1 s2 s3 s4 p1 p2 p3 by simp
qed

text \<open>
  C4.  An explanation whose customer profile lists one recent transaction that has its
  time and risk but no \<^verbatim>\<open>amount\<close>, every other field of the explanation being
  absent, rendered on a page that has the elements of all sections:
  \<^verbatim>\<open>txn.amount.toFixed(2)\<close> (line 862) throws a \<^verbatim>\<open>TypeError\<close>, which
  \<^verbatim>\<open>displayLLMExplanation\<close> passes on, and the timeline element keeps the empty
  content it had: no placeholder is written.  The same explanation with the amount
  present throws nothing.  The profile of this explanation has no average amount
  either, and \<^verbatim>\<open>populateBehavioralInsights\<close>, which reads it as
  \<^verbatim>\<open>(profile.average_amount || 0).toFixed(2)\<close> (line 612), throws nothing.
\<close>

theorem displayLLMExplanation_missing_amount:
  "snd (displayLLMExplanation
        (Some (empty_llm\<lparr>profile_of := Some (profile_with
           \<lparr>txn_amount = None, txn_time = Some ''2025-01-01 10:00'',
            txn_risk = Some ''Low Risk''\<rparr>)\<rparr>))
        (Some empty_td) explanation_page) = Some TypeError
   \<and> shown ''customerTimelineViz'' (displayLLMExplanation
        (Some (empty_llm\<lparr>profile_of := Some (profile_with
           \<lparr>txn_amount = None, txn_time = Some ''2025-01-01 10:00'',
            txn_risk = Some ''Low Risk''\<rparr>)\<rparr>))
        (Some empty_td) explanation_page) = Some (Text [])
   \<and> snd (displayLLMExplanation
        (Some (empty_llm\<lparr>profile_of := Some (profile_with
           \<lparr>txn_amount = Some (Fin 10), txn_time = Some ''2025-01-01 10:00'',
            txn_risk = Some ''Low Risk''\<rparr>)\<rparr>))
        (Some empty_td) explanation_page) = None
   \<and> average_amount (profile_with
           \<lparr>txn_amount = None, txn_time = Some ''2025-01-01 10:00'',
            txn_risk = Some ''Low Risk''\<rparr>) = None
   \<and> snd (populateBehavioralInsights
        (empty_llm\<lparr>profile_of := Some (profile_with
           \<lparr>txn_amount = None, txn_time = Some ''2025-01-01 10:00'',
            txn_risk = Some ''Low Risk''\<rparr>)\<rparr>)
        (Some empty_td) explanation_page) = None"
proof -
  let ?bad = "empty_llm\<lparr>profile_of := Some (profile_with
           \<lparr>txn_amount = None, txn_time = Some ''2025-01-01 10:00'',
            txn_risk = Some ''Low Risk''\<rparr>)\<rparr>"
  let ?good = "empty_llm\<lparr>profile_of := Some (profile_with
           \<lparr>txn_amount = Some (Fin 10), txn_time = Some ''2025-01-01 10:00'',
            txn_risk = Some ''Low Risk''\<rparr>)\<rparr>"
  have e: "elems explanation_page ''customerTimelineViz'' \<noteq> None"
    "map_option inner (elems explanation_page ''customerTimelineViz'') = Some (Text [])"
    by (simp_all add: explanation_page_def blank_elem_def)
  have t: "snd (displayLLMExplanation (Some ?bad) (Some empty_td) explanation_page)
        = Some TypeError
    \<and> elems (fst (displayLLMExplanation (Some ?bad) (Some empty_td) explanation_page))
          ''customerTimelineViz'' = elems explanation_page ''customerTimelineViz''"
    by (rule display_throws [OF e(1), where ts = "[]" and t = "\<lparr>txn_amount = None,
          txn_time = Some ''2025-01-01 10:00'', txn_risk = Some ''Low Risk''\<rparr>"])
      (simp_all add: recent_txns_def profile_with_def)
  then have s: "shown ''customerTimelineViz''
      (displayLLMExplanation (Some ?bad) (Some empty_td) explanation_page) = Some (Text [])"
    using e(2) by (simp add: shown_def)
  have "\<forall>t \<in> set (recent_txns ?good). txn_amount t \<noteq> None"
    by (simp add: recent_txns_def profile_with_def)
  from display_run [OF this, of empty_td explanation_page]
  have g: "snd (displayLLMExplanation (Some ?good) (Some empty_td) explanation_page) = None"
    by simp
  have a: "average_amount (profile_with \<lparr>txn_amount = None,
      txn_time = Some ''2025-01-01 10:00'', txn_risk = Some ''Low Risk''\<rparr>) = None"
    by (simp add: profile_with_def)
  from t s g a insights_ok [of ?bad "Some empty_td" explanation_page] show ?thesis
    by simp
qed


end
